theory Spec2Isabelle
  imports Main "HOL-Library.Word"
begin

unbundle bit_operations_syntax

section \<open>Strings\<close>

text \<open>
  Go strings are byte sequences; they are modelled as \<^typ>\<open>string\<close>.
  \<open>HasPrefix\<close> and \<open>Contains\<close> are \<^verbatim>\<open>strings.HasPrefix\<close> and
  \<^verbatim>\<open>strings.Contains\<close> of the Go standard library.
\<close>

fun HasPrefix :: "string \<Rightarrow> string \<Rightarrow> bool" where
  "HasPrefix s [] = True"
| "HasPrefix [] (p # ps) = False"
| "HasPrefix (c # cs) (p # ps) = (c = p \<and> HasPrefix cs ps)"

fun Contains :: "string \<Rightarrow> string \<Rightarrow> bool" where
  "Contains [] substr = (substr = [])"
| "Contains (c # cs) substr = (HasPrefix (c # cs) substr \<or> Contains cs substr)"

section \<open>Backup target settings (config.go, lines 383-501)\<close>

text \<open>
  Each Go struct is a record; the fields carry the struct's name as a prefix because
  several structs share field names (\<open>Host\<close>, \<open>Port\<close>, \<open>Path\<close>). Go's \<open>int\<close> is
  only compared with 0 and assigned a constant here, so it is an \<^typ>\<open>int\<close>.
  \<open>Validate\<close> has a pointer receiver and returns an \<open>error\<close>: the model returns the
  error (\<open>None\<close> for \<open>nil\<close>, otherwise the message given to \<open>fmt.Errorf\<close>) together
  with the receiver as the call leaves it.
\<close>

record LocalBackupSettings =
  local_Path :: string

record FTPBackupSettings =
  ftp_Host :: string
  ftp_Port :: int
  ftp_Username :: string
  ftp_Password :: string
  ftp_Path :: string
  ftp_UseTLS :: bool

record SFTPBackupSettings =
  sftp_Host :: string
  sftp_Port :: int
  sftp_Username :: string
  sftp_Password :: string
  sftp_PrivateKeyPath :: string
  sftp_Path :: string

record S3BackupSettings =
  s3_Endpoint :: string
  s3_Region :: string
  s3_Bucket :: string
  s3_AccessKeyID :: string
  s3_SecretAccessKey :: string
  s3_Prefix :: string
  s3_UseSSL :: bool

record RsyncBackupSettings =
  rsync_Host :: string
  rsync_Port :: int
  rsync_Username :: string
  rsync_Path :: string
  rsync_SSHKeyPath :: string
  rsync_Options :: "string list"

record GoogleDriveBackupSettings =
  gdrive_CredentialsPath :: string
  gdrive_FolderID :: string

definition Local_Validate :: "LocalBackupSettings \<Rightarrow> string option \<times> LocalBackupSettings" where
  "Local_Validate s =
     (if local_Path s = [] then (Some ''local backup path cannot be empty'', s)
      else (None, s))"

definition FTP_Validate :: "FTPBackupSettings \<Rightarrow> string option \<times> FTPBackupSettings" where
  "FTP_Validate s =
     (if ftp_Host s = [] then (Some ''FTP host cannot be empty'', s)
      else (None, if ftp_Port s = 0 then s\<lparr>ftp_Port := 21\<rparr> else s))"

definition SFTP_Validate :: "SFTPBackupSettings \<Rightarrow> string option \<times> SFTPBackupSettings" where
  "SFTP_Validate s =
     (if sftp_Host s = [] then (Some ''SFTP host cannot be empty'', s)
      else
        let s1 = (if sftp_Port s = 0 then s\<lparr>sftp_Port := 22\<rparr> else s)
        in if sftp_Username s1 = [] then (Some ''SFTP username cannot be empty'', s1)
           else (None, s1))"

definition S3_Validate :: "S3BackupSettings \<Rightarrow> string option \<times> S3BackupSettings" where
  "S3_Validate s =
     (if s3_Bucket s = [] then (Some ''S3 bucket name cannot be empty'', s)
      else if s3_Region s = [] then (Some ''S3 region cannot be empty'', s)
      else (None, s))"

definition Rsync_Validate :: "RsyncBackupSettings \<Rightarrow> string option \<times> RsyncBackupSettings" where
  "Rsync_Validate s =
     (if rsync_Path s = [] then (Some ''rsync path cannot be empty'', s)
      else (None, if rsync_Host s \<noteq> [] \<and> rsync_Port s = 0 then s\<lparr>rsync_Port := 22\<rparr> else s))"

definition GoogleDrive_Validate ::
  "GoogleDriveBackupSettings \<Rightarrow> string option \<times> GoogleDriveBackupSettings" where
  "GoogleDrive_Validate s =
     (if gdrive_CredentialsPath s = [] then
        (Some ''google drive credentials path cannot be empty'', s)
      else (None, s))"

text \<open>
  The interface \<open>BackupTargetSettings\<close> has these six implementations; a value of the
  interface is one of them, and \<open>Validate\<close> dispatches on which.
\<close>

datatype BackupTargetSettings =
    Local LocalBackupSettings
  | FTP FTPBackupSettings
  | SFTP SFTPBackupSettings
  | S3 S3BackupSettings
  | Rsync RsyncBackupSettings
  | GoogleDrive GoogleDriveBackupSettings

fun Validate :: "BackupTargetSettings \<Rightarrow> string option \<times> BackupTargetSettings" where
  "Validate (Local s) = map_prod id Local (Local_Validate s)"
| "Validate (FTP s) = map_prod id FTP (FTP_Validate s)"
| "Validate (SFTP s) = map_prod id SFTP (SFTP_Validate s)"
| "Validate (S3 s) = map_prod id S3 (S3_Validate s)"
| "Validate (Rsync s) = map_prod id Rsync (Rsync_Validate s)"
| "Validate (GoogleDrive s) = map_prod id GoogleDrive (GoogleDrive_Validate s)"

text \<open>
  The claim's side of the comparison: the required fields of each variant, in the order
  of their declaration in the struct's checks, with the name the error is expected to
  carry, and the first of them that is empty.
\<close>

datatype required_field =
    LocalPath | FTPHost | SFTPHost | SFTPUsername | S3Bucket | S3Region | RsyncPath
  | GoogleDriveCredentialsPath

fun field_name :: "required_field \<Rightarrow> string" where
  "field_name LocalPath = ''path''"
| "field_name FTPHost = ''host''"
| "field_name SFTPHost = ''host''"
| "field_name SFTPUsername = ''username''"
| "field_name S3Bucket = ''bucket''"
| "field_name S3Region = ''region''"
| "field_name RsyncPath = ''path''"
| "field_name GoogleDriveCredentialsPath = ''credentials path''"

fun first_missing :: "BackupTargetSettings \<Rightarrow> required_field option" where
  "first_missing (Local s) = (if local_Path s = [] then Some LocalPath else None)"
| "first_missing (FTP s) = (if ftp_Host s = [] then Some FTPHost else None)"
| "first_missing (SFTP s) =
     (if sftp_Host s = [] then Some SFTPHost
      else if sftp_Username s = [] then Some SFTPUsername else None)"
| "first_missing (S3 s) =
     (if s3_Bucket s = [] then Some S3Bucket
      else if s3_Region s = [] then Some S3Region else None)"
| "first_missing (Rsync s) = (if rsync_Path s = [] then Some RsyncPath else None)"
| "first_missing (GoogleDrive s) =
     (if gdrive_CredentialsPath s = [] then Some GoogleDriveCredentialsPath else None)"

section \<open>Settings (config.go, lines 123-135, 230-250, 303-310, 540-587)\<close>

text \<open>
  The records keep the fields of \<open>Settings\<close> that the functions below read or write;
  nested structs are nested records. A \<open>[]string\<close> is a list, \<open>nil\<close> being the empty
  list.
\<close>

record OpenWeatherSettings =
  ow_Enabled :: bool
  ow_APIKey :: string
  ow_Endpoint :: string
  ow_Units :: string
  ow_Language :: string

record WeatherSettings =
  w_Provider :: string
  w_PollInterval :: int
  w_Debug :: bool
  w_OpenWeather :: OpenWeatherSettings

record RealtimeSettings =
  rt_OpenWeather :: OpenWeatherSettings
  rt_Weather :: WeatherSettings

record RangeFilterSettings =
  rf_Model :: string
  rf_Species :: "string list"

record BirdNETConfig =
  bn_RangeFilter :: RangeFilterSettings

record Settings =
  Debug :: bool
  Version :: string
  BuildDate :: string
  SystemID :: string
  ValidationWarnings :: "string list"
  BirdNET :: BirdNETConfig
  Realtime :: RealtimeSettings

text \<open>The zero values \<open>OpenWeatherSettings{}\<close> and \<open>Settings{}\<close>.\<close>

definition OpenWeatherSettings_zero :: OpenWeatherSettings where
  "OpenWeatherSettings_zero =
     \<lparr>ow_Enabled = False, ow_APIKey = [], ow_Endpoint = [], ow_Units = [], ow_Language = []\<rparr>"

definition Settings_zero :: Settings where
  "Settings_zero =
     \<lparr>Debug = False, Version = [], BuildDate = [], SystemID = [], ValidationWarnings = [],
      BirdNET = \<lparr>bn_RangeFilter = \<lparr>rf_Model = [], rf_Species = []\<rparr>\<rparr>,
      Realtime = \<lparr>rt_OpenWeather = OpenWeatherSettings_zero,
        rt_Weather = \<lparr>w_Provider = [], w_PollInterval = 0, w_Debug = False,
          w_OpenWeather = OpenWeatherSettings_zero\<rparr>\<rparr>\<rparr>"

definition GetWeatherSettings :: "Settings \<Rightarrow> string \<times> OpenWeatherSettings" where
  "GetWeatherSettings s =
     (if w_Provider (rt_Weather (Realtime s)) \<noteq> [] then
        (w_Provider (rt_Weather (Realtime s)), w_OpenWeather (rt_Weather (Realtime s)))
      else if ow_Enabled (rt_OpenWeather (Realtime s)) then
        (''openweather'', rt_OpenWeather (Realtime s))
      else (''yrno'', OpenWeatherSettings_zero))"

section \<open>Secret generation (config.go, lines 900-915)\<close>

text \<open>
  \<open>EncodeToString\<close> is \<^verbatim>\<open>base64.RawURLEncoding.EncodeToString\<close> of the Go standard
  library: three bytes are packed into a 24-bit value and read off in four 6-bit
  groups, each an index into the URL-safe alphabet; a trailing group of one or two
  bytes gives two or three characters, and no padding is written.
\<close>

definition encodeURL :: string where
  "encodeURL = ''ABCDEFGHIJKLMNOPQRSTUVWXYZabcdefghijklmnopqrstuvwxyz0123456789-_''"

definition enc :: "32 word \<Rightarrow> char" where
  "enc v = encodeURL ! unat (v AND 0x3F)"

fun EncodeToString :: "8 word list \<Rightarrow> string" where
  "EncodeToString (a # b # c # rest) =
     (let val = push_bit 16 (ucast a) OR push_bit 8 (ucast b) OR ucast c
      in enc (drop_bit 18 val) # enc (drop_bit 12 val) # enc (drop_bit 6 val) # enc val
           # EncodeToString rest)"
| "EncodeToString [a, b] =
     (let val = push_bit 16 (ucast a) OR push_bit 8 (ucast b)
      in [enc (drop_bit 18 val), enc (drop_bit 12 val), enc (drop_bit 6 val)])"
| "EncodeToString [a] =
     (let val = push_bit 16 (ucast a)
      in [enc (drop_bit 18 val), enc (drop_bit 12 val)])"
| "EncodeToString [] = []"

text \<open>
  The inverse of the encoding, \<^verbatim>\<open>base64.RawURLEncoding.DecodeString\<close> on the strings
  that \<open>EncodeToString\<close> produces: it is what says that an encoded string carries
  every bit of the bytes it encodes.
\<close>

fun index_of :: "char list \<Rightarrow> char \<Rightarrow> nat" where
  "index_of [] ch = 0"
| "index_of (x # xs) ch = (if x = ch then 0 else Suc (index_of xs ch))"

definition dec :: "char \<Rightarrow> 32 word" where
  "dec ch = of_nat (index_of encodeURL ch)"

fun DecodeString :: "string \<Rightarrow> 8 word list" where
  "DecodeString (p # q # r # s # rest) =
     ucast (push_bit 2 (dec p) OR drop_bit 4 (dec q))
     # ucast (push_bit 4 (dec q) OR drop_bit 2 (dec r))
     # ucast (push_bit 6 (dec r) OR dec s)
     # DecodeString rest"
| "DecodeString [p, q, r] =
     [ucast (push_bit 2 (dec p) OR drop_bit 4 (dec q)),
      ucast (push_bit 4 (dec q) OR drop_bit 2 (dec r))]"
| "DecodeString [p, q] = [ucast (push_bit 2 (dec p) OR drop_bit 4 (dec q))]"
| "DecodeString cs = []"

text \<open>
  \<^verbatim>\<open>crypto/rand.Read\<close> either fails or fills the whole buffer. The entropy source is
  a parameter: \<open>None\<close> when reading fails, otherwise the bytes it delivers by position.
\<close>

type_synonym entropy = "(nat \<Rightarrow> 8 word) option"

definition rand_Read :: "entropy \<Rightarrow> nat \<Rightarrow> 8 word list option" where
  "rand_Read src n = (case src of None \<Rightarrow> None | Some f \<Rightarrow> Some (map f [0..<n]))"

text \<open>
  \<open>GenerateRandomSecret\<close> returns the secret and the line it logs, if any. The logged
  error is built with category System; only the fact of logging is kept.
\<close>

definition GenerateRandomSecret :: "entropy \<Rightarrow> string \<times> string list" where
  "GenerateRandomSecret src =
     (case rand_Read src 32 of
        None \<Rightarrow> ([], [''Failed to generate random secret''])
      | Some bytes \<Rightarrow> (EncodeToString bytes, []))"

section \<open>Errors\<close>

datatype category =
  CategoryConfiguration | CategoryValidation | CategoryFileIO | CategorySystem

datatype errno =
  ENOENT | EEXIST | EXDEV | EACCES | EIO | ENOSPC | ENOTDIR | EISDIR | EROFS

text \<open>
  An \<open>error\<close> value is an error of the operating system, viper's
  \<open>ConfigFileNotFoundError\<close> or \<open>ConfigParseError\<close>, the package's
  \<open>ValidationError\<close> with its list of messages, some other error known by its text,
  or an error wrapped with a category and a context.
\<close>

datatype error =
    OSError errno
  | ConfigFileNotFoundError
  | ConfigParseError
  | ValidationError "string list"
  | OtherError string
  | Enhanced category "(string \<times> string) list" error

text \<open>
  Modelled from the spec: the package \<open>internal/errors\<close> is not among the sources.
  The spec says that every error is wrapped with its category plus structured context;
  \<open>Build err c ctx\<close> stands for
  \<^verbatim>\<open>errors.New(err).Category(c).Context(k1, v1)...Build()\<close>, and \<open>errors.As\<close> looks for
  its target through the wrapping.
\<close>

definition Build :: "error \<Rightarrow> category \<Rightarrow> (string \<times> string) list \<Rightarrow> error" where
  "Build err c ctx = Enhanced c ctx err"

fun error_category :: "error \<Rightarrow> category option" where
  "error_category (Enhanced c ctx err) = Some c"
| "error_category err = None"

fun As_ValidationError :: "error \<Rightarrow> string list option" where
  "As_ValidationError (ValidationError msgs) = Some msgs"
| "As_ValidationError (Enhanced c ctx err) = As_ValidationError err"
| "As_ValidationError err = None"

fun As_ConfigFileNotFoundError :: "error \<Rightarrow> bool" where
  "As_ConfigFileNotFoundError ConfigFileNotFoundError = True"
| "As_ConfigFileNotFoundError (Enhanced c ctx err) = As_ConfigFileNotFoundError err"
| "As_ConfigFileNotFoundError err = False"

text \<open>\<^verbatim>\<open>os.IsNotExist\<close>.\<close>

fun IsNotExist :: "errno \<Rightarrow> bool" where
  "IsNotExist ENOENT = True"
| "IsNotExist e = False"

text \<open>
  What a call can do other than return: panic, or end the process through
  \<^verbatim>\<open>log.Fatalf\<close>.
\<close>

datatype 'a outcome = Return 'a | Panic string | Fatal string

section \<open>The file system\<close>

text \<open>
  A path is the list of its components, which is what \<^verbatim>\<open>filepath.Clean\<close> leaves of
  an absolute path; \<^verbatim>\<open>filepath.Join\<close> with one more name appends it and
  \<^verbatim>\<open>filepath.Dir\<close> drops the last component. The empty path is the root. A file
  carries its content and the permission bits it was created with (\<open>os.FileMode\<close>, as
  requested by the call, before the process umask); a directory its permission bits.
\<close>

type_synonym path = "string list"
type_synonym mode = "32 word"

datatype node = RegularFile string mode | Directory mode

type_synonym filesys = "path \<Rightarrow> node option"

definition filepath_Join :: "path \<Rightarrow> string \<Rightarrow> path" where
  "filepath_Join dir name = dir @ [name]"

definition filepath_Dir :: "path \<Rightarrow> path" where
  "filepath_Dir p = butlast p"

definition path_string :: "path \<Rightarrow> string" where
  "path_string p = concat (map (\<lambda>c. CHR ''/'' # c) p)"

definition perm_0o755 :: mode where
  "perm_0o755 = 493"

definition perm_0o600 :: mode where
  "perm_0o600 = 384"

definition is_directory :: "filesys \<Rightarrow> path \<Rightarrow> bool" where
  "is_directory fs p = (p = [] \<or> (case fs p of Some (Directory m) \<Rightarrow> True | _ \<Rightarrow> False))"

definition file_content :: "filesys \<Rightarrow> path \<Rightarrow> string option" where
  "file_content fs p = (case fs p of Some (RegularFile d m) \<Rightarrow> Some d | _ \<Rightarrow> None)"

text \<open>
  \<^verbatim>\<open>os.MkdirAll(path, perm)\<close> creates the directory and every missing parent with the
  permission bits \<open>perm\<close>, leaves existing directories alone and fails on a parent that
  is a file. The parameter \<open>fault\<close> says which creations the system refuses.
\<close>

definition ancestors :: "path \<Rightarrow> path list" where
  "ancestors p = map (\<lambda>n. take n p) [1..<Suc (length p)]"

fun mkdirs :: "(path \<Rightarrow> errno option) \<Rightarrow> mode \<Rightarrow> path list \<Rightarrow> filesys \<Rightarrow> errno option \<times> filesys" where
  "mkdirs fault perm [] fs = (None, fs)"
| "mkdirs fault perm (p # ps) fs =
     (case fs p of
        Some (Directory m) \<Rightarrow> mkdirs fault perm ps fs
      | Some (RegularFile d m) \<Rightarrow> (Some ENOTDIR, fs)
      | None \<Rightarrow>
          (case fault p of
             Some e \<Rightarrow> (Some e, fs)
           | None \<Rightarrow> mkdirs fault perm ps (fs(p \<mapsto> Directory perm))))"

definition MkdirAll :: "(path \<Rightarrow> errno option) \<Rightarrow> path \<Rightarrow> mode \<Rightarrow> filesys \<Rightarrow> errno option \<times> filesys" where
  "MkdirAll fault p perm fs = mkdirs fault perm (ancestors p) fs"

text \<open>
  \<^verbatim>\<open>os.WriteFile(name, data, perm)\<close> opens the file, creating it with the permission
  bits \<open>perm\<close> if it does not exist and truncating it otherwise (its permission bits
  are then kept), and writes the data. It can fail in the opening, which changes
  nothing, or in the writing, which leaves the file with the first \<open>n\<close> bytes.
\<close>

datatype write_failure = OpenFails errno | WriteFails errno nat

definition WriteFile ::
  "(path \<Rightarrow> write_failure option) \<Rightarrow> path \<Rightarrow> string \<Rightarrow> mode \<Rightarrow> filesys
     \<Rightarrow> errno option \<times> filesys" where
  "WriteFile fault name data perm fs =
     (if name = [] then (Some EISDIR, fs)
      else if \<not> is_directory fs (filepath_Dir name) then (Some ENOENT, fs)
      else
        (case fs name of
           Some (Directory m) \<Rightarrow> (Some EISDIR, fs)
         | other \<Rightarrow>
             (let m = (case other of Some (RegularFile old m0) \<Rightarrow> m0 | _ \<Rightarrow> perm)
              in case fault name of
                   Some (OpenFails e) \<Rightarrow> (Some e, fs)
                 | Some (WriteFails e n) \<Rightarrow> (Some e, fs(name \<mapsto> RegularFile (take n data) m))
                 | None \<Rightarrow> (None, fs(name \<mapsto> RegularFile data m)))))"

text \<open>
  \<^verbatim>\<open>os.CreateTemp(dir, "config-*.yaml")\<close> creates a new, empty file in \<open>dir\<close> whose
  name has a random string in place of the star, with permission bits 0600. The
  parameter is the error, or the random string of the name that was free.
\<close>

definition temp_name :: "path \<Rightarrow> string \<Rightarrow> path" where
  "temp_name dir r = filepath_Join dir (''config-'' @ r @ ''.yaml'')"

definition CreateTemp :: "errno + string \<Rightarrow> path \<Rightarrow> filesys \<Rightarrow> (errno + path) \<times> filesys" where
  "CreateTemp rnd dir fs =
     (case rnd of
        Inl e \<Rightarrow> (Inl e, fs)
      | Inr r \<Rightarrow>
          if \<not> is_directory fs dir then (Inl ENOENT, fs)
          else if fs (temp_name dir r) \<noteq> None then (Inl EEXIST, fs)
          else (Inr (temp_name dir r), fs(temp_name dir r \<mapsto> RegularFile [] perm_0o600)))"

text \<open>
  Writing to the open temporary file: a failure leaves the first \<open>n\<close> bytes written.
\<close>

definition file_Write :: "(errno \<times> nat) option \<Rightarrow> path \<Rightarrow> string \<Rightarrow> filesys \<Rightarrow> errno option \<times> filesys" where
  "file_Write fault name data fs =
     (case fs name of
        Some (RegularFile old m) \<Rightarrow>
          (case fault of
             Some (e, n) \<Rightarrow> (Some e, fs(name \<mapsto> RegularFile (old @ take n data) m))
           | None \<Rightarrow> (None, fs(name \<mapsto> RegularFile (old @ data) m)))
      | _ \<Rightarrow> (Some ENOENT, fs))"

text \<open>
  \<^verbatim>\<open>os.Rename(oldpath, newpath)\<close> replaces \<open>newpath\<close> by the file in one step, or
  fails and changes nothing.
\<close>

definition os_Rename :: "errno option \<Rightarrow> path \<Rightarrow> path \<Rightarrow> filesys \<Rightarrow> errno option \<times> filesys" where
  "os_Rename fault oldpath newpath fs =
     (case fault of
        Some e \<Rightarrow> (Some e, fs)
      | None \<Rightarrow>
          (case fs oldpath of
             None \<Rightarrow> (Some ENOENT, fs)
           | Some n \<Rightarrow>
               if oldpath = newpath then (None, fs)
               else if is_directory fs newpath then (Some EISDIR, fs)
               else (None, (fs(newpath \<mapsto> n))(oldpath := None))))"

definition os_Remove :: "errno option \<Rightarrow> path \<Rightarrow> filesys \<Rightarrow> errno option \<times> filesys" where
  "os_Remove fault name fs =
     (case fs name of
        None \<Rightarrow> (Some ENOENT, fs)
      | Some n \<Rightarrow>
          (case fault of
             Some e \<Rightarrow> (Some e, fs)
           | None \<Rightarrow> (None, fs(name := None))))"

section \<open>The loader's state\<close>

text \<open>
  The part of viper's state that config.go uses: the name and type of the
  configuration file, the search paths, the registered defaults, the file as read, and
  the values set with \<^verbatim>\<open>viper.Set\<close>, which take precedence over the file, which takes
  precedence over the defaults.
\<close>

record viper_state =
  v_configName :: string
  v_configType :: string
  v_configPaths :: "path list"
  v_defaults :: "string \<Rightarrow> string option"
  v_config :: "string \<Rightarrow> string option"
  v_override :: "string \<Rightarrow> string option"

definition AddConfigPath :: "viper_state \<Rightarrow> path \<Rightarrow> viper_state" where
  "AddConfigPath v p =
     (if p \<in> set (v_configPaths v) then v else v\<lparr>v_configPaths := v_configPaths v @ [p]\<rparr>)"

definition GetString :: "viper_state \<Rightarrow> string \<Rightarrow> string" where
  "GetString v key =
     (case v_override v key of
        Some x \<Rightarrow> x
      | None \<Rightarrow>
          (case v_config v key of
             Some x \<Rightarrow> x
           | None \<Rightarrow> (case v_defaults v key of Some x \<Rightarrow> x | None \<Rightarrow> [])))"

definition viper_Set :: "viper_state \<Rightarrow> string \<Rightarrow> string \<Rightarrow> viper_state" where
  "viper_Set v key val = v\<lparr>v_override := (v_override v)(key \<mapsto> val)\<rparr>"

text \<open>
  The process: the three package variables of config.go (lines 607-612), viper, the file
  system, and two traces. \<open>sync_trace\<close> records the operations on the two mutexes and
  the reading of the range-filter species list, the one access that the source guards
  with \<open>speciesListMutex\<close>; \<open>log_lines\<close> records what is logged or printed (the formatted
  value of an error is left out of a logged line).
\<close>

datatype mutex = settingsMutex | speciesListMutex

datatype sync_event = Lock mutex | Unlock mutex | RLock mutex | RUnlock mutex | ReadSpecies

record process =
  settingsInstance :: "Settings option"
  once_done :: bool
  viper :: viper_state
  fsys :: filesys
  sync_trace :: "sync_event list"
  log_lines :: "string list"

definition sync :: "sync_event list \<Rightarrow> process \<Rightarrow> process" where
  "sync es st = st\<lparr>sync_trace := sync_trace st @ es\<rparr>"

definition log_Printf :: "string list \<Rightarrow> process \<Rightarrow> process" where
  "log_Printf ls st = st\<lparr>log_lines := log_lines st @ ls\<rparr>"

text \<open>
  The state of a process that has just started: \<open>settingsInstance\<close> is \<open>nil\<close>, the
  \<open>sync.Once\<close> has not run.
\<close>

definition viper_new :: viper_state where
  "viper_new =
     \<lparr>v_configName = [], v_configType = [], v_configPaths = [],
      v_defaults = (\<lambda>k. None), v_config = (\<lambda>k. None), v_override = (\<lambda>k. None)\<rparr>"

definition process_start :: "filesys \<Rightarrow> process" where
  "process_start fs =
     \<lparr>settingsInstance = None, once_done = False, viper = viper_new, fsys = fs,
      sync_trace = [], log_lines = []\<rparr>"

text \<open>
  What \<open>Load\<close> calls and config.go does not define is a parameter:
  \<open>GetDefaultConfigPaths\<close>, \<open>setDefaultConfig\<close> (the defaults it registers) and
  \<open>ValidateSettings\<close> of the package, \<^verbatim>\<open>viper.ReadInConfig\<close> and \<^verbatim>\<open>viper.Unmarshal\<close>,
  the embedded \<open>config.yaml\<close> (\<open>None\<close> when reading it fails), the entropy source,
  the creations of directories that the system refuses, and the files whose opening or
  writing fails.
\<close>

record load_env =
  GetDefaultConfigPaths :: "filesys \<Rightarrow> error + path list"
  setDefaultConfig :: "string \<Rightarrow> string option"
  ReadInConfig :: "viper_state \<Rightarrow> filesys \<Rightarrow> error + (string \<Rightarrow> string option)"
  Unmarshal :: "viper_state \<Rightarrow> error + Settings"
  ValidateSettings :: "Settings \<Rightarrow> error option \<times> Settings"
  embedded_config :: "string option"
  entropy_source :: entropy
  mkdir_fault :: "path \<Rightarrow> errno option"
  writefile_fault :: "path \<Rightarrow> write_failure option"

section \<open>Loading (config.go, lines 614-777)\<close>

definition clientsecret_key :: string where
  "clientsecret_key = ''security.basicauth.clientsecret''"

text \<open>
  \<open>createDefaultConfig\<close>, lines 724-761, in three pieces: \<open>set_secret_if_unset\<close> is
  lines 735-738, \<open>write_default_config\<close> lines 740-760 and \<open>read_config_again\<close> the
  last call of \<^verbatim>\<open>viper.ReadInConfig\<close>. \<open>configPaths[0]\<close> panics on an empty list, and
  \<open>getDefaultConfig\<close> ends the process when the embedded file cannot be read.
\<close>

definition set_secret_if_unset :: "load_env \<Rightarrow> process \<Rightarrow> process" where
  "set_secret_if_unset env st =
     (if GetString (viper st) clientsecret_key = [] then
        (case GenerateRandomSecret (entropy_source env) of
           (secret, logged) \<Rightarrow>
             log_Printf logged (st\<lparr>viper := viper_Set (viper st) clientsecret_key secret\<rparr>))
      else st)"

definition read_config_again :: "load_env \<Rightarrow> process \<Rightarrow> error option outcome \<times> process" where
  "read_config_again env st =
     (case ReadInConfig env (viper st) (fsys st) of
        Inl err \<Rightarrow> (Return (Some err), st)
      | Inr cfg \<Rightarrow> (Return None, st\<lparr>viper := (viper st)\<lparr>v_config := cfg\<rparr>\<rparr>))"

definition write_default_config ::
  "load_env \<Rightarrow> path \<Rightarrow> string \<Rightarrow> process \<Rightarrow> error option outcome \<times> process" where
  "write_default_config env configPath defaultConfig st =
     (case MkdirAll (mkdir_fault env) (filepath_Dir configPath) perm_0o755 (fsys st) of
        (Some e, fs1) \<Rightarrow>
          (Return (Some (Build (OSError e) CategoryFileIO
             [(''operation'', ''create-config-dirs''),
              (''path'', path_string (filepath_Dir configPath))])),
           st\<lparr>fsys := fs1\<rparr>)
      | (None, fs1) \<Rightarrow>
          (case WriteFile (writefile_fault env) configPath defaultConfig perm_0o600 fs1 of
             (Some e, fs2) \<Rightarrow>
               (Return (Some (Build (OSError e) CategoryFileIO
                  [(''operation'', ''write-default-config''),
                   (''path'', path_string configPath)])),
                st\<lparr>fsys := fs2\<rparr>)
           | (None, fs2) \<Rightarrow>
               read_config_again env
                 (log_Printf [''Created default config file at: '' @ path_string configPath]
                    (st\<lparr>fsys := fs2\<rparr>))))"

definition createDefaultConfig :: "load_env \<Rightarrow> process \<Rightarrow> error option outcome \<times> process" where
  "createDefaultConfig env st =
     (case GetDefaultConfigPaths env (fsys st) of
        Inl err \<Rightarrow>
          (Return (Some (Build err CategoryConfiguration
             [(''operation'', ''create-default-config-paths'')])), st)
      | Inr configPaths \<Rightarrow>
          (case configPaths of
             [] \<Rightarrow> (Panic ''index out of range [0] with length 0'', st)
           | p0 # rest \<Rightarrow>
               (case embedded_config env of
                  None \<Rightarrow> (Fatal ''Error reading config file'', st)
                | Some defaultConfig \<Rightarrow>
                    write_default_config env (filepath_Join p0 ''config.yaml'') defaultConfig
                      (set_secret_if_unset env st))))"

text \<open>
  \<open>initViper\<close>, lines 683-721. \<open>before_read\<close> is the process when
  \<^verbatim>\<open>viper.ReadInConfig\<close> is called: name and type of the file are set, the search
  paths added and the defaults registered.
\<close>

definition before_read :: "load_env \<Rightarrow> process \<Rightarrow> path list \<Rightarrow> process" where
  "before_read env st configPaths =
     st\<lparr>viper :=
       (foldl AddConfigPath
          ((viper st)\<lparr>v_configName := ''config'', v_configType := ''yaml''\<rparr>) configPaths)
       \<lparr>v_defaults := setDefaultConfig env\<rparr>\<rparr>"

definition initViper :: "load_env \<Rightarrow> process \<Rightarrow> error option outcome \<times> process" where
  "initViper env st =
     (case GetDefaultConfigPaths env (fsys st) of
        Inl err \<Rightarrow>
          (Return (Some (Build err CategoryConfiguration
             [(''operation'', ''get-config-paths'')])),
           st\<lparr>viper := (viper st)\<lparr>v_configName := ''config'', v_configType := ''yaml''\<rparr>\<rparr>)
      | Inr configPaths \<Rightarrow>
          (let st1 = before_read env st configPaths
           in case ReadInConfig env (viper st1) (fsys st1) of
                Inr cfg \<Rightarrow> (Return None, st1\<lparr>viper := (viper st1)\<lparr>v_config := cfg\<rparr>\<rparr>)
              | Inl err \<Rightarrow>
                  if As_ConfigFileNotFoundError err then createDefaultConfig env st1
                  else
                    (Return (Some (Build err CategoryFileIO
                       [(''operation'', ''read-config-file'')])), st1)))"

text \<open>
  The loop of \<open>Load\<close> over \<open>validationErr.Errors\<close>, lines 644-659: a message that
  contains "fallback" or "not supported" (the condition of line 645, \<open>is_warning\<close>)
  is logged and appended to \<open>settings.ValidationWarnings\<close>; the first other message
  makes \<open>Load\<close> return. The result carries the lines logged so far.
\<close>

definition is_warning :: "string \<Rightarrow> bool" where
  "is_warning errMsg \<longleftrightarrow> Contains errMsg ''fallback'' \<or> Contains errMsg ''not supported''"

fun classify_messages ::
  "error \<Rightarrow> string list \<Rightarrow> Settings \<Rightarrow> string list \<Rightarrow> (error + Settings) \<times> string list" where
  "classify_messages err [] settings logged = (Inr settings, logged)"
| "classify_messages err (errMsg # rest) settings logged =
     (if is_warning errMsg then
        classify_messages err rest
          (settings\<lparr>ValidationWarnings := ValidationWarnings settings @ [errMsg]\<rparr>)
          (logged @ [''Configuration warning: '' @ errMsg])
      else
        (Inl (Build err CategoryValidation
           [(''component'', ''settings''), (''error_msg'', errMsg)]), logged))"

text \<open>
  The validation step of \<open>Load\<close>, lines 639-667: the settings to install, or the error
  to return.
\<close>

definition validate_step :: "load_env \<Rightarrow> Settings \<Rightarrow> (error + Settings) \<times> string list" where
  "validate_step env settings =
     (case ValidateSettings env settings of
        (None, settings1) \<Rightarrow> (Inr settings1, [])
      | (Some err, settings1) \<Rightarrow>
          (case As_ValidationError err of
             Some errors \<Rightarrow> classify_messages err errors settings1 []
           | None \<Rightarrow>
               (Inl (Build err CategoryValidation [(''component'', ''settings'')]), [])))"

text \<open>
  The body of \<open>Load\<close> between taking and releasing \<open>settingsMutex\<close>. The assignment to
  \<open>settingsInstance\<close> is the last step.
\<close>

definition Load_body :: "load_env \<Rightarrow> process \<Rightarrow> (error + Settings) outcome \<times> process" where
  "Load_body env st =
     (case initViper env st of
        (Fatal msg, st1) \<Rightarrow> (Fatal msg, st1)
      | (Panic msg, st1) \<Rightarrow> (Panic msg, st1)
      | (Return (Some err), st1) \<Rightarrow>
          (Return (Inl (Build err CategoryConfiguration [(''operation'', ''init-viper'')])), st1)
      | (Return None, st1) \<Rightarrow>
          (case Unmarshal env (viper st1) of
             Inl err \<Rightarrow>
               (Return (Inl (Build err CategoryConfiguration
                  [(''operation'', ''unmarshal-config'')])), st1)
           | Inr settings \<Rightarrow>
               (case validate_step env settings of
                  (Inl err, logged) \<Rightarrow> (Return (Inl err), log_Printf logged st1)
                | (Inr settings1, logged) \<Rightarrow>
                    (Return (Inr settings1),
                     (log_Printf logged st1)\<lparr>settingsInstance := Some settings1\<rparr>))))"

text \<open>
  \<open>Load\<close>, lines 615-680. The deferred \<open>Unlock\<close> runs when the body returns or panics,
  not when the process is ended.
\<close>

definition Load :: "load_env \<Rightarrow> process \<Rightarrow> (error + Settings) outcome \<times> process" where
  "Load env st =
     (case Load_body env (sync [Lock settingsMutex] st) of
        (Fatal msg, st1) \<Rightarrow> (Fatal msg, st1)
      | (r, st1) \<Rightarrow> (r, sync [Unlock settingsMutex] st1))"

text \<open>\<open>GetSettings\<close>, lines 773-777: the pointer itself, \<open>None\<close> for \<open>nil\<close>.\<close>

definition GetSettings :: "process \<Rightarrow> Settings option \<times> process" where
  "GetSettings st =
     (settingsInstance st, sync [RLock settingsMutex, RUnlock settingsMutex] st)"

section \<open>Saving (config.go, lines 779-898)\<close>

text \<open>
  What the save path calls and config.go does not define is a parameter:
  \<open>FindConfigFile\<close> of the package, \<^verbatim>\<open>yaml.Marshal\<close>, the outcome of
  \<^verbatim>\<open>os.CreateTemp\<close>, and the failures of the write, of the close, of the rename, of
  the copy of \<open>moveFile\<close> and of the deferred \<^verbatim>\<open>os.Remove\<close>.
\<close>

record save_env =
  FindConfigFile :: "filesys \<Rightarrow> error + path"
  yaml_Marshal :: "Settings \<Rightarrow> error + string"
  createtemp_result :: "errno + string"
  write_fault :: "(errno \<times> nat) option"
  close_fault :: "errno option"
  rename_fault :: "errno option"
  copy_fault :: "errno option"
  remove_fault :: "errno option"

text \<open>
  Modelled from the spec: \<open>moveFile\<close> is called by \<open>SaveYAMLConfig\<close> and is not
  among the sources. The spec (section 4.4) calls it a copy-then-delete sequence and
  promises that a failed return leaves the destination document untouched and a
  successful one leaves it reflecting the snapshot. So the move fails only in its copy,
  and then the file system is as it was; when the copy is made the destination holds the
  content of the source and the source is deleted. A directory cannot be copied onto.
\<close>

definition moveFile :: "save_env \<Rightarrow> path \<Rightarrow> path \<Rightarrow> filesys \<Rightarrow> error option \<times> filesys" where
  "moveFile env src dst fs =
     (case fs src of
        Some (RegularFile data m) \<Rightarrow>
          (case copy_fault env of
             Some e \<Rightarrow> (Some (OSError e), fs)
           | None \<Rightarrow>
               if is_directory fs dst then (Some (OSError EISDIR), fs)
               else (None, (fs(dst \<mapsto> RegularFile data m))(src := None)))
      | _ \<Rightarrow> (Some (OSError ENOENT), fs))"

text \<open>
  The deferred function of \<open>SaveYAMLConfig\<close>, lines 858-862: it removes the temporary
  file; a failure other than "does not exist" is logged and nothing else.
\<close>

definition remove_temp :: "save_env \<Rightarrow> path \<Rightarrow> filesys \<Rightarrow> string list \<times> filesys" where
  "remove_temp env tempFileName fs =
     (case os_Remove (remove_fault env) tempFileName fs of
        (Some e, fs1) \<Rightarrow>
          (if \<not> IsNotExist e then [''Failed to remove temporary file''] else [], fs1)
      | (None, fs1) \<Rightarrow> ([], fs1))"

text \<open>
  Lines 864-897: write, close, rename, and \<open>moveFile\<close> when the rename fails, whatever
  the reason of the failure.
\<close>

definition replace_config ::
  "save_env \<Rightarrow> path \<Rightarrow> path \<Rightarrow> string \<Rightarrow> filesys \<Rightarrow> error option \<times> filesys" where
  "replace_config env tempFileName configPath yamlData fs =
     (case file_Write (write_fault env) tempFileName yamlData fs of
        (Some e, fs1) \<Rightarrow>
          (Some (Build (OSError e) CategoryFileIO [(''operation'', ''write-temp-file'')]), fs1)
      | (None, fs1) \<Rightarrow>
          (case close_fault env of
             Some e \<Rightarrow>
               (Some (Build (OSError e) CategoryFileIO [(''operation'', ''close-temp-file'')]),
                fs1)
           | None \<Rightarrow>
               (case os_Rename (rename_fault env) tempFileName configPath fs1 of
                  (None, fs2) \<Rightarrow> (None, fs2)
                | (Some e, fs2) \<Rightarrow>
                    (case moveFile env tempFileName configPath fs2 of
                       (Some err, fs3) \<Rightarrow>
                         (Some (Build err CategoryFileIO
                            [(''operation'', ''move-config-file''),
                             (''src'', path_string tempFileName),
                             (''dst'', path_string configPath)]), fs3)
                     | (None, fs3) \<Rightarrow> (None, fs3)))))"

text \<open>
  \<open>SaveYAMLConfig\<close>, lines 836-898: the error returned, the lines logged and the file
  system it leaves. The deferred removal runs on every return after the temporary file
  was created.
\<close>

definition SaveYAMLConfig ::
  "save_env \<Rightarrow> path \<Rightarrow> Settings \<Rightarrow> filesys \<Rightarrow> (error option \<times> string list) \<times> filesys" where
  "SaveYAMLConfig env configPath settings fs =
     (case yaml_Marshal env settings of
        Inl err \<Rightarrow>
          ((Some (Build err CategoryConfiguration [(''operation'', ''yaml-marshal'')]), []), fs)
      | Inr yamlData \<Rightarrow>
          (case CreateTemp (createtemp_result env) (filepath_Dir configPath) fs of
             (Inl e, fs0) \<Rightarrow>
               ((Some (Build (OSError e) CategoryFileIO
                   [(''operation'', ''create-temp-file''),
                    (''dir'', path_string (filepath_Dir configPath))]), []), fs0)
           | (Inr tempFileName, fs0) \<Rightarrow>
               (case replace_config env tempFileName configPath yamlData fs0 of
                  (r, fs1) \<Rightarrow>
                    (case remove_temp env tempFileName fs1 of
                       (logged, fs2) \<Rightarrow> ((r, logged), fs2)))))"

text \<open>
  Go's \<open>make([]string, n)\<close> and \<open>copy(dst, src)\<close>: \<open>copy\<close> overwrites the first
  \<open>min(len(dst), len(src))\<close> elements of \<open>dst\<close>.
\<close>

definition make_strings :: "nat \<Rightarrow> string list" where
  "make_strings n = replicate n []"

definition copy_strings :: "string list \<Rightarrow> string list \<Rightarrow> string list" where
  "copy_strings dst src =
     take (min (length dst) (length src)) src @ drop (min (length dst) (length src)) dst"

text \<open>
  Lines 786-791 of \<open>SaveSettings\<close>, on values: the copy of the struct, with its own
  copy of the species list. As a value the copy is the live settings again; which
  arrays it shares with them is the subject of the memory view further down.
\<close>

definition settings_copy :: "Settings \<Rightarrow> Settings" where
  "settings_copy live =
     (let settingsCopy = live;
          species = copy_strings
            (make_strings (length (rf_Species (bn_RangeFilter (BirdNET live)))))
            (rf_Species (bn_RangeFilter (BirdNET live)))
      in settingsCopy\<lparr>BirdNET := (BirdNET settingsCopy)
           \<lparr>bn_RangeFilter := (bn_RangeFilter (BirdNET settingsCopy))\<lparr>rf_Species := species\<rparr>\<rparr>\<rparr>)"

text \<open>
  \<open>SaveSettings\<close>, lines 781-814. \<open>*settingsInstance\<close> panics on \<open>nil\<close>; the deferred
  \<open>RUnlock\<close> runs then too.
\<close>

definition SaveSettings :: "save_env \<Rightarrow> process \<Rightarrow> error option outcome \<times> process" where
  "SaveSettings env st =
     (let st0 = sync [RLock settingsMutex] st
      in case settingsInstance st0 of
           None \<Rightarrow>
             (Panic ''invalid memory address or nil pointer dereference'',
              sync [RUnlock settingsMutex] st0)
         | Some live \<Rightarrow>
             (let settingsCopy = settings_copy live;
                  st1 = sync [RLock speciesListMutex, ReadSpecies, RUnlock speciesListMutex] st0
              in case FindConfigFile env (fsys st1) of
                   Inl err \<Rightarrow>
                     (Return (Some (Build err CategoryFileIO
                        [(''operation'', ''find-config-file'')])),
                      sync [RUnlock settingsMutex] st1)
                 | Inr configPath \<Rightarrow>
                     (case SaveYAMLConfig env configPath settingsCopy (fsys st1) of
                        ((Some err, logged), fs1) \<Rightarrow>
                          (Return (Some (Build err CategoryFileIO
                             [(''operation'', ''save-yaml-config''),
                              (''path'', path_string configPath)])),
                           sync [RUnlock settingsMutex] (log_Printf logged (st1\<lparr>fsys := fs1\<rparr>)))
                      | ((None, logged), fs1) \<Rightarrow>
                          (Return None,
                           sync [RUnlock settingsMutex]
                             (log_Printf
                                (logged @ [''Settings saved successfully to '' @ path_string configPath])
                                (st1\<lparr>fsys := fs1\<rparr>))))))"

text \<open>
  \<open>Setting\<close>, lines 817-832. The function given to \<open>once.Do\<close> runs when the
  \<open>sync.Once\<close> has not run yet, and loads only if \<open>settingsInstance\<close> is \<open>nil\<close>;
  \<^verbatim>\<open>log.Fatalf\<close> ends the process. A \<open>sync.Once\<close> whose function panics counts as
  run.
\<close>

definition Setting :: "load_env \<Rightarrow> process \<Rightarrow> Settings option outcome \<times> process" where
  "Setting env st =
     (if once_done st then map_prod Return id (GetSettings st)
      else
        (case settingsInstance st of
           Some s \<Rightarrow> map_prod Return id (GetSettings (st\<lparr>once_done := True\<rparr>))
         | None \<Rightarrow>
             (case Load env st of
                (Return (Inr s), st1) \<Rightarrow> map_prod Return id (GetSettings (st1\<lparr>once_done := True\<rparr>))
              | (Return (Inl err), st1) \<Rightarrow> (Fatal ''Error loading settings'', st1)
              | (Panic msg, st1) \<Rightarrow> (Panic msg, st1\<lparr>once_done := True\<rparr>)
              | (Fatal msg, st1) \<Rightarrow> (Fatal msg, st1))))"

text \<open>
  \<open>Load\<close> is the one function that takes \<open>settingsMutex\<close> exclusively, so the calls of
  \<open>Load\<close> that a process has made are the \<open>Lock\<close> events of its trace.
\<close>

definition loads_performed :: "process \<Rightarrow> nat" where
  "loads_performed st = length (filter (\<lambda>e. e = Lock settingsMutex) (sync_trace st))"

section \<open>Sequences of calls\<close>

text \<open>
  A process makes calls of the four entry points one after the other, each with the
  environment it meets, until one of them ends the process.
\<close>

datatype call =
    Call_Load load_env
  | Call_GetSettings
  | Call_SaveSettings save_env
  | Call_Setting load_env

datatype call_result =
    Load_result "(error + Settings) outcome"
  | GetSettings_result "Settings option"
  | SaveSettings_result "error option outcome"
  | Setting_result "Settings option outcome"

fun do_call :: "call \<Rightarrow> process \<Rightarrow> call_result \<times> process" where
  "do_call (Call_Load env) st = map_prod Load_result id (Load env st)"
| "do_call Call_GetSettings st = map_prod GetSettings_result id (GetSettings st)"
| "do_call (Call_SaveSettings env) st = map_prod SaveSettings_result id (SaveSettings env st)"
| "do_call (Call_Setting env) st = map_prod Setting_result id (Setting env st)"

fun ends_process :: "call_result \<Rightarrow> bool" where
  "ends_process (Load_result (Fatal msg)) = True"
| "ends_process (SaveSettings_result (Fatal msg)) = True"
| "ends_process (Setting_result (Fatal msg)) = True"
| "ends_process r = False"

fun run :: "call list \<Rightarrow> process \<Rightarrow> call_result list \<times> process" where
  "run [] st = ([], st)"
| "run (c # cs) st =
     (case do_call c st of
        (r, st1) \<Rightarrow>
          if ends_process r then ([r], st1)
          else (case run cs st1 of (rs, st2) \<Rightarrow> (r # rs, st2)))"

text \<open>
  A call in which a \<open>Load\<close> completed successfully: \<open>Load\<close> returning settings, or
  \<open>Setting\<close> returning an instance.
\<close>

fun load_succeeded :: "call_result \<Rightarrow> bool" where
  "load_succeeded (Load_result (Return (Inr s))) = True"
| "load_succeeded (Setting_result (Return (Some s))) = True"
| "load_succeeded r = False"

section \<open>The copy of SaveSettings in memory (config.go, lines 785-792)\<close>

text \<open>
  A value of type \<open>[]string\<close> is a slice header: the address of its backing array,
  none for \<open>nil\<close>, and its length. The backing arrays are in a store that hands out
  its addresses in order. Of the slices and maps of \<open>Settings\<close> the memory view keeps
  two: \<open>Realtime.Species.Include\<close> (line 269), one of those that \<open>SaveSettings\<close>
  does not copy itself, and \<open>BirdNET.RangeFilter.Species\<close> (line 308).
\<close>

type_synonym addr = nat

record slice =
  array_at :: "addr option"
  slice_len :: nat

record memory =
  arrays :: "addr \<Rightarrow> string list option"
  next_free :: addr

record Settings_in_memory =
  mem_Include :: slice
  mem_Species :: slice

text \<open>What a reader of the slice sees.\<close>

definition elements :: "memory \<Rightarrow> slice \<Rightarrow> string list" where
  "elements mem sl =
     (case array_at sl of
        None \<Rightarrow> []
      | Some a \<Rightarrow> (case arrays mem a of None \<Rightarrow> [] | Some xs \<Rightarrow> take (slice_len sl) xs))"

text \<open>\<open>make([]string, n)\<close> takes a new array of \<open>n\<close> empty strings.\<close>

definition make_slice :: "nat \<Rightarrow> memory \<Rightarrow> slice \<times> memory" where
  "make_slice n mem =
     (\<lparr>array_at = Some (next_free mem), slice_len = n\<rparr>,
      mem\<lparr>arrays := (arrays mem)(next_free mem \<mapsto> make_strings n),
          next_free := Suc (next_free mem)\<rparr>)"

text \<open>\<open>copy(dst, src)\<close> writes into the array of \<open>dst\<close>.\<close>

definition copy_slice :: "slice \<Rightarrow> slice \<Rightarrow> memory \<Rightarrow> memory" where
  "copy_slice dst src mem =
     (case array_at dst of
        None \<Rightarrow> mem
      | Some a \<Rightarrow>
          (case arrays mem a of
             None \<Rightarrow> mem
           | Some xs \<Rightarrow>
               mem\<lparr>arrays := (arrays mem)
                 (a \<mapsto> copy_strings (take (slice_len dst) xs) (elements mem src)
                        @ drop (slice_len dst) xs)\<rparr>))"

text \<open>
  An assignment \<open>s[i] = v\<close> writes into the array of \<open>s\<close>, and panics when \<open>i\<close> is
  not below the length of \<open>s\<close>.
\<close>

definition store_at :: "slice \<Rightarrow> nat \<Rightarrow> string \<Rightarrow> memory \<Rightarrow> memory option" where
  "store_at sl i v mem =
     (if i < slice_len sl then
        (case array_at sl of
           None \<Rightarrow> None
         | Some a \<Rightarrow>
             (case arrays mem a of
                None \<Rightarrow> None
              | Some xs \<Rightarrow> Some (mem\<lparr>arrays := (arrays mem)(a \<mapsto> xs[i := v])\<rparr>)))
      else None)"

text \<open>What a reader of the slice \<open>t\<close> sees after \<open>s[i] = v\<close>.\<close>

definition read_after_store ::
  "slice \<Rightarrow> nat \<Rightarrow> string \<Rightarrow> slice \<Rightarrow> memory \<Rightarrow> string list option" where
  "read_after_store s i v t mem = map_option (\<lambda>mem1. elements mem1 t) (store_at s i v mem)"

text \<open>
  Lines 786-791: the assignment \<open>settingsCopy := *settingsInstance\<close> copies the struct,
  that is, the headers of its slices; then the species list of the copy is made anew
  and filled from the live one.
\<close>

definition copy_in_memory :: "Settings_in_memory \<Rightarrow> memory \<Rightarrow> Settings_in_memory \<times> memory" where
  "copy_in_memory live mem =
     (let settingsCopy = live
      in case make_slice (slice_len (mem_Species live)) mem of
           (species, mem1) \<Rightarrow>
             (settingsCopy\<lparr>mem_Species := species\<rparr>,
              copy_slice species (mem_Species live) mem1))"

section \<open>Example environments\<close>

text \<open>
  A machine whose only search path is \<open>/etc/birdnet-go\<close>: without a configuration
  file, with one, and with one that does not parse. On it viper finds the document at
  \<open>/etc/birdnet-go/config.yaml\<close> if a file is there, a document is the one line
  \<open>debug: true\<close> or \<open>debug: false\<close>, and unmarshalling takes \<open>Debug\<close> from it.
  Every other library call succeeds, and validation does what its parameter says.
\<close>

definition etc_birdnet :: path where
  "etc_birdnet = [''etc'', ''birdnet-go'']"

definition config_yaml :: path where
  "config_yaml = filepath_Join etc_birdnet ''config.yaml''"

definition fs_bare :: filesys where
  "fs_bare = (\<lambda>p. None)([''etc''] \<mapsto> Directory perm_0o755)"

definition fs_configured :: filesys where
  "fs_configured =
     fs_bare(etc_birdnet \<mapsto> Directory perm_0o755,
       config_yaml \<mapsto> RegularFile ''debug: true'' perm_0o600)"

definition fs_unparsable :: filesys where
  "fs_unparsable =
     fs_bare(etc_birdnet \<mapsto> Directory perm_0o755,
       config_yaml \<mapsto> RegularFile ''debug: maybe'' perm_0o600)"

definition parse_example :: "string \<Rightarrow> (string \<Rightarrow> string option) option" where
  "parse_example d =
     (if d = ''debug: true'' then Some ((\<lambda>k. None)(''debug'' \<mapsto> ''true''))
      else if d = ''debug: false'' then Some ((\<lambda>k. None)(''debug'' \<mapsto> ''false''))
      else None)"

definition read_example :: "viper_state \<Rightarrow> filesys \<Rightarrow> error + (string \<Rightarrow> string option)" where
  "read_example v fs =
     (case fs config_yaml of
        Some (RegularFile d m) \<Rightarrow>
          (case parse_example d of Some cfg \<Rightarrow> Inr cfg | None \<Rightarrow> Inl ConfigParseError)
      | _ \<Rightarrow> Inl ConfigFileNotFoundError)"

definition unmarshal_example :: "viper_state \<Rightarrow> error + Settings" where
  "unmarshal_example v = Inr (Settings_zero\<lparr>Debug := (v_config v ''debug'' = Some ''true'')\<rparr>)"

definition env_example :: "(Settings \<Rightarrow> error option \<times> Settings) \<Rightarrow> load_env" where
  "env_example validate =
     \<lparr>GetDefaultConfigPaths = (\<lambda>fs. Inr [etc_birdnet]),
      setDefaultConfig = (\<lambda>k. None),
      ReadInConfig = read_example,
      Unmarshal = unmarshal_example,
      ValidateSettings = validate,
      embedded_config = Some ''debug: false'',
      entropy_source = Some (\<lambda>i. of_nat i),
      mkdir_fault = (\<lambda>p. None),
      writefile_fault = (\<lambda>p. None)\<rparr>"

definition validate_warns :: "Settings \<Rightarrow> error option \<times> Settings" where
  "validate_warns s =
     (Some (ValidationError [''locale xx not supported'', ''using fallback en-uk'']), s)"

definition validate_rejects :: "Settings \<Rightarrow> error option \<times> Settings" where
  "validate_rejects s =
     (Some (ValidationError [''using fallback en-uk'', ''latitude out of range'']), s)"

text \<open>
  The same machine with a disk that cannot be read back: the document, once it is
  there, is found, and reading it fails.
\<close>

definition env_reread_fails :: load_env where
  "env_reread_fails =
     (env_example validate_warns)
       \<lparr>ReadInConfig := (\<lambda>v fs.
          case fs config_yaml of
            Some (RegularFile d m) \<Rightarrow> Inl (OSError EIO)
          | _ \<Rightarrow> Inl ConfigFileNotFoundError)\<rparr>"

text \<open>
  The save path on the same machine: the document is \<open>/etc/birdnet-go/config.yaml\<close>,
  the temporary file gets the random string 123, marshalling writes one line, and
  nothing fails; in \<open>save_env_stuck\<close> the file system turns read-only under the
  write: the write fails after five bytes and the temporary file cannot be removed.
\<close>

definition save_env_example :: save_env where
  "save_env_example =
     \<lparr>FindConfigFile = (\<lambda>fs. Inr config_yaml),
      yaml_Marshal = (\<lambda>s. Inr (if Debug s then ''debug: true'' else ''debug: false'')),
      createtemp_result = Inr ''123'',
      write_fault = None, close_fault = None, rename_fault = None,
      copy_fault = None, remove_fault = None\<rparr>"

definition save_env_stuck :: save_env where
  "save_env_stuck = save_env_example\<lparr>write_fault := Some (EIO, 5), remove_fault := Some EROFS\<rparr>"

definition config_tmp :: path where
  "config_tmp = temp_name etc_birdnet ''123''"

text \<open>
  The settings that loading the document with the two warnings gives, and the process
  after that load.
\<close>

definition settings_warned :: Settings where
  "settings_warned =
     Settings_zero\<lparr>Debug := True,
       ValidationWarnings := [''locale xx not supported'', ''using fallback en-uk'']\<rparr>"

definition process_loaded :: process where
  "process_loaded = snd (Load (env_example validate_warns) (process_start fs_configured))"

text \<open>Three calls, none of which loads successfully.\<close>

definition calls_without_load :: "call list" where
  "calls_without_load =
     [Call_GetSettings, Call_Load (env_example validate_rejects),
      Call_SaveSettings save_env_example]"

text \<open>
  Installed settings in memory: the list \<open>Realtime.Species.Include\<close> of two species in
  the array at address 0, the list \<open>BirdNET.RangeFilter.Species\<close> of two in the array
  at address 1.
\<close>

definition memory_example :: memory where
  "memory_example =
     \<lparr>arrays = (\<lambda>a. None)
        (0 \<mapsto> [''Strix aluco'', ''Bubo bubo''],
         1 \<mapsto> [''Parus major'', ''Pica pica'']),
      next_free = 2\<rparr>"

definition live_in_memory :: Settings_in_memory where
  "live_in_memory =
     \<lparr>mem_Include = \<lparr>array_at = Some 0, slice_len = 2\<rparr>,
      mem_Species = \<lparr>array_at = Some 1, slice_len = 2\<rparr>\<rparr>"

section \<open>What a call leaves alone\<close>

text \<open>
  Two states of the process with the same installed instance, the same \<open>sync.Once\<close>
  and the same trace of lock operations.
\<close>

definition same_store :: "process \<Rightarrow> process \<Rightarrow> bool" where
  "same_store st1 st \<longleftrightarrow>
     settingsInstance st1 = settingsInstance st \<and> once_done st1 = once_done st
     \<and> sync_trace st1 = sync_trace st"

text \<open>
  The file at \<open>p\<close> has been written from \<open>data\<close>: it holds \<open>data\<close> or, when the
  write is not known to be \<open>complete\<close>, a prefix of it, with permission bits 0600 if it
  did not exist and with the permission bits it had otherwise.
\<close>

definition written :: "filesys \<Rightarrow> filesys \<Rightarrow> path \<Rightarrow> string \<Rightarrow> bool \<Rightarrow> bool" where
  "written fs fs' p data complete \<longleftrightarrow>
     (case fs' p of
        Some (RegularFile d m) \<Rightarrow>
          HasPrefix data d \<and> (complete \<longrightarrow> d = data)
          \<and> (case fs p of
                None \<Rightarrow> m = perm_0o600
              | Some (RegularFile old m0) \<Rightarrow> m = m0
              | Some (Directory m0) \<Rightarrow> False)
      | _ \<Rightarrow> False)"

section \<open>Frames of the loading functions\<close>

lemma sync_fields [simp]:
  "settingsInstance (sync es st) = settingsInstance st"
  "once_done (sync es st) = once_done st"
  "viper (sync es st) = viper st"
  "fsys (sync es st) = fsys st"
  "log_lines (sync es st) = log_lines st"
  "sync_trace (sync es st) = sync_trace st @ es"
  by (simp_all add: sync_def)

lemma log_Printf_fields [simp]:
  "settingsInstance (log_Printf ls st) = settingsInstance st"
  "once_done (log_Printf ls st) = once_done st"
  "viper (log_Printf ls st) = viper st"
  "fsys (log_Printf ls st) = fsys st"
  "sync_trace (log_Printf ls st) = sync_trace st"
  "log_lines (log_Printf ls st) = log_lines st @ ls"
  by (simp_all add: log_Printf_def)

lemma same_store_simps [simp]:
  "same_store st st"
  "same_store (log_Printf ls st1) st = same_store st1 st"
  "same_store (st1\<lparr>fsys := fs\<rparr>) st = same_store st1 st"
  "same_store (st1\<lparr>viper := v\<rparr>) st = same_store st1 st"
  by (simp_all add: same_store_def)

lemma set_secret_if_unset_frame [simp]:
  "same_store (set_secret_if_unset env st) st"
  "fsys (set_secret_if_unset env st) = fsys st"
  by (simp_all add: set_secret_if_unset_def split: prod.splits)

lemma read_config_again_frame:
  "read_config_again env st = (r, st1) \<Longrightarrow> same_store st1 st \<and> fsys st1 = fsys st"
  by (auto simp add: read_config_again_def split: sum.splits)

lemma write_default_config_frame:
  "write_default_config env p d st = (r, st1) \<Longrightarrow> same_store st1 st"
  by (auto simp add: write_default_config_def same_store_def
        split: prod.splits option.splits dest!: read_config_again_frame)

lemma createDefaultConfig_frame:
  "createDefaultConfig env st = (r, st1) \<Longrightarrow> same_store st1 st"
proof -
  assume a: "createDefaultConfig env st = (r, st1)"
  have "\<And>p d. write_default_config env p d (set_secret_if_unset env st) = (r, st1)
          \<Longrightarrow> same_store st1 st"
    using write_default_config_frame set_secret_if_unset_frame(1) [of env st]
    by (fastforce simp add: same_store_def)
  with a show ?thesis
    by (auto simp add: createDefaultConfig_def split: sum.splits list.splits option.splits)
qed

lemma initViper_frame:
  "initViper env st = (r, st1) \<Longrightarrow> same_store st1 st"
  by (auto simp add: initViper_def before_read_def Let_def same_store_def
        split: sum.splits if_splits dest!: createDefaultConfig_frame)

lemma Load_body_cases:
  assumes "Load_body env st = (r, st1)"
  shows "once_done st1 = once_done st \<and> sync_trace st1 = sync_trace st
     \<and> settingsInstance st1 = (case r of Return (Inr s) \<Rightarrow> Some s | _ \<Rightarrow> settingsInstance st)"
  using assms
  by (auto simp add: Load_body_def same_store_def
        split: prod.splits outcome.splits option.splits sum.splits dest!: initViper_frame)

lemma Load_cases:
  assumes "Load env st = (r, st1)"
  shows "once_done st1 = once_done st
     \<and> sync_trace st1 = sync_trace st @ [Lock settingsMutex]
          @ (case r of Fatal msg \<Rightarrow> [] | _ \<Rightarrow> [Unlock settingsMutex])
     \<and> settingsInstance st1 = (case r of Return (Inr s) \<Rightarrow> Some s | _ \<Rightarrow> settingsInstance st)"
  using assms
  by (auto simp add: Load_def split: prod.splits outcome.splits sum.splits dest!: Load_body_cases)

lemma Load_loads_performed:
  "Load env st = (r, st1) \<Longrightarrow> loads_performed st1 = Suc (loads_performed st)"
  by (auto simp add: loads_performed_def split: outcome.splits dest!: Load_cases)

section \<open>Target validation\<close>

lemma Validate_fails_iff: "fst (Validate t) = None \<longleftrightarrow> first_missing t = None"
  by (cases t)
     (simp_all add: Local_Validate_def FTP_Validate_def SFTP_Validate_def S3_Validate_def
        Rsync_Validate_def GoogleDrive_Validate_def Let_def)

lemma Validate_error_names_field:
  "first_missing t = Some f \<Longrightarrow> \<exists>e. fst (Validate t) = Some e \<and> Contains e (field_name f)"
  by (cases t)
     (auto simp add: Local_Validate_def FTP_Validate_def SFTP_Validate_def S3_Validate_def
        Rsync_Validate_def GoogleDrive_Validate_def Let_def split: if_splits)

lemma Validate_errors_distinct:
  assumes "first_missing t = Some f" and "first_missing t' = Some f'" and "f \<noteq> f'"
  shows "fst (Validate t) \<noteq> fst (Validate t')"
  using assms
  by (cases t; cases t')
     (auto simp add: Local_Validate_def FTP_Validate_def SFTP_Validate_def S3_Validate_def
        Rsync_Validate_def GoogleDrive_Validate_def Let_def split: if_splits)

section \<open>Secret shape\<close>

lemma index_of_nth: "distinct xs \<Longrightarrow> i < length xs \<Longrightarrow> index_of xs (xs ! i) = i"
proof (induction xs arbitrary: i)
  case Nil
  then show ?case by simp
next
  case (Cons x xs)
  then show ?case by (cases i) auto
qed

lemma sextet_bound: "unat (v AND (0x3F :: 32 word)) < 64"
proof -
  have "unat (v AND 0x3F) \<le> unat (0x3F :: 32 word)"
    by (rule word_and_le1 [THEN word_le_nat_alt [THEN iffD1]])
  then show ?thesis by simp
qed

lemma enc_in_alphabet: "enc v \<in> set encodeURL"
proof -
  have "unat (v AND 0x3F) < length encodeURL"
    using sextet_bound [of v] by (simp add: encodeURL_def)
  then show ?thesis unfolding enc_def by (rule nth_mem)
qed

lemma dec_enc: "dec (enc v) = v AND 0x3F"
proof -
  have d: "distinct encodeURL" by (simp add: encodeURL_def)
  have l: "unat (v AND 0x3F) < length encodeURL"
    using sextet_bound [of v] by (simp add: encodeURL_def)
  have "index_of encodeURL (encodeURL ! unat (v AND 0x3F)) = unat (v AND 0x3F)"
    using d l by (rule index_of_nth)
  then show ?thesis by (simp add: dec_def enc_def)
qed

lemma sextet_mask: "(0x3F :: 32 word) = mask 6"
  by (simp add: mask_eq_exp_minus_1)

lemma Suc_Suc_diff: "2 \<le> n \<Longrightarrow> Suc (Suc (n - 2)) = n"
  by simp

lemma first_byte:
  fixes a b c :: "8 word"
  shows "ucast (push_bit 2 (drop_bit 18 (push_bit 16 (ucast a) OR push_bit 8 (ucast b) OR ucast c :: 32 word) AND 0x3F)
      OR drop_bit 4 (drop_bit 12 (push_bit 16 (ucast a) OR push_bit 8 (ucast b) OR ucast c :: 32 word) AND 0x3F)) = a"
  unfolding sextet_mask
  by (rule bit_eqI) (auto simp add: bit_simps Suc_Suc_diff dest: bit_imp_le_length)

lemma second_byte:
  fixes a b c :: "8 word"
  shows "ucast (push_bit 4 (drop_bit 12 (push_bit 16 (ucast a) OR push_bit 8 (ucast b) OR ucast c :: 32 word) AND 0x3F)
      OR drop_bit 2 (drop_bit 6 (push_bit 16 (ucast a) OR push_bit 8 (ucast b) OR ucast c :: 32 word) AND 0x3F)) = b"
  unfolding sextet_mask
  by (rule bit_eqI) (auto simp add: bit_simps Suc_Suc_diff dest: bit_imp_le_length)

lemma third_byte:
  fixes a b c :: "8 word"
  shows "ucast (push_bit 6 (drop_bit 6 (push_bit 16 (ucast a) OR push_bit 8 (ucast b) OR ucast c :: 32 word) AND 0x3F)
      OR ((push_bit 16 (ucast a) OR push_bit 8 (ucast b) OR ucast c :: 32 word) AND 0x3F)) = c"
  unfolding sextet_mask
  by (rule bit_eqI) (auto simp add: bit_simps Suc_Suc_diff dest: bit_imp_le_length)

lemma first_byte_of_two:
  fixes a b :: "8 word"
  shows "ucast (push_bit 2 (drop_bit 18 (push_bit 16 (ucast a) OR push_bit 8 (ucast b) :: 32 word) AND 0x3F)
      OR drop_bit 4 (drop_bit 12 (push_bit 16 (ucast a) OR push_bit 8 (ucast b) :: 32 word) AND 0x3F)) = a"
  unfolding sextet_mask
  by (rule bit_eqI) (auto simp add: bit_simps Suc_Suc_diff dest: bit_imp_le_length)

lemma second_byte_of_two:
  fixes a b :: "8 word"
  shows "ucast (push_bit 4 (drop_bit 12 (push_bit 16 (ucast a) OR push_bit 8 (ucast b) :: 32 word) AND 0x3F)
      OR drop_bit 2 (drop_bit 6 (push_bit 16 (ucast a) OR push_bit 8 (ucast b) :: 32 word) AND 0x3F)) = b"
  unfolding sextet_mask
  by (rule bit_eqI) (auto simp add: bit_simps Suc_Suc_diff dest: bit_imp_le_length)

lemma first_byte_of_one:
  fixes a :: "8 word"
  shows "ucast (push_bit 2 (drop_bit 18 (push_bit 16 (ucast a) :: 32 word) AND 0x3F)
      OR drop_bit 4 (drop_bit 12 (push_bit 16 (ucast a) :: 32 word) AND 0x3F)) = a"
  unfolding sextet_mask
  by (rule bit_eqI) (auto simp add: bit_simps Suc_Suc_diff dest: bit_imp_le_length)

lemma Decode_Encode: "DecodeString (EncodeToString bs) = bs"
proof (induction bs rule: EncodeToString.induct)
  case (1 a b c rest)
  then show ?case
    by (simp only: EncodeToString.simps DecodeString.simps Let_def dec_enc
          first_byte second_byte third_byte)
next
  case (2 a b)
  show ?case
    by (simp only: EncodeToString.simps DecodeString.simps Let_def dec_enc
          first_byte_of_two second_byte_of_two)
next
  case (3 a)
  show ?case
    by (simp only: EncodeToString.simps DecodeString.simps Let_def dec_enc first_byte_of_one)
next
  case 4
  show ?case by simp
qed

lemma length_EncodeToString: "length (EncodeToString bs) = (length bs * 4 + 2) div 3"
  by (induction bs rule: EncodeToString.induct) (simp_all add: Let_def)

lemma set_EncodeToString: "set (EncodeToString bs) \<subseteq> set encodeURL"
  by (induction bs rule: EncodeToString.induct) (simp_all add: Let_def enc_in_alphabet)

text \<open>
  C7. On the success path \<open>GenerateRandomSecret\<close> returns a string of exactly 43
  characters, all of them in the URL-safe base64 alphabet and none of them the padding
  character; the string is the encoding of the 32 bytes read from the entropy source
  and determines them (decoding gives them back), so it carries their 256 bits. When
  the entropy source fails, the function returns the empty string, and logs a line
  instead of returning an error.
\<close>

theorem GenerateRandomSecret_shape:
  "length (fst (GenerateRandomSecret (Some f))) = 43
   \<and> set (fst (GenerateRandomSecret (Some f))) \<subseteq> set encodeURL
   \<and> CHR ''='' \<notin> set (fst (GenerateRandomSecret (Some f)))
   \<and> fst (GenerateRandomSecret (Some f)) = EncodeToString (map f [0..<32])
   \<and> length (map f [0..<32]) = 32
   \<and> DecodeString (fst (GenerateRandomSecret (Some f))) = map f [0..<32]
   \<and> snd (GenerateRandomSecret (Some f)) = []
   \<and> GenerateRandomSecret None = ([], [''Failed to generate random secret''])"
proof -
  have "CHR ''='' \<notin> set encodeURL" by (simp add: encodeURL_def)
  then have "CHR ''='' \<notin> set (EncodeToString (map f [0..<32]))"
    using set_EncodeToString [of "map f [0..<32]"] by blast
  then show ?thesis
    using set_EncodeToString [of "map f [0..<32]"]
    by (simp add: GenerateRandomSecret_def rand_Read_def length_EncodeToString Decode_Encode)
qed

theorem GenerateRandomSecret_shape_witness:
  "fst (GenerateRandomSecret (Some (\<lambda>i. of_nat i))) = ''AAECAwQFBgcICQoLDA0ODxAREhMUFRYXGBkaGxwdHh8''
   \<and> length (fst (GenerateRandomSecret (Some (\<lambda>i. of_nat i)))) = 43"
proof -
  have g: "fst (GenerateRandomSecret (Some (\<lambda>i. of_nat i)))
             = ''AAECAwQFBgcICQoLDA0ODxAREhMUFRYXGBkaGxwdHh8''"
    by code_simp
  from GenerateRandomSecret_shape [of "\<lambda>i. of_nat i"]
  have l: "length (fst (GenerateRandomSecret (Some (\<lambda>i. of_nat i)))) = 43"
    by (rule conjunct1)
  from g l show ?thesis by (rule conjI)
qed

section \<open>Target defaulting\<close>

text \<open>
  C4. An FTP target with an empty host fails with the error that names the host, and one
  with a host and port 0 validates with port 21. An SFTP target with a host and port 0
  gets port 22; it fails with one error when the host is empty and with another when
  the username is. An rsync target fails when its path is empty; otherwise it validates,
  and its port becomes 22 exactly when its host is non-empty and its port is 0. For every
  variant, \<open>Validate\<close> fails exactly when a required field is empty; the error then
  contains the name of the first such field, and two different missing fields give two
  different errors.
\<close>

theorem target_validate_defaults:
  "(ftp_Host f = [] \<longrightarrow>
      FTP_Validate f = (Some ''FTP host cannot be empty'', f)
      \<and> Contains ''FTP host cannot be empty'' ''host'')
   \<and> (ftp_Host f \<noteq> [] \<and> ftp_Port f = 0 \<longrightarrow> FTP_Validate f = (None, f\<lparr>ftp_Port := 21\<rparr>))
   \<and> (sftp_Host s \<noteq> [] \<and> sftp_Port s = 0 \<longrightarrow> sftp_Port (snd (SFTP_Validate s)) = 22)
   \<and> (sftp_Host s \<noteq> [] \<and> sftp_Username s \<noteq> [] \<and> sftp_Port s = 0 \<longrightarrow>
        SFTP_Validate s = (None, s\<lparr>sftp_Port := 22\<rparr>))
   \<and> (sftp_Host s = [] \<longrightarrow> SFTP_Validate s = (Some ''SFTP host cannot be empty'', s))
   \<and> (sftp_Host s \<noteq> [] \<and> sftp_Username s = [] \<longrightarrow>
        fst (SFTP_Validate s) = Some ''SFTP username cannot be empty'')
   \<and> (rsync_Path r = [] \<longrightarrow> Rsync_Validate r = (Some ''rsync path cannot be empty'', r))
   \<and> (rsync_Path r \<noteq> [] \<longrightarrow>
        Rsync_Validate r =
          (None, if rsync_Host r \<noteq> [] \<and> rsync_Port r = 0 then r\<lparr>rsync_Port := 22\<rparr> else r))
   \<and> (fst (Validate t) = None \<longleftrightarrow> first_missing t = None)
   \<and> (\<forall>m. first_missing t = Some m \<longrightarrow>
         (\<exists>e. fst (Validate t) = Some e \<and> Contains e (field_name m)))
   \<and> (\<forall>m m'. first_missing t = Some m \<and> first_missing t' = Some m' \<and> m \<noteq> m' \<longrightarrow>
         fst (Validate t) \<noteq> fst (Validate t'))"
proof -
  have ftp: "ftp_Host f = [] \<longrightarrow>
      FTP_Validate f = (Some ''FTP host cannot be empty'', f)
      \<and> Contains ''FTP host cannot be empty'' ''host''"
    by (simp add: FTP_Validate_def)
  have ftp21: "ftp_Host f \<noteq> [] \<and> ftp_Port f = 0 \<longrightarrow> FTP_Validate f = (None, f\<lparr>ftp_Port := 21\<rparr>)"
    by (simp add: FTP_Validate_def)
  have sftp: "(sftp_Host s \<noteq> [] \<and> sftp_Port s = 0 \<longrightarrow> sftp_Port (snd (SFTP_Validate s)) = 22)
     \<and> (sftp_Host s \<noteq> [] \<and> sftp_Username s \<noteq> [] \<and> sftp_Port s = 0 \<longrightarrow>
          SFTP_Validate s = (None, s\<lparr>sftp_Port := 22\<rparr>))
     \<and> (sftp_Host s = [] \<longrightarrow> SFTP_Validate s = (Some ''SFTP host cannot be empty'', s))
     \<and> (sftp_Host s \<noteq> [] \<and> sftp_Username s = [] \<longrightarrow>
          fst (SFTP_Validate s) = Some ''SFTP username cannot be empty'')"
    by (simp add: SFTP_Validate_def Let_def)
  have rsync: "(rsync_Path r = [] \<longrightarrow> Rsync_Validate r = (Some ''rsync path cannot be empty'', r))
     \<and> (rsync_Path r \<noteq> [] \<longrightarrow>
        Rsync_Validate r =
          (None, if rsync_Host r \<noteq> [] \<and> rsync_Port r = 0 then r\<lparr>rsync_Port := 22\<rparr> else r))"
    by (simp add: Rsync_Validate_def)
  have distinct: "\<forall>m m'. first_missing t = Some m \<and> first_missing t' = Some m' \<and> m \<noteq> m' \<longrightarrow>
         fst (Validate t) \<noteq> fst (Validate t')"
    using Validate_errors_distinct by blast
  have names: "\<forall>m. first_missing t = Some m \<longrightarrow>
         (\<exists>e. fst (Validate t) = Some e \<and> Contains e (field_name m))"
    using Validate_error_names_field by blast
  from ftp ftp21 sftp rsync Validate_fails_iff [of t] names distinct show ?thesis
    by blast
qed

theorem target_validate_defaults_witness:
  "FTP_Validate \<lparr>ftp_Host = ''nas'', ftp_Port = 0, ftp_Username = ''u'', ftp_Password = ''p'',
       ftp_Path = ''/b'', ftp_UseTLS = False\<rparr>
     = (None, \<lparr>ftp_Host = ''nas'', ftp_Port = 21, ftp_Username = ''u'', ftp_Password = ''p'',
       ftp_Path = ''/b'', ftp_UseTLS = False\<rparr>)
   \<and> fst (FTP_Validate \<lparr>ftp_Host = [], ftp_Port = 0, ftp_Username = ''u'', ftp_Password = ''p'',
       ftp_Path = ''/b'', ftp_UseTLS = False\<rparr>) = Some ''FTP host cannot be empty''
   \<and> sftp_Port (snd (SFTP_Validate \<lparr>sftp_Host = ''nas'', sftp_Port = 0, sftp_Username = [],
       sftp_Password = [], sftp_PrivateKeyPath = [], sftp_Path = []\<rparr>)) = 22
   \<and> fst (SFTP_Validate \<lparr>sftp_Host = ''nas'', sftp_Port = 0, sftp_Username = [],
       sftp_Password = [], sftp_PrivateKeyPath = [], sftp_Path = []\<rparr>)
       = Some ''SFTP username cannot be empty''
   \<and> fst (SFTP_Validate \<lparr>sftp_Host = [], sftp_Port = 0, sftp_Username = [],
       sftp_Password = [], sftp_PrivateKeyPath = [], sftp_Path = []\<rparr>)
       = Some ''SFTP host cannot be empty''
   \<and> rsync_Port (snd (Rsync_Validate \<lparr>rsync_Host = ''nas'', rsync_Port = 0, rsync_Username = [],
       rsync_Path = ''/b'', rsync_SSHKeyPath = [], rsync_Options = []\<rparr>)) = 22
   \<and> rsync_Port (snd (Rsync_Validate \<lparr>rsync_Host = [], rsync_Port = 0, rsync_Username = [],
       rsync_Path = ''/b'', rsync_SSHKeyPath = [], rsync_Options = []\<rparr>)) = 0
   \<and> fst (Rsync_Validate \<lparr>rsync_Host = ''nas'', rsync_Port = 0, rsync_Username = [],
       rsync_Path = [], rsync_SSHKeyPath = [], rsync_Options = []\<rparr>)
       = Some ''rsync path cannot be empty''
   \<and> first_missing (S3 \<lparr>s3_Endpoint = [], s3_Region = [], s3_Bucket = ''b'', s3_AccessKeyID = [],
       s3_SecretAccessKey = [], s3_Prefix = [], s3_UseSSL = True\<rparr>) = Some S3Region
   \<and> first_missing (S3 \<lparr>s3_Endpoint = [], s3_Region = [], s3_Bucket = [], s3_AccessKeyID = [],
       s3_SecretAccessKey = [], s3_Prefix = [], s3_UseSSL = True\<rparr>) = Some S3Bucket
   \<and> fst (Validate (S3 \<lparr>s3_Endpoint = [], s3_Region = [], s3_Bucket = ''b'', s3_AccessKeyID = [],
       s3_SecretAccessKey = [], s3_Prefix = [], s3_UseSSL = True\<rparr>))
     \<noteq> fst (Validate (S3 \<lparr>s3_Endpoint = [], s3_Region = [], s3_Bucket = [], s3_AccessKeyID = [],
       s3_SecretAccessKey = [], s3_Prefix = [], s3_UseSSL = True\<rparr>))"
  using
    target_validate_defaults [of
      "\<lparr>ftp_Host = ''nas'', ftp_Port = 0, ftp_Username = ''u'', ftp_Password = ''p'',
         ftp_Path = ''/b'', ftp_UseTLS = False\<rparr>"
      "\<lparr>sftp_Host = ''nas'', sftp_Port = 0, sftp_Username = [],
         sftp_Password = [], sftp_PrivateKeyPath = [], sftp_Path = []\<rparr>"
      "\<lparr>rsync_Host = ''nas'', rsync_Port = 0, rsync_Username = [],
         rsync_Path = ''/b'', rsync_SSHKeyPath = [], rsync_Options = []\<rparr>"
      "S3 \<lparr>s3_Endpoint = [], s3_Region = [], s3_Bucket = ''b'', s3_AccessKeyID = [],
         s3_SecretAccessKey = [], s3_Prefix = [], s3_UseSSL = True\<rparr>"
      "S3 \<lparr>s3_Endpoint = [], s3_Region = [], s3_Bucket = [], s3_AccessKeyID = [],
         s3_SecretAccessKey = [], s3_Prefix = [], s3_UseSSL = True\<rparr>"]
    target_validate_defaults [of
      "\<lparr>ftp_Host = [], ftp_Port = 0, ftp_Username = ''u'', ftp_Password = ''p'',
         ftp_Path = ''/b'', ftp_UseTLS = False\<rparr>"
      "\<lparr>sftp_Host = [], sftp_Port = 0, sftp_Username = [],
         sftp_Password = [], sftp_PrivateKeyPath = [], sftp_Path = []\<rparr>"
      "\<lparr>rsync_Host = ''nas'', rsync_Port = 0, rsync_Username = [],
         rsync_Path = [], rsync_SSHKeyPath = [], rsync_Options = []\<rparr>"]
    target_validate_defaults [of _ _
      "\<lparr>rsync_Host = [], rsync_Port = 0, rsync_Username = [],
         rsync_Path = ''/b'', rsync_SSHKeyPath = [], rsync_Options = []\<rparr>"]
  by simp

section \<open>Weather provider\<close>

text \<open>
  C10. \<open>GetWeatherSettings\<close> returns the provider and the OpenWeather settings of
  \<open>Realtime.Weather\<close> when that provider is non-empty, and then does not depend on the
  legacy settings \<open>Realtime.OpenWeather\<close>; otherwise "openweather" with the legacy
  settings when their \<open>Enabled\<close> flag is set; otherwise "yrno" with the zero value.
\<close>

theorem GetWeatherSettings_resolution:
  "(w_Provider (rt_Weather (Realtime s)) \<noteq> [] \<longrightarrow>
      GetWeatherSettings s =
        (w_Provider (rt_Weather (Realtime s)), w_OpenWeather (rt_Weather (Realtime s)))
      \<and> GetWeatherSettings (s\<lparr>Realtime := (Realtime s)\<lparr>rt_OpenWeather := legacy\<rparr>\<rparr>)
          = GetWeatherSettings s)
   \<and> (w_Provider (rt_Weather (Realtime s)) = [] \<and> ow_Enabled (rt_OpenWeather (Realtime s)) \<longrightarrow>
        GetWeatherSettings s = (''openweather'', rt_OpenWeather (Realtime s)))
   \<and> (w_Provider (rt_Weather (Realtime s)) = [] \<and> \<not> ow_Enabled (rt_OpenWeather (Realtime s)) \<longrightarrow>
        GetWeatherSettings s =
          (''yrno'', \<lparr>ow_Enabled = False, ow_APIKey = [], ow_Endpoint = [], ow_Units = [],
                     ow_Language = []\<rparr>))"
  by (simp add: GetWeatherSettings_def OpenWeatherSettings_zero_def)

theorem GetWeatherSettings_resolution_witness:
  "GetWeatherSettings (Settings_zero\<lparr>Realtime := (Realtime Settings_zero)
       \<lparr>rt_Weather := (rt_Weather (Realtime Settings_zero))\<lparr>w_Provider := ''openweather''\<rparr>\<rparr>\<rparr>)
     = (''openweather'', OpenWeatherSettings_zero)
   \<and> GetWeatherSettings (Settings_zero\<lparr>Realtime := (Realtime Settings_zero)
       \<lparr>rt_OpenWeather := OpenWeatherSettings_zero\<lparr>ow_Enabled := True, ow_APIKey := ''k''\<rparr>\<rparr>\<rparr>)
     = (''openweather'', OpenWeatherSettings_zero\<lparr>ow_Enabled := True, ow_APIKey := ''k''\<rparr>)
   \<and> GetWeatherSettings Settings_zero = (''yrno'', OpenWeatherSettings_zero)"
  using
    GetWeatherSettings_resolution [of "Settings_zero\<lparr>Realtime := (Realtime Settings_zero)
       \<lparr>rt_Weather := (rt_Weather (Realtime Settings_zero))\<lparr>w_Provider := ''openweather''\<rparr>\<rparr>\<rparr>"]
    GetWeatherSettings_resolution [of "Settings_zero\<lparr>Realtime := (Realtime Settings_zero)
       \<lparr>rt_OpenWeather := OpenWeatherSettings_zero\<lparr>ow_Enabled := True, ow_APIKey := ''k''\<rparr>\<rparr>\<rparr>"]
    GetWeatherSettings_resolution [of Settings_zero]
  by (simp add: Settings_zero_def OpenWeatherSettings_zero_def)

section \<open>Loading: installation and classification\<close>

lemma classify_messages_warnings:
  "\<forall>m\<in>set msgs. is_warning m \<Longrightarrow>
     classify_messages err msgs s logged =
       (Inr (s\<lparr>ValidationWarnings := ValidationWarnings s @ msgs\<rparr>),
        logged @ map (\<lambda>m. ''Configuration warning: '' @ m) msgs)"
  by (induction msgs arbitrary: s logged) simp_all

lemma classify_messages_fatal:
  "find (\<lambda>m. \<not> is_warning m) msgs = Some m \<Longrightarrow>
     fst (classify_messages err msgs s logged) =
       Inl (Build err CategoryValidation [(''component'', ''settings''), (''error_msg'', m)])"
  by (induction msgs arbitrary: s logged) (simp_all split: if_splits)

lemma find_fatal: "\<not> (\<forall>m\<in>set msgs. is_warning m) \<Longrightarrow> \<exists>m. find (\<lambda>m. \<not> is_warning m) msgs = Some m \<and> m \<in> set msgs \<and> \<not> is_warning m"
  by (induction msgs) auto

lemma validate_step_category:
  "validate_step env s = (Inl err, logged) \<Longrightarrow> error_category err = Some CategoryValidation"
proof -
  assume a: "validate_step env s = (Inl err, logged)"
  have c: "\<And>verr msgs s1 l. classify_messages verr msgs s1 l = (Inl err, logged) \<Longrightarrow> error_category err = Some CategoryValidation"
  proof -
    fix verr msgs s1 l
    show "classify_messages verr msgs s1 l = (Inl err, logged) \<Longrightarrow> error_category err = Some CategoryValidation"
      by (induction msgs arbitrary: s1 l) (auto simp add: Build_def split: if_splits)
  qed
  from a show ?thesis
    by (auto simp add: validate_step_def Build_def split: prod.splits option.splits dest: c)
qed

lemma Load_result:
  "fst (Load env st) =
     (case initViper env (sync [Lock settingsMutex] st) of
        (Fatal msg, st1) \<Rightarrow> Fatal msg
      | (Panic msg, st1) \<Rightarrow> Panic msg
      | (Return (Some err), st1) \<Rightarrow>
          Return (Inl (Build err CategoryConfiguration [(''operation'', ''init-viper'')]))
      | (Return None, st1) \<Rightarrow>
          (case Unmarshal env (viper st1) of
             Inl err \<Rightarrow>
               Return (Inl (Build err CategoryConfiguration [(''operation'', ''unmarshal-config'')]))
           | Inr settings \<Rightarrow> Return (fst (validate_step env settings))))"
  by (simp add: Load_def Load_body_def split: prod.splits outcome.splits option.splits sum.splits)

lemma env_example_fields [simp]:
  "GetDefaultConfigPaths (env_example v) = (\<lambda>fs. Inr [etc_birdnet])"
  "setDefaultConfig (env_example v) = (\<lambda>k. None)"
  "ReadInConfig (env_example v) = read_example"
  "Unmarshal (env_example v) = unmarshal_example"
  "ValidateSettings (env_example v) = v"
  "embedded_config (env_example v) = Some ''debug: false''"
  "entropy_source (env_example v) = Some (\<lambda>i. of_nat i)"
  "mkdir_fault (env_example v) = (\<lambda>p. None)"
  "writefile_fault (env_example v) = (\<lambda>p. None)"
  by (simp_all add: env_example_def)

lemma read_example_cases:
  "fs config_yaml = Some (RegularFile ''debug: true'' m) \<Longrightarrow>
     read_example x fs = Inr ((\<lambda>k. None)(''debug'' \<mapsto> ''true''))"
  "fs config_yaml = Some (RegularFile ''debug: false'' m) \<Longrightarrow>
     read_example x fs = Inr ((\<lambda>k. None)(''debug'' \<mapsto> ''false''))"
  "fs config_yaml = Some (RegularFile ''debug: maybe'' m) \<Longrightarrow>
     read_example x fs = Inl ConfigParseError"
  "fs config_yaml = None \<Longrightarrow> read_example x fs = Inl ConfigFileNotFoundError"
  by (simp_all add: read_example_def parse_example_def)

lemma initViper_example_found:
  assumes "fsys st config_yaml = Some (RegularFile ''debug: true'' m)"
  shows "fst (initViper (env_example v) st) = Return None"
    and "fsys (snd (initViper (env_example v) st)) = fsys st"
    and "unmarshal_example (viper (snd (initViper (env_example v) st)))
           = Inr (Settings_zero\<lparr>Debug := True\<rparr>)"
  using assms
  by (simp_all add: initViper_def before_read_def Let_def
        read_example_cases(1) [where fs = "fsys st" and m = m] unmarshal_example_def)

lemma Load_example_found:
  assumes "fsys st config_yaml = Some (RegularFile ''debug: true'' m)"
  shows "fst (Load (env_example v) st) =
      Return (fst (validate_step (env_example v) (Settings_zero\<lparr>Debug := True\<rparr>)))"
    and "fsys (snd (Load (env_example v) st)) = fsys st"
proof -
  let ?st0 = "sync [Lock settingsMutex] st"
  have a: "fsys ?st0 config_yaml = Some (RegularFile ''debug: true'' m)"
    using assms by simp
  obtain st1 where i: "initViper (env_example v) ?st0 = (Return None, st1)"
    and f: "fsys st1 = fsys st"
    and u: "unmarshal_example (viper st1) = Inr (Settings_zero\<lparr>Debug := True\<rparr>)"
    using initViper_example_found [OF a, of v] by (cases "initViper (env_example v) ?st0") auto
  show "fst (Load (env_example v) st) =
      Return (fst (validate_step (env_example v) (Settings_zero\<lparr>Debug := True\<rparr>)))"
    using i u by (simp add: Load_result)
  show "fsys (snd (Load (env_example v) st)) = fsys st"
    using i f u by (simp add: Load_def Load_body_def split: prod.splits sum.splits)
qed

lemma fs_configured_file:
  "fs_configured config_yaml = Some (RegularFile ''debug: true'' perm_0o600)"
  by (simp add: fs_configured_def)

lemma validate_step_warns:
  "validate_step (env_example validate_warns) (Settings_zero\<lparr>Debug := True\<rparr>) =
     (Inr settings_warned,
      [''Configuration warning: locale xx not supported'',
       ''Configuration warning: using fallback en-uk''])"
  by (simp add: validate_step_def validate_warns_def is_warning_def Settings_zero_def
        settings_warned_def)

lemma validate_step_rejects:
  "fst (validate_step (env_example validate_rejects) (Settings_zero\<lparr>Debug := True\<rparr>)) =
     Inl (Build (ValidationError [''using fallback en-uk'', ''latitude out of range''])
         CategoryValidation
         [(''component'', ''settings''), (''error_msg'', ''latitude out of range'')])"
  by (simp add: validate_step_def validate_rejects_def is_warning_def)

text \<open>
  C3. \<open>Load\<close> assigns \<open>settingsInstance\<close> only when it succeeds: when it returns
  settings they are the installed instance, and in every other case the instance
  installed before is the instance installed after. An error of \<open>initViper\<close>, an
  error of \<open>Unmarshal\<close> and a fatal validation error each make \<open>Load\<close> return an
  error, and \<open>Load\<close> returns settings only when initialisation, unmarshalling and
  validation have all succeeded.
\<close>

theorem Load_installs_only_on_success:
  "(\<forall>s. fst (Load env st) = Return (Inr s) \<longrightarrow> settingsInstance (snd (Load env st)) = Some s)
   \<and> ((\<forall>s. fst (Load env st) \<noteq> Return (Inr s)) \<longrightarrow>
        settingsInstance (snd (Load env st)) = settingsInstance st)
   \<and> (\<forall>err st1. initViper env (sync [Lock settingsMutex] st) = (Return (Some err), st1) \<longrightarrow>
        fst (Load env st) =
          Return (Inl (Build err CategoryConfiguration [(''operation'', ''init-viper'')]))
        \<and> settingsInstance (snd (Load env st)) = settingsInstance st)
   \<and> (\<forall>err st1. initViper env (sync [Lock settingsMutex] st) = (Return None, st1)
          \<and> Unmarshal env (viper st1) = Inl err \<longrightarrow>
        fst (Load env st) =
          Return (Inl (Build err CategoryConfiguration [(''operation'', ''unmarshal-config'')]))
        \<and> settingsInstance (snd (Load env st)) = settingsInstance st)
   \<and> (\<forall>err st1 settings logged. initViper env (sync [Lock settingsMutex] st) = (Return None, st1)
          \<and> Unmarshal env (viper st1) = Inr settings
          \<and> validate_step env settings = (Inl err, logged) \<longrightarrow>
        fst (Load env st) = Return (Inl err) \<and> error_category err = Some CategoryValidation
        \<and> settingsInstance (snd (Load env st)) = settingsInstance st)
   \<and> (\<forall>s. fst (Load env st) = Return (Inr s) \<longrightarrow>
        (\<exists>st1 settings logged. initViper env (sync [Lock settingsMutex] st) = (Return None, st1)
           \<and> Unmarshal env (viper st1) = Inr settings
           \<and> validate_step env settings = (Inr s, logged)))"
proof -
  have c: "settingsInstance (snd (Load env st)) =
      (case fst (Load env st) of Return (Inr s) \<Rightarrow> Some s | _ \<Rightarrow> settingsInstance st)"
    using Load_cases [of env st "fst (Load env st)" "snd (Load env st)"] by simp
  have 1: "\<forall>s. fst (Load env st) = Return (Inr s) \<longrightarrow> settingsInstance (snd (Load env st)) = Some s"
    using c by simp
  have 2: "(\<forall>s. fst (Load env st) \<noteq> Return (Inr s)) \<longrightarrow>
        settingsInstance (snd (Load env st)) = settingsInstance st"
    using c by (simp split: outcome.splits sum.splits)
  have 3: "\<forall>err st1. initViper env (sync [Lock settingsMutex] st) = (Return (Some err), st1) \<longrightarrow>
        fst (Load env st) =
          Return (Inl (Build err CategoryConfiguration [(''operation'', ''init-viper'')]))
        \<and> settingsInstance (snd (Load env st)) = settingsInstance st"
    using c by (simp add: Load_result)
  have 4: "\<forall>err st1. initViper env (sync [Lock settingsMutex] st) = (Return None, st1)
          \<and> Unmarshal env (viper st1) = Inl err \<longrightarrow>
        fst (Load env st) =
          Return (Inl (Build err CategoryConfiguration [(''operation'', ''unmarshal-config'')]))
        \<and> settingsInstance (snd (Load env st)) = settingsInstance st"
    using c by (simp add: Load_result)
  have 5: "\<forall>err st1 settings logged. initViper env (sync [Lock settingsMutex] st) = (Return None, st1)
          \<and> Unmarshal env (viper st1) = Inr settings
          \<and> validate_step env settings = (Inl err, logged) \<longrightarrow>
        fst (Load env st) = Return (Inl err) \<and> error_category err = Some CategoryValidation
        \<and> settingsInstance (snd (Load env st)) = settingsInstance st"
    using c validate_step_category by (auto simp add: Load_result)
  have 6: "\<forall>s. fst (Load env st) = Return (Inr s) \<longrightarrow>
        (\<exists>st1 settings logged. initViper env (sync [Lock settingsMutex] st) = (Return None, st1)
           \<and> Unmarshal env (viper st1) = Inr settings
           \<and> validate_step env settings = (Inr s, logged))"
    by (auto simp add: Load_result split: prod.splits outcome.splits option.splits sum.splits)
       (metis prod.collapse)
  from 1 2 3 4 5 6 show ?thesis by blast
qed

theorem Load_installs_only_on_success_witness:
  "fst (Load (env_example validate_warns) (process_start fs_configured)) =
     Return (Inr settings_warned)
   \<and> settingsInstance (snd (Load (env_example validate_warns) (process_start fs_configured))) =
       Some settings_warned
   \<and> fst (Load (env_example validate_rejects)
         (snd (Load (env_example validate_warns) (process_start fs_configured)))) =
       Return (Inl (Build (ValidationError [''using fallback en-uk'', ''latitude out of range''])
         CategoryValidation
         [(''component'', ''settings''), (''error_msg'', ''latitude out of range'')]))
   \<and> settingsInstance (snd (Load (env_example validate_rejects)
         (snd (Load (env_example validate_warns) (process_start fs_configured))))) =
       Some settings_warned"
proof -
  let ?st = "process_start fs_configured"
  let ?st1 = "snd (Load (env_example validate_warns) ?st)"
  have f0: "fsys ?st config_yaml = Some (RegularFile ''debug: true'' perm_0o600)"
    by (simp add: process_start_def fs_configured_file)
  have f1: "fsys ?st1 config_yaml = Some (RegularFile ''debug: true'' perm_0o600)"
    using Load_example_found(2) [OF f0] f0 by simp
  have ok: "fst (Load (env_example validate_warns) ?st) = Return (Inr settings_warned)"
    using Load_example_found(1) [OF f0] by (simp add: validate_step_warns)
  have bad: "fst (Load (env_example validate_rejects) ?st1) =
      Return (Inl (Build (ValidationError [''using fallback en-uk'', ''latitude out of range''])
         CategoryValidation
         [(''component'', ''settings''), (''error_msg'', ''latitude out of range'')]))"
    using Load_example_found(1) [OF f1] by (simp add: validate_step_rejects)
  have 1: "settingsInstance ?st1 = Some settings_warned"
    using Load_installs_only_on_success [of "env_example validate_warns" ?st] ok by blast
  have 2: "settingsInstance (snd (Load (env_example validate_rejects) ?st1)) = settingsInstance ?st1"
    using Load_installs_only_on_success [of "env_example validate_rejects" ?st1] bad
    by (simp add: Build_def)
  from ok bad 1 2 show ?thesis by simp
qed

text \<open>
  C2. When validation reports a list of messages, \<open>Load\<close> succeeds exactly when every
  message is a warning, that is, contains "fallback" or "not supported". Then all the
  messages are appended, in order, to \<open>ValidationWarnings\<close> of the settings that are
  returned and installed. Otherwise \<open>Load\<close> returns an error of category Validation,
  which carries the first message that is not a warning, and installs nothing.
\<close>

theorem Load_warning_fatal_classification:
  assumes "initViper env (sync [Lock settingsMutex] st) = (Return None, st1)"
    and "Unmarshal env (viper st1) = Inr settings"
    and "ValidateSettings env settings = (Some verr, settings1)"
    and "As_ValidationError verr = Some msgs"
  shows "((\<exists>s. fst (Load env st) = Return (Inr s)) \<longleftrightarrow> (\<forall>m\<in>set msgs. is_warning m))
    \<and> ((\<forall>m\<in>set msgs. is_warning m) \<longrightarrow>
          fst (Load env st) =
            Return (Inr (settings1\<lparr>ValidationWarnings := ValidationWarnings settings1 @ msgs\<rparr>))
          \<and> settingsInstance (snd (Load env st)) =
              Some (settings1\<lparr>ValidationWarnings := ValidationWarnings settings1 @ msgs\<rparr>))
    \<and> (\<forall>m. find (\<lambda>m. \<not> is_warning m) msgs = Some m \<longrightarrow>
          fst (Load env st) =
            Return (Inl (Build verr CategoryValidation
              [(''component'', ''settings''), (''error_msg'', m)]))
          \<and> settingsInstance (snd (Load env st)) = settingsInstance st)
    \<and> (\<not> (\<forall>m\<in>set msgs. is_warning m) \<longrightarrow>
          (\<exists>err. fst (Load env st) = Return (Inl err)
             \<and> error_category err = Some CategoryValidation))
    \<and> (\<forall>m. is_warning m \<longleftrightarrow> Contains m ''fallback'' \<or> Contains m ''not supported'')"
proof -
  have r: "fst (Load env st) = Return (fst (classify_messages verr msgs settings1 []))"
    using assms by (simp add: Load_result validate_step_def)
  have c: "settingsInstance (snd (Load env st)) =
      (case fst (Load env st) of Return (Inr s) \<Rightarrow> Some s | _ \<Rightarrow> settingsInstance st)"
    using Load_cases [of env st "fst (Load env st)" "snd (Load env st)"] by simp
  have w: "(\<forall>m\<in>set msgs. is_warning m) \<longrightarrow>
          fst (Load env st) =
            Return (Inr (settings1\<lparr>ValidationWarnings := ValidationWarnings settings1 @ msgs\<rparr>))"
    using r by (simp add: classify_messages_warnings)
  have f: "\<forall>m. find (\<lambda>m. \<not> is_warning m) msgs = Some m \<longrightarrow>
          fst (Load env st) =
            Return (Inl (Build verr CategoryValidation
              [(''component'', ''settings''), (''error_msg'', m)]))"
    using r by (simp add: classify_messages_fatal)
  have n: "\<not> (\<forall>m\<in>set msgs. is_warning m) \<longrightarrow>
          (\<exists>err. fst (Load env st) = Return (Inl err)
             \<and> error_category err = Some CategoryValidation)"
  proof
    assume "\<not> (\<forall>m\<in>set msgs. is_warning m)"
    then obtain m where "find (\<lambda>m. \<not> is_warning m) msgs = Some m"
      using find_fatal [of msgs] by blast
    then have "fst (Load env st) =
        Return (Inl (Build verr CategoryValidation
          [(''component'', ''settings''), (''error_msg'', m)]))"
      using f by blast
    then show "\<exists>err. fst (Load env st) = Return (Inl err)
        \<and> error_category err = Some CategoryValidation"
      by (simp add: Build_def)
  qed
  have i: "(\<exists>s. fst (Load env st) = Return (Inr s)) \<longleftrightarrow> (\<forall>m\<in>set msgs. is_warning m)"
    using w n by auto
  have w': "(\<forall>m\<in>set msgs. is_warning m) \<longrightarrow>
          settingsInstance (snd (Load env st)) =
              Some (settings1\<lparr>ValidationWarnings := ValidationWarnings settings1 @ msgs\<rparr>)"
    using w c by simp
  have f': "\<forall>m. find (\<lambda>m. \<not> is_warning m) msgs = Some m \<longrightarrow>
          settingsInstance (snd (Load env st)) = settingsInstance st"
    using f c by simp
  have d: "\<forall>m. is_warning m \<longleftrightarrow> Contains m ''fallback'' \<or> Contains m ''not supported''"
    by (simp add: is_warning_def)
  from i w w' f f' n d show ?thesis by blast
qed

theorem Load_warning_fatal_classification_witness:
  "fst (Load (env_example validate_warns) (process_start fs_configured)) =
     Return (Inr (Settings_zero\<lparr>Debug := True, ValidationWarnings :=
       [''locale xx not supported'', ''using fallback en-uk'']\<rparr>))
   \<and> fst (Load (env_example validate_rejects) (process_start fs_configured)) =
       Return (Inl (Build (ValidationError [''using fallback en-uk'', ''latitude out of range''])
         CategoryValidation
         [(''component'', ''settings''), (''error_msg'', ''latitude out of range'')]))
   \<and> settingsInstance (snd (Load (env_example validate_rejects) (process_start fs_configured)))
       = None"
proof -
  let ?st = "process_start fs_configured"
  let ?d = "Settings_zero\<lparr>Debug := True\<rparr>"
  have f: "fsys (sync [Lock settingsMutex] ?st) config_yaml
      = Some (RegularFile ''debug: true'' perm_0o600)"
    by (simp add: process_start_def fs_configured_file)
  have i: "\<And>v. initViper (env_example v) (sync [Lock settingsMutex] ?st)
      = (Return None, snd (initViper (env_example v) (sync [Lock settingsMutex] ?st)))"
    using initViper_example_found(1) [OF f] by (metis prod.collapse)
  have u: "\<And>v. Unmarshal (env_example v)
      (viper (snd (initViper (env_example v) (sync [Lock settingsMutex] ?st)))) = Inr ?d"
    using initViper_example_found(3) [OF f] by simp
  have v1: "ValidateSettings (env_example validate_warns) ?d
      = (Some (ValidationError [''locale xx not supported'', ''using fallback en-uk'']), ?d)"
    by (simp add: validate_warns_def)
  have v2: "ValidateSettings (env_example validate_rejects) ?d
      = (Some (ValidationError [''using fallback en-uk'', ''latitude out of range'']), ?d)"
    by (simp add: validate_rejects_def)
  have a1: "As_ValidationError (ValidationError [''locale xx not supported'', ''using fallback en-uk''])
      = Some [''locale xx not supported'', ''using fallback en-uk'']"
    by simp
  have a2: "As_ValidationError (ValidationError [''using fallback en-uk'', ''latitude out of range''])
      = Some [''using fallback en-uk'', ''latitude out of range'']"
    by simp
  show ?thesis
    using Load_warning_fatal_classification [OF i u v1 a1]
      Load_warning_fatal_classification [OF i u v2 a2]
    by (simp add: is_warning_def Settings_zero_def process_start_def)
qed

section \<open>Materialization of the default document\<close>

lemma mkdirs_effect:
  "mkdirs fault perm ps fs = (r, fs') \<Longrightarrow>
     fs' p = fs p \<or> (p \<in> set ps \<and> fs p = None \<and> fs' p = Some (Directory perm))"
proof (induction ps arbitrary: fs)
  case Nil
  then show ?case by simp
next
  case (Cons q ps)
  show ?case
  proof (cases "fs q")
    case None
    show ?thesis
    proof (cases "fault q")
      case None
      with \<open>fs q = None\<close> Cons.prems
      have "mkdirs fault perm ps (fs(q \<mapsto> Directory perm)) = (r, fs')" by simp
      from Cons.IH [OF this] show ?thesis
        using \<open>fs q = None\<close> by (auto split: if_splits)
    next
      case (Some e)
      with \<open>fs q = None\<close> Cons.prems show ?thesis by simp
    qed
  next
    case (Some n)
    show ?thesis
    proof (cases n)
      case (RegularFile d m)
      with Some Cons.prems show ?thesis by simp
    next
      case (Directory m)
      with Some Cons.prems have "mkdirs fault perm ps fs = (r, fs')" by simp
      from Cons.IH [OF this] show ?thesis by auto
    qed
  qed
qed

lemma mkdirs_success:
  "mkdirs fault perm ps fs = (None, fs') \<Longrightarrow> q \<in> set ps \<Longrightarrow> \<exists>m. fs' q = Some (Directory m)"
proof (induction ps arbitrary: fs)
  case Nil
  then show ?case by simp
next
  case (Cons p ps)
  show ?case
  proof (cases "fs p")
    case None
    with Cons.prems obtain
      m: "mkdirs fault perm ps (fs(p \<mapsto> Directory perm)) = (None, fs')"
      by (cases "fault p") auto
    show ?thesis
    proof (cases "q \<in> set ps")
      case True
      with Cons.IH [OF m] show ?thesis by simp
    next
      case False
      with Cons.prems have "q = p" by simp
      then show ?thesis
        using mkdirs_effect [OF m, of p] by auto
    qed
  next
    case (Some n)
    with Cons.prems obtain m0 where n: "n = Directory m0"
      by (cases n) auto
    with Some Cons.prems have m: "mkdirs fault perm ps fs = (None, fs')" by simp
    show ?thesis
    proof (cases "q \<in> set ps")
      case True
      with Cons.IH [OF m] show ?thesis by simp
    next
      case False
      with Cons.prems have "q = p" by simp
      then show ?thesis
        using mkdirs_effect [OF m, of p] Some n by auto
    qed
  qed
qed

lemma self_in_ancestors: "p \<noteq> [] \<Longrightarrow> p \<in> set (ancestors p)"
proof -
  assume "p \<noteq> []"
  then have "length p \<in> set [1..<Suc (length p)]" by (cases p) auto
  then have "take (length p) p \<in> set (ancestors p)"
    unfolding ancestors_def by (simp only: set_map image_eqI)
  then show ?thesis by simp
qed

lemma longer_not_ancestor: "filepath_Join p name \<notin> set (ancestors p)"
  by (auto simp add: ancestors_def filepath_Join_def dest!: arg_cong [where f = length])

lemma MkdirAll_effect:
  "MkdirAll fault d perm fs = (r, fs') \<Longrightarrow>
     fs' p = fs p \<or> (p \<in> set (ancestors d) \<and> fs p = None \<and> fs' p = Some (Directory perm))"
  unfolding MkdirAll_def by (rule mkdirs_effect)

lemma MkdirAll_success:
  "MkdirAll fault d perm fs = (None, fs') \<Longrightarrow> is_directory fs' d"
proof (cases "d = []")
  case True
  then show ?thesis by (simp add: is_directory_def)
next
  case False
  assume "MkdirAll fault d perm fs = (None, fs')"
  then have "\<exists>m. fs' d = Some (Directory m)"
    unfolding MkdirAll_def using self_in_ancestors [OF False] by (rule mkdirs_success)
  then show ?thesis by (auto simp add: is_directory_def)
qed

lemma HasPrefix_take: "HasPrefix data (take n data)"
proof (induction data arbitrary: n)
  case Nil
  then show ?case by simp
next
  case (Cons c cs)
  then show ?case by (cases n) simp_all
qed

lemma HasPrefix_refl: "HasPrefix data data"
  by (induction data) simp_all

lemma WriteFile_effect:
  "WriteFile fault name data perm fs = (r, fs') \<Longrightarrow>
     fs' p = fs p
     \<or> (p = name
         \<and> (\<exists>d m. fs' p = Some (RegularFile d m) \<and> HasPrefix data d
              \<and> (fault name = None \<longrightarrow> d = data)
              \<and> (case fs p of
                    None \<Rightarrow> m = perm
                  | Some (RegularFile old m0) \<Rightarrow> m = m0
                  | Some (Directory m0) \<Rightarrow> False)))"
  by (auto simp add: WriteFile_def Let_def HasPrefix_take HasPrefix_refl
        split: option.splits if_splits node.splits write_failure.splits)

lemma WriteFile_creates:
  "fault name = None \<Longrightarrow> name \<noteq> [] \<Longrightarrow> is_directory fs (filepath_Dir name) \<Longrightarrow> fs name = None \<Longrightarrow>
     WriteFile fault name data perm fs = (None, fs(name \<mapsto> RegularFile data perm))"
  by (simp add: WriteFile_def)

lemma not_in_ancestors_Dir: "p \<notin> set (ancestors (filepath_Dir p))"
proof (cases "p = []")
  case True
  then show ?thesis by (simp add: ancestors_def filepath_Dir_def)
next
  case False
  then have "filepath_Join (filepath_Dir p) (last p) = p"
    by (simp add: filepath_Join_def filepath_Dir_def)
  then show ?thesis
    using longer_not_ancestor [of "filepath_Dir p" "last p"] by simp
qed

lemma write_default_config_fs:
  assumes "write_default_config env configPath tmpl st = (r, st1)"
  shows "fsys st1 p = fsys st p
     \<or> (fsys st p = None \<and> fsys st1 p = Some (Directory perm_0o755))
     \<or> (p = configPath
         \<and> written (fsys st) (fsys st1) p tmpl (writefile_fault env configPath = None))"
proof -
  obtain e fs1 where m: "MkdirAll (mkdir_fault env) (filepath_Dir configPath) perm_0o755 (fsys st) = (e, fs1)"
    by force
  note m1 = MkdirAll_effect [OF m, of p]
  have c: "fs1 configPath = fsys st configPath"
    using MkdirAll_effect [OF m, of configPath] not_in_ancestors_Dir [of configPath] by auto
  show ?thesis
  proof (cases e)
    case (Some x)
    with assms m have "fsys st1 = fs1" by (auto simp add: write_default_config_def)
    with m1 show ?thesis by auto
  next
    case None
    obtain e2 fs2 where w: "WriteFile (writefile_fault env) configPath tmpl perm_0o600 fs1 = (e2, fs2)"
      by force
    note w1 = WriteFile_effect [OF w, of p]
    have f: "fsys st1 = fs2"
      using assms m None w
      by (cases e2) (auto simp add: write_default_config_def dest!: read_config_again_frame)
    show ?thesis
    proof (cases "fs2 p = fs1 p")
      case True
      with m1 f show ?thesis by auto
    next
      case False
      with w1 obtain d m0 where p: "p = configPath"
        and d: "fs2 p = Some (RegularFile d m0)" "HasPrefix tmpl d"
          "writefile_fault env configPath = None \<longrightarrow> d = tmpl"
        and k: "case fs1 p of None \<Rightarrow> m0 = perm_0o600
                | Some (RegularFile old m1) \<Rightarrow> m0 = m1
                | Some (Directory m1) \<Rightarrow> False"
        by auto
      have "written (fsys st) (fsys st1) p tmpl (writefile_fault env configPath = None)"
        using p d k c f by (simp add: written_def)
      with p show ?thesis by simp
    qed
  qed
qed

lemma write_default_config_override:
  "write_default_config env configPath tmpl st = (r, st1) \<Longrightarrow>
     v_override (viper st1) = v_override (viper st)"
  by (auto simp add: write_default_config_def read_config_again_def
        split: prod.splits option.splits sum.splits)

lemma createDefaultConfig_fs:
  assumes "createDefaultConfig env st = (r, st1)"
  shows "fsys st1 p = fsys st p
     \<or> (fsys st p = None \<and> fsys st1 p = Some (Directory perm_0o755))
     \<or> (\<exists>p0 rest tmpl. GetDefaultConfigPaths env (fsys st) = Inr (p0 # rest)
           \<and> embedded_config env = Some tmpl \<and> p = filepath_Join p0 ''config.yaml''
           \<and> written (fsys st) (fsys st1) p tmpl (writefile_fault env p = None))"
proof (cases "GetDefaultConfigPaths env (fsys st)")
  case (Inl err)
  with assms show ?thesis by (auto simp add: createDefaultConfig_def)
next
  case (Inr paths)
  show ?thesis
  proof (cases paths)
    case Nil
    with Inr assms show ?thesis by (auto simp add: createDefaultConfig_def)
  next
    case (Cons p0 rest)
    show ?thesis
    proof (cases "embedded_config env")
      case None
      with Inr Cons assms show ?thesis by (auto simp add: createDefaultConfig_def)
    next
      case (Some tmpl)
      with Inr Cons assms
      have w: "write_default_config env (filepath_Join p0 ''config.yaml'') tmpl
          (set_secret_if_unset env st) = (r, st1)"
        by (simp add: createDefaultConfig_def)
      from write_default_config_fs [OF w, of p] Inr Cons Some show ?thesis
        by auto
    qed
  qed
qed

lemma createDefaultConfig_secret:
  assumes "createDefaultConfig env st = (r, st1)"
    and "GetDefaultConfigPaths env (fsys st) = Inr (p0 # rest)"
    and "embedded_config env = Some tmpl"
  shows "v_override (viper st1) =
     (if GetString (viper st) clientsecret_key = [] then
        (v_override (viper st))(clientsecret_key \<mapsto> fst (GenerateRandomSecret (entropy_source env)))
      else v_override (viper st))"
proof -
  from assms
  have w: "write_default_config env (filepath_Join p0 ''config.yaml'') tmpl
      (set_secret_if_unset env st) = (r, st1)"
    by (simp add: createDefaultConfig_def)
  have "v_override (viper (set_secret_if_unset env st)) =
     (if GetString (viper st) clientsecret_key = [] then
        (v_override (viper st))(clientsecret_key \<mapsto> fst (GenerateRandomSecret (entropy_source env)))
      else v_override (viper st))"
    by (simp add: set_secret_if_unset_def viper_Set_def split: prod.splits)
  with write_default_config_override [OF w] show ?thesis by simp
qed

lemma createDefaultConfig_materializes:
  assumes "GetDefaultConfigPaths env (fsys st) = Inr (p0 # rest)"
    and "embedded_config env = Some tmpl"
    and "MkdirAll (mkdir_fault env) p0 perm_0o755 (fsys st) = (None, fs1)"
    and "writefile_fault env (filepath_Join p0 ''config.yaml'') = None"
    and "fsys st (filepath_Join p0 ''config.yaml'') = None"
  shows "fsys (snd (createDefaultConfig env st)) =
     fs1(filepath_Join p0 ''config.yaml'' \<mapsto> RegularFile tmpl perm_0o600)"
    and "fst (createDefaultConfig env st) =
     Return (case ReadInConfig env (viper (set_secret_if_unset env st))
                 (fs1(filepath_Join p0 ''config.yaml'' \<mapsto> RegularFile tmpl perm_0o600)) of
               Inl err \<Rightarrow> Some err | Inr cfg \<Rightarrow> None)"
proof -
  let ?cp = "filepath_Join p0 ''config.yaml''"
  have d: "filepath_Dir ?cp = p0" by (simp add: filepath_Dir_def filepath_Join_def)
  have c: "fs1 ?cp = None"
    using MkdirAll_effect [OF assms(3), of ?cp] longer_not_ancestor [of p0 "''config.yaml''"] assms(5)
    by auto
  have w: "WriteFile (writefile_fault env) ?cp tmpl perm_0o600 fs1
      = (None, fs1(?cp \<mapsto> RegularFile tmpl perm_0o600))"
    using assms(4) c MkdirAll_success [OF assms(3)]
    by (intro WriteFile_creates) (simp_all add: d, simp add: filepath_Join_def)
  have m: "MkdirAll (mkdir_fault env) p0 perm_0o755 (fsys (set_secret_if_unset env st)) = (None, fs1)"
    using assms(3) by simp
  show "fsys (snd (createDefaultConfig env st)) = fs1(?cp \<mapsto> RegularFile tmpl perm_0o600)"
    using assms(1,2) m w
    by (simp add: createDefaultConfig_def write_default_config_def d read_config_again_def
          split: sum.splits)
  show "fst (createDefaultConfig env st) =
     Return (case ReadInConfig env (viper (set_secret_if_unset env st))
                 (fs1(?cp \<mapsto> RegularFile tmpl perm_0o600)) of
               Inl err \<Rightarrow> Some err | Inr cfg \<Rightarrow> None)"
    using assms(1,2) m w
    by (simp add: createDefaultConfig_def write_default_config_def d read_config_again_def
          split: sum.splits)
qed

lemma before_read_fields [simp]:
  "fsys (before_read env st paths) = fsys st"
  "v_override (viper (before_read env st paths)) = v_override (viper st)"
proof -
  show "fsys (before_read env st paths) = fsys st" by (simp add: before_read_def)
  have "\<And>v. v_override (foldl AddConfigPath v paths) = v_override v"
  proof -
    fix v show "v_override (foldl AddConfigPath v paths) = v_override v"
      by (induction paths arbitrary: v) (simp_all add: AddConfigPath_def)
  qed
  then show "v_override (viper (before_read env st paths)) = v_override (viper st)"
    by (simp add: before_read_def)
qed

lemma initViper_not_found:
  assumes "GetDefaultConfigPaths env (fsys st) = Inr paths"
    and "ReadInConfig env (viper (before_read env st paths)) (fsys st) = Inl err"
    and "As_ConfigFileNotFoundError err"
  shows "initViper env st = createDefaultConfig env (before_read env st paths)"
  using assms by (simp add: initViper_def Let_def)

lemma initViper_other_failure:
  assumes "GetDefaultConfigPaths env (fsys st) = Inr paths"
    and "ReadInConfig env (viper (before_read env st paths)) (fsys st) = Inl err"
    and "\<not> As_ConfigFileNotFoundError err"
  shows "initViper env st =
     (Return (Some (Build err CategoryFileIO [(''operation'', ''read-config-file'')])),
      before_read env st paths)"
  using assms by (simp add: initViper_def Let_def)

lemma initViper_writes_only_when_not_found:
  assumes "fsys (snd (initViper env st)) \<noteq> fsys st"
  shows "\<exists>paths err. GetDefaultConfigPaths env (fsys st) = Inr paths
     \<and> ReadInConfig env (viper (before_read env st paths)) (fsys st) = Inl err
     \<and> As_ConfigFileNotFoundError err"
proof (cases "GetDefaultConfigPaths env (fsys st)")
  case (Inl e)
  with assms show ?thesis by (simp add: initViper_def)
next
  case (Inr paths)
  show ?thesis
  proof (cases "ReadInConfig env (viper (before_read env st paths)) (fsys st)")
    case (Inl err)
    with Inr assms show ?thesis
      by (cases "As_ConfigFileNotFoundError err") (auto simp add: initViper_def Let_def)
  next
    case (Inr cfg)
    with \<open>GetDefaultConfigPaths env (fsys st) = Inr paths\<close> assms show ?thesis
      by (simp add: initViper_def Let_def)
  qed
qed

lemma initViper_fs:
  "fsys (snd (initViper env st)) p = fsys st p
     \<or> (fsys st p = None \<and> fsys (snd (initViper env st)) p = Some (Directory perm_0o755))
     \<or> (\<exists>p0 rest tmpl. GetDefaultConfigPaths env (fsys st) = Inr (p0 # rest)
           \<and> embedded_config env = Some tmpl \<and> p = filepath_Join p0 ''config.yaml''
           \<and> written (fsys st) (fsys (snd (initViper env st))) p tmpl
                 (writefile_fault env p = None))"
proof (cases "fsys (snd (initViper env st)) = fsys st")
  case True
  then show ?thesis by simp
next
  case False
  then obtain paths err where g: "GetDefaultConfigPaths env (fsys st) = Inr paths"
    and r: "ReadInConfig env (viper (before_read env st paths)) (fsys st) = Inl err"
    and n: "As_ConfigFileNotFoundError err"
    using initViper_writes_only_when_not_found by blast
  have i: "initViper env st = createDefaultConfig env (before_read env st paths)"
    using g r n by (rule initViper_not_found)
  have c: "createDefaultConfig env (before_read env st paths)
      = (fst (initViper env st), snd (initViper env st))"
    using i by simp
  from createDefaultConfig_fs [OF c, of p] show ?thesis by simp
qed

text \<open>
  C5, as the code has it. In \<open>initViper\<close>, a failure of the first
  \<^verbatim>\<open>viper.ReadInConfig\<close> other than "not found" gives an error of category FileIO
  and leaves the file system as it was; the file system changes only when that read
  failed with "not found". Whatever \<open>initViper\<close> creates is a directory with
  permission bits 0755 or the document \<open>config.yaml\<close> in the first search path, with
  permission bits 0600, holding the embedded template, or a prefix of it if the write
  failed half-way. In the "not found" case the client secret of the loader's
  configuration is set to the result of \<open>GenerateRandomSecret\<close> when none is set (the
  secret is set with \<^verbatim>\<open>viper.Set\<close>; the document holds the template), and when the
  directories and the file can be created the document is there afterwards, and
  \<open>initViper\<close> returns no error when the \<^verbatim>\<open>viper.ReadInConfig\<close> that follows
  succeeds. What \<open>initViper\<close> returns when that second read fails is not part of the
  statement.
\<close>

theorem initViper_materialization:
  "(\<forall>paths err. GetDefaultConfigPaths env (fsys st) = Inr paths
        \<and> ReadInConfig env (viper (before_read env st paths)) (fsys st) = Inl err
        \<and> \<not> As_ConfigFileNotFoundError err \<longrightarrow>
      fst (initViper env st) =
        Return (Some (Build err CategoryFileIO [(''operation'', ''read-config-file'')]))
      \<and> error_category (Build err CategoryFileIO [(''operation'', ''read-config-file'')])
          = Some CategoryFileIO
      \<and> fsys (snd (initViper env st)) = fsys st)
   \<and> (fsys (snd (initViper env st)) \<noteq> fsys st \<longrightarrow>
        (\<exists>paths err. GetDefaultConfigPaths env (fsys st) = Inr paths
           \<and> ReadInConfig env (viper (before_read env st paths)) (fsys st) = Inl err
           \<and> As_ConfigFileNotFoundError err))
   \<and> (\<forall>p n. fsys st p = None \<and> fsys (snd (initViper env st)) p = Some n \<longrightarrow>
        n = Directory perm_0o755
        \<or> (\<exists>p0 rest tmpl d. GetDefaultConfigPaths env (fsys st) = Inr (p0 # rest)
              \<and> embedded_config env = Some tmpl \<and> p = filepath_Join p0 ''config.yaml''
              \<and> n = RegularFile d perm_0o600 \<and> HasPrefix tmpl d
              \<and> (writefile_fault env p = None \<longrightarrow> d = tmpl)))
   \<and> (\<forall>p0 rest err tmpl. GetDefaultConfigPaths env (fsys st) = Inr (p0 # rest)
        \<and> ReadInConfig env (viper (before_read env st (p0 # rest))) (fsys st) = Inl err
        \<and> As_ConfigFileNotFoundError err \<and> embedded_config env = Some tmpl \<longrightarrow>
        v_override (viper (snd (initViper env st))) clientsecret_key =
          (if GetString (viper (before_read env st (p0 # rest))) clientsecret_key = [] then
             Some (fst (GenerateRandomSecret (entropy_source env)))
           else v_override (viper st) clientsecret_key)
        \<and> (\<forall>fs1. MkdirAll (mkdir_fault env) p0 perm_0o755 (fsys st) = (None, fs1)
              \<and> writefile_fault env (filepath_Join p0 ''config.yaml'') = None
              \<and> fsys st (filepath_Join p0 ''config.yaml'') = None \<longrightarrow>
            fsys (snd (initViper env st)) =
              fs1(filepath_Join p0 ''config.yaml'' \<mapsto> RegularFile tmpl perm_0o600)
            \<and> (\<forall>cfg. ReadInConfig env
                    (viper (set_secret_if_unset env (before_read env st (p0 # rest))))
                    (fs1(filepath_Join p0 ''config.yaml'' \<mapsto> RegularFile tmpl perm_0o600))
                  = Inr cfg \<longrightarrow> fst (initViper env st) = Return None)))
   \<and> perm_0o600 = 6 * 64 \<and> perm_0o755 = 7 * 64 + 5 * 8 + 5"
proof -
  have 1: "\<forall>paths err. GetDefaultConfigPaths env (fsys st) = Inr paths
        \<and> ReadInConfig env (viper (before_read env st paths)) (fsys st) = Inl err
        \<and> \<not> As_ConfigFileNotFoundError err \<longrightarrow>
      fst (initViper env st) =
        Return (Some (Build err CategoryFileIO [(''operation'', ''read-config-file'')]))
      \<and> error_category (Build err CategoryFileIO [(''operation'', ''read-config-file'')])
          = Some CategoryFileIO
      \<and> fsys (snd (initViper env st)) = fsys st"
    by (simp add: initViper_other_failure Build_def)
  have 2: "fsys (snd (initViper env st)) \<noteq> fsys st \<longrightarrow>
        (\<exists>paths err. GetDefaultConfigPaths env (fsys st) = Inr paths
           \<and> ReadInConfig env (viper (before_read env st paths)) (fsys st) = Inl err
           \<and> As_ConfigFileNotFoundError err)"
    using initViper_writes_only_when_not_found by blast
  have 3: "\<forall>p n. fsys st p = None \<and> fsys (snd (initViper env st)) p = Some n \<longrightarrow>
        n = Directory perm_0o755
        \<or> (\<exists>p0 rest tmpl d. GetDefaultConfigPaths env (fsys st) = Inr (p0 # rest)
              \<and> embedded_config env = Some tmpl \<and> p = filepath_Join p0 ''config.yaml''
              \<and> n = RegularFile d perm_0o600 \<and> HasPrefix tmpl d
              \<and> (writefile_fault env p = None \<longrightarrow> d = tmpl))"
  proof (intro allI impI)
    fix p n
    assume a: "fsys st p = None \<and> fsys (snd (initViper env st)) p = Some n"
    from initViper_fs [of env st p] a
    show "n = Directory perm_0o755
        \<or> (\<exists>p0 rest tmpl d. GetDefaultConfigPaths env (fsys st) = Inr (p0 # rest)
              \<and> embedded_config env = Some tmpl \<and> p = filepath_Join p0 ''config.yaml''
              \<and> n = RegularFile d perm_0o600 \<and> HasPrefix tmpl d
              \<and> (writefile_fault env p = None \<longrightarrow> d = tmpl))"
      by (cases n) (auto simp add: written_def)
  qed
  have 4: "\<forall>p0 rest err tmpl. GetDefaultConfigPaths env (fsys st) = Inr (p0 # rest)
        \<and> ReadInConfig env (viper (before_read env st (p0 # rest))) (fsys st) = Inl err
        \<and> As_ConfigFileNotFoundError err \<and> embedded_config env = Some tmpl \<longrightarrow>
        v_override (viper (snd (initViper env st))) clientsecret_key =
          (if GetString (viper (before_read env st (p0 # rest))) clientsecret_key = [] then
             Some (fst (GenerateRandomSecret (entropy_source env)))
           else v_override (viper st) clientsecret_key)
        \<and> (\<forall>fs1. MkdirAll (mkdir_fault env) p0 perm_0o755 (fsys st) = (None, fs1)
              \<and> writefile_fault env (filepath_Join p0 ''config.yaml'') = None
              \<and> fsys st (filepath_Join p0 ''config.yaml'') = None \<longrightarrow>
            fsys (snd (initViper env st)) =
              fs1(filepath_Join p0 ''config.yaml'' \<mapsto> RegularFile tmpl perm_0o600)
            \<and> (\<forall>cfg. ReadInConfig env
                    (viper (set_secret_if_unset env (before_read env st (p0 # rest))))
                    (fs1(filepath_Join p0 ''config.yaml'' \<mapsto> RegularFile tmpl perm_0o600))
                  = Inr cfg \<longrightarrow> fst (initViper env st) = Return None))"
  proof (intro allI impI, elim conjE)
    fix p0 rest err tmpl
    assume g: "GetDefaultConfigPaths env (fsys st) = Inr (p0 # rest)"
      and r: "ReadInConfig env (viper (before_read env st (p0 # rest))) (fsys st) = Inl err"
      and n: "As_ConfigFileNotFoundError err"
      and t: "embedded_config env = Some tmpl"
    let ?b = "before_read env st (p0 # rest)"
    have i: "initViper env st = createDefaultConfig env ?b"
      using g r n by (rule initViper_not_found)
    have c: "createDefaultConfig env ?b = (fst (initViper env st), snd (initViper env st))"
      using i by simp
    have g': "GetDefaultConfigPaths env (fsys ?b) = Inr (p0 # rest)"
      using g by simp
    have s: "v_override (viper (snd (initViper env st))) clientsecret_key =
          (if GetString (viper ?b) clientsecret_key = [] then
             Some (fst (GenerateRandomSecret (entropy_source env)))
           else v_override (viper st) clientsecret_key)"
      using createDefaultConfig_secret [OF c g' t] by simp
    have m: "\<forall>fs1. MkdirAll (mkdir_fault env) p0 perm_0o755 (fsys st) = (None, fs1)
              \<and> writefile_fault env (filepath_Join p0 ''config.yaml'') = None
              \<and> fsys st (filepath_Join p0 ''config.yaml'') = None \<longrightarrow>
            fsys (snd (initViper env st)) =
              fs1(filepath_Join p0 ''config.yaml'' \<mapsto> RegularFile tmpl perm_0o600)
            \<and> (\<forall>cfg. ReadInConfig env (viper (set_secret_if_unset env ?b))
                    (fs1(filepath_Join p0 ''config.yaml'' \<mapsto> RegularFile tmpl perm_0o600))
                  = Inr cfg \<longrightarrow> fst (initViper env st) = Return None)"
      using createDefaultConfig_materializes [of env ?b p0 rest tmpl] g' t i by simp
    from s m show "v_override (viper (snd (initViper env st))) clientsecret_key =
          (if GetString (viper ?b) clientsecret_key = [] then
             Some (fst (GenerateRandomSecret (entropy_source env)))
           else v_override (viper st) clientsecret_key)
        \<and> (\<forall>fs1. MkdirAll (mkdir_fault env) p0 perm_0o755 (fsys st) = (None, fs1)
              \<and> writefile_fault env (filepath_Join p0 ''config.yaml'') = None
              \<and> fsys st (filepath_Join p0 ''config.yaml'') = None \<longrightarrow>
            fsys (snd (initViper env st)) =
              fs1(filepath_Join p0 ''config.yaml'' \<mapsto> RegularFile tmpl perm_0o600)
            \<and> (\<forall>cfg. ReadInConfig env (viper (set_secret_if_unset env ?b))
                    (fs1(filepath_Join p0 ''config.yaml'' \<mapsto> RegularFile tmpl perm_0o600))
                  = Inr cfg \<longrightarrow> fst (initViper env st) = Return None))"
      by (rule conjI)
  qed
  have 5: "perm_0o600 = 6 * 64 \<and> perm_0o755 = 7 * 64 + 5 * 8 + 5"
    by (simp add: perm_0o600_def perm_0o755_def)
  from 1 2 3 4 5 show ?thesis by blast
qed

lemma ancestors_etc_birdnet: "ancestors etc_birdnet = [[''etc''], etc_birdnet]"
  by (simp add: ancestors_def etc_birdnet_def upt_conv_Cons)

lemma MkdirAll_example:
  "MkdirAll (\<lambda>p. None) etc_birdnet perm_0o755 fs_bare
     = (None, fs_bare(etc_birdnet \<mapsto> Directory perm_0o755))"
  by (simp add: MkdirAll_def ancestors_etc_birdnet) (simp add: fs_bare_def etc_birdnet_def)

lemma secret_example:
  "fst (GenerateRandomSecret (Some (\<lambda>i. of_nat i))) = ''AAECAwQFBgcICQoLDA0ODxAREhMUFRYXGBkaGxwdHh8''"
  by code_simp

lemma example_paths:
  "filepath_Dir config_yaml = etc_birdnet"
  "config_tmp \<noteq> config_yaml"
  "config_tmp \<noteq> etc_birdnet" "config_yaml \<noteq> etc_birdnet"
  "config_tmp \<noteq> [''etc'']" "config_yaml \<noteq> [''etc'']" "etc_birdnet \<noteq> [''etc'']"
  "filepath_Dir config_tmp = etc_birdnet"
  "config_yaml \<noteq> []" "config_tmp \<noteq> []"
  by (simp_all add: config_yaml_def config_tmp_def temp_name_def filepath_Dir_def
        filepath_Join_def etc_birdnet_def)

lemma fs_bare_at:
  "fs_bare config_yaml = None" "fs_bare etc_birdnet = None"
  using example_paths by (simp_all add: fs_bare_def)

lemma fs_unparsable_at:
  "fs_unparsable config_yaml = Some (RegularFile ''debug: maybe'' perm_0o600)"
  by (simp add: fs_unparsable_def)

theorem initViper_materialization_witness:
  "fst (initViper (env_example validate_warns) (process_start fs_bare)) = Return None
   \<and> fsys (snd (initViper (env_example validate_warns) (process_start fs_bare))) config_yaml
     = Some (RegularFile ''debug: false'' perm_0o600)
   \<and> fsys (snd (initViper (env_example validate_warns) (process_start fs_bare))) etc_birdnet
       = Some (Directory perm_0o755)
   \<and> v_override (viper (snd (initViper (env_example validate_warns) (process_start fs_bare))))
         clientsecret_key
       = Some ''AAECAwQFBgcICQoLDA0ODxAREhMUFRYXGBkaGxwdHh8''
   \<and> fst (initViper (env_example validate_warns) (process_start fs_unparsable))
       = Return (Some (Build ConfigParseError CategoryFileIO [(''operation'', ''read-config-file'')]))
   \<and> fsys (snd (initViper (env_example validate_warns) (process_start fs_unparsable)))
       = fs_unparsable"
proof -
  let ?E = "env_example validate_warns"
  let ?fs1 = "fs_bare(etc_birdnet \<mapsto> Directory perm_0o755)"
  have g: "\<And>fs. GetDefaultConfigPaths ?E fs = Inr (etc_birdnet # [])" by simp
  have nf: "ReadInConfig ?E (viper (before_read ?E (process_start fs_bare) [etc_birdnet]))
      (fsys (process_start fs_bare)) = Inl ConfigFileNotFoundError"
    by (simp add: process_start_def read_example_cases(4) fs_bare_at)
  have un: "ReadInConfig ?E (viper (before_read ?E (process_start fs_unparsable) [etc_birdnet]))
      (fsys (process_start fs_unparsable)) = Inl ConfigParseError"
    by (simp add: process_start_def
          read_example_cases(3) [where fs = fs_unparsable, OF fs_unparsable_at])
  have gs: "GetString (viper (before_read ?E (process_start fs_bare) [etc_birdnet])) clientsecret_key = []"
    by (simp add: GetString_def before_read_def process_start_def viper_new_def AddConfigPath_def)
  have mk: "MkdirAll (mkdir_fault ?E) etc_birdnet perm_0o755 (fsys (process_start fs_bare))
      = (None, ?fs1)"
    by (simp add: process_start_def MkdirAll_example)
  have ne: "fsys (process_start fs_bare) (filepath_Join etc_birdnet ''config.yaml'') = None"
    using fs_bare_at(1) by (simp add: process_start_def config_yaml_def)
  have rr: "\<And>v. ReadInConfig ?E v
      (?fs1(filepath_Join etc_birdnet ''config.yaml'' \<mapsto> RegularFile ''debug: false'' perm_0o600))
      = Inr ((\<lambda>k. None)(''debug'' \<mapsto> ''false''))"
    by (simp add: read_example_def parse_example_def config_yaml_def)
  note t1 = initViper_materialization [of ?E "process_start fs_bare"]
  note t2 = initViper_materialization [of ?E "process_start fs_unparsable"]
  have a: "v_override (viper (snd (initViper ?E (process_start fs_bare)))) clientsecret_key
       = Some (fst (GenerateRandomSecret (entropy_source ?E)))
     \<and> fsys (snd (initViper ?E (process_start fs_bare)))
       = ?fs1(filepath_Join etc_birdnet ''config.yaml'' \<mapsto> RegularFile ''debug: false'' perm_0o600)
     \<and> fst (initViper ?E (process_start fs_bare)) = Return None"
    using t1 g nf gs mk ne rr by simp
  have b: "fst (initViper ?E (process_start fs_unparsable))
       = Return (Some (Build ConfigParseError CategoryFileIO [(''operation'', ''read-config-file'')]))
     \<and> fsys (snd (initViper ?E (process_start fs_unparsable))) = fsys (process_start fs_unparsable)"
    using t2 g un by simp
  from a b example_paths(4) show ?thesis
    by (simp add: secret_example process_start_def config_yaml_def [symmetric])
qed

text \<open>
  C5, as stated, fails. On a machine without a configuration file whose disk cannot be
  read back, the first read fails with "not found", the default document is written,
  and the second read fails with an input/output error, which is not "not found":
  \<open>initViper\<close> returns that error as it is, with no category, and the default document
  has been written.
\<close>

theorem initViper_reread_failure_uncategorized:
  "fst (initViper env_reread_fails (process_start fs_bare)) = Return (Some (OSError EIO))
   \<and> \<not> As_ConfigFileNotFoundError (OSError EIO)
   \<and> error_category (OSError EIO) = None
   \<and> fs_bare config_yaml = None
   \<and> fsys (snd (initViper env_reread_fails (process_start fs_bare))) config_yaml
       = Some (RegularFile ''debug: false'' perm_0o600)"
proof -
  let ?E = "env_reread_fails"
  let ?st = "process_start fs_bare"
  let ?b = "before_read ?E ?st [etc_birdnet]"
  let ?fs1 = "fs_bare(etc_birdnet \<mapsto> Directory perm_0o755)"
  have f: "GetDefaultConfigPaths ?E = (\<lambda>fs. Inr [etc_birdnet])"
    "embedded_config ?E = Some ''debug: false''"
    "mkdir_fault ?E = (\<lambda>p. None)" "writefile_fault ?E = (\<lambda>p. None)"
    by (simp_all add: env_reread_fails_def)
  have r: "\<And>v fs. ReadInConfig ?E v fs =
      (case fs config_yaml of
         Some (RegularFile d m) \<Rightarrow> Inl (OSError EIO)
       | _ \<Rightarrow> Inl ConfigFileNotFoundError)"
    by (simp add: env_reread_fails_def)
  have i: "initViper ?E ?st = createDefaultConfig ?E ?b"
    by (simp add: initViper_def Let_def f r process_start_def fs_bare_at)
  have m: "MkdirAll (mkdir_fault ?E) etc_birdnet perm_0o755 (fsys ?b) = (None, ?fs1)"
    by (simp add: f process_start_def MkdirAll_example)
  have n: "fsys ?b (filepath_Join etc_birdnet ''config.yaml'') = None"
    using fs_bare_at(1) by (simp add: process_start_def config_yaml_def)
  have g: "GetDefaultConfigPaths ?E (fsys ?b) = Inr (etc_birdnet # [])"
    by (simp add: f)
  have w: "writefile_fault ?E (filepath_Join etc_birdnet ''config.yaml'') = None"
    by (simp add: f)
  note c = createDefaultConfig_materializes [OF g f(2) m w n]
  have 1: "fst (initViper ?E ?st) = Return (Some (OSError EIO))"
    using c(2) by (simp add: i r config_yaml_def)
  have 2: "fsys (snd (initViper ?E ?st)) config_yaml
       = Some (RegularFile ''debug: false'' perm_0o600)"
    using c(1) by (simp add: i config_yaml_def)
  from 1 2 fs_bare_at(1) show ?thesis by simp
qed

section \<open>Saving: the atomic write\<close>

lemma CreateTemp_success:
  "CreateTemp rnd dir fs = (Inr t, fs0) \<Longrightarrow>
     fs t = None \<and> fs0 = fs(t \<mapsto> RegularFile [] perm_0o600)"
  by (auto simp add: CreateTemp_def split: sum.splits if_splits)

lemma remove_temp_effect:
  "remove_temp env t fs = (logged, fs') \<Longrightarrow>
     (\<forall>p. p \<noteq> t \<longrightarrow> fs' p = fs p)
     \<and> (remove_fault env = None \<longrightarrow> fs' t = None)
     \<and> (fs t = None \<longrightarrow> fs' = fs \<and> logged = [])"
  by (auto simp add: remove_temp_def os_Remove_def split: option.splits prod.splits if_splits)

lemma replace_config_write_fails:
  assumes "fs t = Some (RegularFile [] m)" and "write_fault env = Some (e, n)"
  shows "replace_config env t configPath yamlData fs =
     (Some (Build (OSError e) CategoryFileIO [(''operation'', ''write-temp-file'')]),
      fs(t \<mapsto> RegularFile (take n yamlData) m))"
  using assms by (simp add: replace_config_def file_Write_def)

lemma replace_config_close_fails:
  assumes "fs t = Some (RegularFile [] m)" and "write_fault env = None"
    and "close_fault env = Some e"
  shows "replace_config env t configPath yamlData fs =
     (Some (Build (OSError e) CategoryFileIO [(''operation'', ''close-temp-file'')]),
      fs(t \<mapsto> RegularFile yamlData m))"
  using assms by (simp add: replace_config_def file_Write_def)

lemma replace_config_renamed:
  assumes "fs t = Some (RegularFile [] m)" and "write_fault env = None"
    and "close_fault env = None" and "rename_fault env = None"
    and "t \<noteq> configPath" and "\<not> is_directory fs configPath"
  shows "replace_config env t configPath yamlData fs =
     (None, (fs(configPath \<mapsto> RegularFile yamlData m))(t := None))"
  using assms
  by (auto simp add: replace_config_def file_Write_def os_Rename_def is_directory_def
        fun_upd_twist split: option.splits node.splits)

lemma replace_config_fallback:
  assumes "fs t = Some (RegularFile [] m)" and "write_fault env = None"
    and "close_fault env = None" and "rename_fault env = Some e"
  shows "replace_config env t configPath yamlData fs =
     (case moveFile env t configPath (fs(t \<mapsto> RegularFile yamlData m)) of
        (Some err, fs3) \<Rightarrow>
          (Some (Build err CategoryFileIO
             [(''operation'', ''move-config-file''), (''src'', path_string t),
              (''dst'', path_string configPath)]), fs3)
      | (None, fs3) \<Rightarrow> (None, fs3))"
  using assms by (simp add: replace_config_def file_Write_def os_Rename_def)

lemma moveFile_success:
  "moveFile env src dst fs = (None, fs') \<Longrightarrow> src \<noteq> dst \<Longrightarrow>
     (\<exists>data m. fs src = Some (RegularFile data m) \<and> fs' dst = Some (RegularFile data m))
     \<and> fs' src = None"
  by (auto simp add: moveFile_def Let_def split: option.splits node.splits prod.splits if_splits)

lemma replace_config_success:
  assumes "replace_config env t configPath yamlData fs = (None, fs1)"
    and "fs t = Some (RegularFile [] m)" and "t \<noteq> configPath"
  shows "file_content fs1 configPath = Some yamlData \<and> fs1 t = None"
proof -
  have w: "write_fault env = None"
    using assms(1,2) by (cases "write_fault env") (auto simp add: replace_config_def file_Write_def)
  have c: "close_fault env = None"
    using assms(1,2) w by (cases "close_fault env") (auto simp add: replace_config_def file_Write_def)
  let ?fs = "fs(t \<mapsto> RegularFile yamlData m)"
  show ?thesis
  proof (cases "os_Rename (rename_fault env) t configPath ?fs")
    case (Pair e fs2)
    show ?thesis
    proof (cases e)
      case None
      with Pair assms w c have "fs1 = fs2"
        by (simp add: replace_config_def file_Write_def)
      moreover from Pair None assms(3)
      have "fs2 = (?fs(configPath \<mapsto> RegularFile yamlData m))(t := None)"
        by (auto simp add: os_Rename_def split: option.splits if_splits)
      ultimately show ?thesis
        using assms(3) by (simp add: file_content_def)
    next
      case (Some x)
      with Pair have "fs2 = ?fs"
        by (auto simp add: os_Rename_def split: option.splits if_splits)
      with Pair Some assms(1,2) w c
      have "moveFile env t configPath ?fs = (None, fs1)"
        by (auto simp add: replace_config_def file_Write_def split: prod.splits option.splits)
      from moveFile_success [OF this assms(3)] show ?thesis
        by (auto simp add: file_content_def)
    qed
  qed
qed
lemma SaveYAMLConfig_unfold:
  assumes "yaml_Marshal env settings = Inr yamlData"
    and "CreateTemp (createtemp_result env) (filepath_Dir configPath) fs = (Inr t, fs0)"
  shows "SaveYAMLConfig env configPath settings fs =
     ((fst (replace_config env t configPath yamlData fs0),
       fst (remove_temp env t (snd (replace_config env t configPath yamlData fs0)))),
      snd (remove_temp env t (snd (replace_config env t configPath yamlData fs0))))"
  using assms by (simp add: SaveYAMLConfig_def split: prod.splits)

lemma replace_config_elsewhere:
  "replace_config env t configPath yamlData fs = (r, fs1) \<Longrightarrow> p \<noteq> t \<Longrightarrow> p \<noteq> configPath \<Longrightarrow>
     fs1 p = fs p"
  by (auto simp add: replace_config_def file_Write_def os_Rename_def moveFile_def Let_def
        split: option.splits node.splits prod.splits if_splits)

lemma fs_configured_at:
  "fs_configured config_yaml = Some (RegularFile ''debug: true'' perm_0o600)"
  "fs_configured config_tmp = None"
  "fs_configured etc_birdnet = Some (Directory perm_0o755)"
  using example_paths
  by (simp_all add: fs_configured_def fs_bare_def config_yaml_def [symmetric])

lemma CreateTemp_example:
  "CreateTemp (Inr ''123'') (filepath_Dir config_yaml) fs_configured =
     (Inr config_tmp, fs_configured(config_tmp \<mapsto> RegularFile [] perm_0o600))"
  by (simp add: CreateTemp_def example_paths is_directory_def fs_configured_at
        config_tmp_def [symmetric])

lemma save_env_fields [simp]:
  "yaml_Marshal save_env_example = (\<lambda>s. Inr (if Debug s then ''debug: true'' else ''debug: false''))"
  "createtemp_result save_env_example = Inr ''123''"
  "write_fault save_env_example = None" "close_fault save_env_example = None"
  "rename_fault save_env_example = None" "copy_fault save_env_example = None"
  "remove_fault save_env_example = None"
  "FindConfigFile save_env_example = (\<lambda>fs. Inr config_yaml)"
  by (simp_all add: save_env_example_def)

lemma moveFile_failure:
  "moveFile env src dst fs = (Some e, fs') \<Longrightarrow> fs' = fs"
  by (auto simp add: moveFile_def split: option.splits node.splits if_splits)

lemma os_Rename_failure:
  "os_Rename fault oldpath newpath fs = (Some e, fs') \<Longrightarrow> fs' = fs"
  by (auto simp add: os_Rename_def split: option.splits if_splits)

lemma replace_config_failure:
  assumes "replace_config env t configPath yamlData fs = (Some e, fs1)" and "p \<noteq> t"
  shows "fs1 p = fs p"
  using assms
  by (auto simp add: replace_config_def file_Write_def
        split: option.splits node.splits prod.splits
        dest!: moveFile_failure os_Rename_failure)

lemma replace_config_same:
  assumes "fs t = Some (RegularFile [] m)" and "write_fault env = None"
    and "close_fault env = None" and "rename_fault env = None"
  shows "replace_config env t t yamlData fs = (None, fs(t \<mapsto> RegularFile yamlData m))"
  using assms by (simp add: replace_config_def file_Write_def os_Rename_def)

lemma replace_config_rename_fails:
  assumes "fs t = Some (RegularFile [] m)" and "write_fault env = None"
    and "close_fault env = None"
    and "fst (os_Rename (rename_fault env) t configPath (fs(t \<mapsto> RegularFile yamlData m))) \<noteq> None"
  shows "replace_config env t configPath yamlData fs =
     (map_option (\<lambda>err. Build err CategoryFileIO
          [(''operation'', ''move-config-file''), (''src'', path_string t),
           (''dst'', path_string configPath)])
        (fst (moveFile env t configPath (fs(t \<mapsto> RegularFile yamlData m)))),
      snd (moveFile env t configPath (fs(t \<mapsto> RegularFile yamlData m))))"
proof -
  let ?fs = "fs(t \<mapsto> RegularFile yamlData m)"
  obtain e fs2 where r: "os_Rename (rename_fault env) t configPath ?fs = (Some e, fs2)"
    using assms(4) by (cases "os_Rename (rename_fault env) t configPath ?fs") auto
  from os_Rename_failure [OF r] have "fs2 = ?fs" .
  with r assms(1,2,3) show ?thesis
    by (cases "moveFile env t configPath ?fs")
       (auto simp add: replace_config_def file_Write_def split: option.splits)
qed

lemma CreateTemp_example_tmp:
  "CreateTemp (Inr ''123'') (filepath_Dir config_tmp) fs_configured =
     (Inr config_tmp, fs_configured(config_tmp \<mapsto> RegularFile [] perm_0o600))"
  by (simp add: CreateTemp_def example_paths is_directory_def fs_configured_at
        config_tmp_def [symmetric])

text \<open>
  C1, as the code has it. For a call of \<open>SaveYAMLConfig\<close> that has created its
  temporary file: if the write or the close fails, the call returns an error; whenever
  the call returns an error, be it of the write, of the close or of the rename and the
  copy, the destination is what it was before the call, unless the destination is the
  temporary file itself and its removal fails, and the whole file system is what it was
  if the removal of the temporary file does not fail; the temporary file is gone after
  the call whenever its removal does not fail (the removal is attempted on every
  return, and its failure is only logged); if the rename fails, for whatever reason,
  the result is that of \<open>moveFile\<close>, the copy-then-delete fallback, followed by the
  removal; if the call returns no error and the destination is not the temporary file,
  the destination holds the serialized snapshot and the temporary file is gone; if
  nothing fails, the call returns no error; and no other file is touched.
\<close>

theorem SaveYAMLConfig_atomic:
  assumes "yaml_Marshal env settings = Inr yamlData"
    and "CreateTemp (createtemp_result env) (filepath_Dir configPath) fs = (Inr t, fs0)"
  shows "(write_fault env \<noteq> None \<or> close_fault env \<noteq> None \<longrightarrow>
        fst (fst (SaveYAMLConfig env configPath settings fs)) \<noteq> None)
    \<and> (fst (fst (SaveYAMLConfig env configPath settings fs)) \<noteq> None \<longrightarrow>
        (t \<noteq> configPath \<or> remove_fault env = None \<longrightarrow>
           snd (SaveYAMLConfig env configPath settings fs) configPath = fs configPath)
        \<and> (remove_fault env = None \<longrightarrow> snd (SaveYAMLConfig env configPath settings fs) = fs))
    \<and> (remove_fault env = None \<longrightarrow> snd (SaveYAMLConfig env configPath settings fs) t = None)
    \<and> (write_fault env = None \<and> close_fault env = None
          \<and> fst (os_Rename (rename_fault env) t configPath
                (fs(t \<mapsto> RegularFile yamlData perm_0o600))) \<noteq> None \<longrightarrow>
        fst (fst (SaveYAMLConfig env configPath settings fs)) =
          map_option (\<lambda>err. Build err CategoryFileIO
              [(''operation'', ''move-config-file''), (''src'', path_string t),
               (''dst'', path_string configPath)])
            (fst (moveFile env t configPath (fs(t \<mapsto> RegularFile yamlData perm_0o600))))
        \<and> snd (SaveYAMLConfig env configPath settings fs) =
            snd (remove_temp env t
              (snd (moveFile env t configPath (fs(t \<mapsto> RegularFile yamlData perm_0o600))))))
    \<and> (fst (fst (SaveYAMLConfig env configPath settings fs)) = None \<and> t \<noteq> configPath \<longrightarrow>
        file_content (snd (SaveYAMLConfig env configPath settings fs)) configPath = Some yamlData
        \<and> snd (SaveYAMLConfig env configPath settings fs) t = None)
    \<and> (write_fault env = None \<and> close_fault env = None \<and> rename_fault env = None
          \<and> \<not> is_directory fs configPath \<longrightarrow>
        fst (fst (SaveYAMLConfig env configPath settings fs)) = None)
    \<and> (\<forall>p. p \<noteq> t \<and> p \<noteq> configPath \<longrightarrow>
          snd (SaveYAMLConfig env configPath settings fs) p = fs p)"
proof -
  let ?rc = "replace_config env t configPath yamlData fs0"
  let ?rt = "remove_temp env t (snd ?rc)"
  let ?fst = "fs(t \<mapsto> RegularFile yamlData perm_0o600)"
  have u: "SaveYAMLConfig env configPath settings fs = ((fst ?rc, fst ?rt), snd ?rt)"
    using assms(1,2) by (rule SaveYAMLConfig_unfold)
  have ct: "fs t = None" and fs0: "fs0 = fs(t \<mapsto> RegularFile [] perm_0o600)"
    using CreateTemp_success [OF assms(2)] by simp_all
  have t0: "fs0 t = Some (RegularFile [] perm_0o600)" using fs0 by simp
  have fst0: "fs0(t \<mapsto> RegularFile yamlData perm_0o600) = ?fst" using fs0 by simp
  have rt: "(\<forall>p. p \<noteq> t \<longrightarrow> snd ?rt p = snd ?rc p)
     \<and> (remove_fault env = None \<longrightarrow> snd ?rt t = None)
     \<and> (snd ?rc t = None \<longrightarrow> snd ?rt = snd ?rc \<and> fst ?rt = [])"
    using remove_temp_effect [of env t "snd ?rc" "fst ?rt" "snd ?rt"] by simp
  have 1: "write_fault env \<noteq> None \<or> close_fault env \<noteq> None \<longrightarrow>
        fst (fst (SaveYAMLConfig env configPath settings fs)) \<noteq> None"
  proof
    assume a: "write_fault env \<noteq> None \<or> close_fault env \<noteq> None"
    show "fst (fst (SaveYAMLConfig env configPath settings fs)) \<noteq> None"
    proof (cases "write_fault env")
      case (Some en)
      obtain e n where "en = (e, n)" by (cases en)
      with Some have "write_fault env = Some (e, n)" by simp
      from replace_config_write_fails [where fs = fs0 and t = t, OF t0 this, of configPath yamlData]
      show ?thesis using u by simp
    next
      case None
      with a obtain e where "close_fault env = Some e" by auto
      from replace_config_close_fails [where fs = fs0 and t = t, OF t0 None this, of configPath yamlData]
      show ?thesis using u by simp
    qed
  qed
  have 2: "fst (fst (SaveYAMLConfig env configPath settings fs)) \<noteq> None \<longrightarrow>
        (t \<noteq> configPath \<or> remove_fault env = None \<longrightarrow>
           snd (SaveYAMLConfig env configPath settings fs) configPath = fs configPath)
        \<and> (remove_fault env = None \<longrightarrow> snd (SaveYAMLConfig env configPath settings fs) = fs)"
  proof
    assume "fst (fst (SaveYAMLConfig env configPath settings fs)) \<noteq> None"
    then obtain e where "?rc = (Some e, snd ?rc)"
      using u by (cases "fst ?rc") (auto simp add: prod_eq_iff)
    from replace_config_failure [OF this]
    have k: "\<And>p. p \<noteq> t \<Longrightarrow> snd ?rc p = fs p" using fs0 by simp
    have other: "\<And>p. p \<noteq> t \<Longrightarrow> snd (SaveYAMLConfig env configPath settings fs) p = fs p"
      using u rt k by simp
    have whole: "remove_fault env = None \<longrightarrow> snd (SaveYAMLConfig env configPath settings fs) = fs"
    proof
      assume r: "remove_fault env = None"
      show "snd (SaveYAMLConfig env configPath settings fs) = fs"
      proof
        fix p
        show "snd (SaveYAMLConfig env configPath settings fs) p = fs p"
        proof (cases "p = t")
          case True
          with r rt u ct show ?thesis by simp
        next
          case False
          then show ?thesis by (rule other)
        qed
      qed
    qed
    have dest: "t \<noteq> configPath \<or> remove_fault env = None \<longrightarrow>
           snd (SaveYAMLConfig env configPath settings fs) configPath = fs configPath"
      using other [of configPath] whole by auto
    from dest whole
    show "(t \<noteq> configPath \<or> remove_fault env = None \<longrightarrow>
           snd (SaveYAMLConfig env configPath settings fs) configPath = fs configPath)
        \<and> (remove_fault env = None \<longrightarrow> snd (SaveYAMLConfig env configPath settings fs) = fs)"
      by (rule conjI)
  qed
  have 3: "remove_fault env = None \<longrightarrow> snd (SaveYAMLConfig env configPath settings fs) t = None"
    using u rt by simp
  have 4: "write_fault env = None \<and> close_fault env = None
          \<and> fst (os_Rename (rename_fault env) t configPath
                (fs(t \<mapsto> RegularFile yamlData perm_0o600))) \<noteq> None \<longrightarrow>
        fst (fst (SaveYAMLConfig env configPath settings fs)) =
          map_option (\<lambda>err. Build err CategoryFileIO
              [(''operation'', ''move-config-file''), (''src'', path_string t),
               (''dst'', path_string configPath)])
            (fst (moveFile env t configPath (fs(t \<mapsto> RegularFile yamlData perm_0o600))))
        \<and> snd (SaveYAMLConfig env configPath settings fs) =
            snd (remove_temp env t
              (snd (moveFile env t configPath (fs(t \<mapsto> RegularFile yamlData perm_0o600)))))"
  proof
    assume a: "write_fault env = None \<and> close_fault env = None
          \<and> fst (os_Rename (rename_fault env) t configPath ?fst) \<noteq> None"
    have "?rc =
     (map_option (\<lambda>err. Build err CategoryFileIO
          [(''operation'', ''move-config-file''), (''src'', path_string t),
           (''dst'', path_string configPath)])
        (fst (moveFile env t configPath ?fst)),
      snd (moveFile env t configPath ?fst))"
      using replace_config_rename_fails [where fs = fs0 and t = t and m = perm_0o600
          and env = env and configPath = configPath and yamlData = yamlData] t0 a fst0
      by simp
    then show "fst (fst (SaveYAMLConfig env configPath settings fs)) =
          map_option (\<lambda>err. Build err CategoryFileIO
              [(''operation'', ''move-config-file''), (''src'', path_string t),
               (''dst'', path_string configPath)])
            (fst (moveFile env t configPath ?fst))
        \<and> snd (SaveYAMLConfig env configPath settings fs) =
            snd (remove_temp env t (snd (moveFile env t configPath ?fst)))"
      using u by simp
  qed
  have 5: "fst (fst (SaveYAMLConfig env configPath settings fs)) = None \<and> t \<noteq> configPath \<longrightarrow>
        file_content (snd (SaveYAMLConfig env configPath settings fs)) configPath = Some yamlData
        \<and> snd (SaveYAMLConfig env configPath settings fs) t = None"
  proof
    assume a: "fst (fst (SaveYAMLConfig env configPath settings fs)) = None \<and> t \<noteq> configPath"
    then have "?rc = (None, snd ?rc)" using u by (simp add: prod_eq_iff)
    from replace_config_success [where fs = fs0 and t = t, OF this t0] a
    show "file_content (snd (SaveYAMLConfig env configPath settings fs)) configPath = Some yamlData
        \<and> snd (SaveYAMLConfig env configPath settings fs) t = None"
      using u rt by simp
  qed
  have 6: "write_fault env = None \<and> close_fault env = None \<and> rename_fault env = None
          \<and> \<not> is_directory fs configPath \<longrightarrow>
        fst (fst (SaveYAMLConfig env configPath settings fs)) = None"
  proof
    assume a: "write_fault env = None \<and> close_fault env = None \<and> rename_fault env = None
          \<and> \<not> is_directory fs configPath"
    show "fst (fst (SaveYAMLConfig env configPath settings fs)) = None"
    proof (cases "t = configPath")
      case True
      with replace_config_same [where fs = fs0 and t = t, OF t0, of env yamlData] a
      show ?thesis using u by simp
    next
      case False
      with a have "\<not> is_directory fs0 configPath"
        using fs0 by (simp add: is_directory_def)
      with replace_config_renamed [where fs = fs0 and t = t, OF t0 _ _ _ False, of env yamlData] a
      show ?thesis using u by simp
    qed
  qed
  have 7: "\<forall>p. p \<noteq> t \<and> p \<noteq> configPath \<longrightarrow>
          snd (SaveYAMLConfig env configPath settings fs) p = fs p"
  proof (intro allI impI)
    fix p assume p: "p \<noteq> t \<and> p \<noteq> configPath"
    have "snd ?rc p = fs0 p"
      using replace_config_elsewhere [of env t configPath yamlData fs0 "fst ?rc" "snd ?rc" p] p
      by simp
    then show "snd (SaveYAMLConfig env configPath settings fs) p = fs p"
      using u rt p fs0 by simp
  qed
  from 1 2 3 4 5 6 7 show ?thesis by blast
qed

theorem SaveYAMLConfig_atomic_witness:
  "fst (fst (SaveYAMLConfig (save_env_example\<lparr>rename_fault := Some EXDEV\<rparr>)
       config_yaml Settings_zero fs_configured)) = None
   \<and> file_content (snd (SaveYAMLConfig (save_env_example\<lparr>rename_fault := Some EXDEV\<rparr>)
       config_yaml Settings_zero fs_configured)) config_yaml = Some ''debug: false''
   \<and> snd (SaveYAMLConfig (save_env_example\<lparr>rename_fault := Some EXDEV\<rparr>)
       config_yaml Settings_zero fs_configured) config_tmp = None
   \<and> fst (fst (SaveYAMLConfig (save_env_example\<lparr>write_fault := Some (ENOSPC, 5)\<rparr>)
       config_yaml Settings_zero fs_configured)) \<noteq> None
   \<and> snd (SaveYAMLConfig (save_env_example\<lparr>write_fault := Some (ENOSPC, 5)\<rparr>)
       config_yaml Settings_zero fs_configured) = fs_configured
   \<and> fst (fst (SaveYAMLConfig
       (save_env_example\<lparr>rename_fault := Some EXDEV, copy_fault := Some ENOSPC\<rparr>)
       config_yaml Settings_zero fs_configured)) =
       Some (Build (OSError ENOSPC) CategoryFileIO
         [(''operation'', ''move-config-file''), (''src'', path_string config_tmp),
          (''dst'', path_string config_yaml)])
   \<and> snd (SaveYAMLConfig
       (save_env_example\<lparr>rename_fault := Some EXDEV, copy_fault := Some ENOSPC\<rparr>)
       config_yaml Settings_zero fs_configured) = fs_configured"
proof -
  let ?x = "save_env_example\<lparr>rename_fault := Some EXDEV\<rparr>"
  let ?w = "save_env_example\<lparr>write_fault := Some (ENOSPC, 5)\<rparr>"
  let ?c = "save_env_example\<lparr>rename_fault := Some EXDEV, copy_fault := Some ENOSPC\<rparr>"
  let ?fst = "fs_configured(config_tmp \<mapsto> RegularFile ''debug: false'' perm_0o600)"
  have mx: "yaml_Marshal ?x Settings_zero = Inr ''debug: false''"
    and mw: "yaml_Marshal ?w Settings_zero = Inr ''debug: false''"
    and mc: "yaml_Marshal ?c Settings_zero = Inr ''debug: false''"
    by (simp_all add: Settings_zero_def)
  have cx: "CreateTemp (createtemp_result ?x) (filepath_Dir config_yaml) fs_configured =
     (Inr config_tmp, fs_configured(config_tmp \<mapsto> RegularFile [] perm_0o600))"
    and cw: "CreateTemp (createtemp_result ?w) (filepath_Dir config_yaml) fs_configured =
     (Inr config_tmp, fs_configured(config_tmp \<mapsto> RegularFile [] perm_0o600))"
    and cc: "CreateTemp (createtemp_result ?c) (filepath_Dir config_yaml) fs_configured =
     (Inr config_tmp, fs_configured(config_tmp \<mapsto> RegularFile [] perm_0o600))"
    by (simp_all add: CreateTemp_example)
  have rx: "fst (os_Rename (rename_fault ?x) config_tmp config_yaml ?fst) \<noteq> None"
    and rc: "fst (os_Rename (rename_fault ?c) config_tmp config_yaml ?fst) \<noteq> None"
    by (simp_all add: os_Rename_def)
  have mv: "fst (moveFile ?x config_tmp config_yaml ?fst) = None"
    using example_paths(2) fs_configured_at(1)
    by (simp add: moveFile_def is_directory_def) (simp add: config_yaml_def filepath_Join_def)
  have mvc: "fst (moveFile ?c config_tmp config_yaml ?fst) = Some (OSError ENOSPC)"
    by (simp add: moveFile_def)
  note tx = SaveYAMLConfig_atomic [OF mx cx]
  note tw = SaveYAMLConfig_atomic [OF mw cw]
  note tc = SaveYAMLConfig_atomic [OF mc cc]
  have a: "fst (fst (SaveYAMLConfig ?x config_yaml Settings_zero fs_configured)) = None"
    using tx rx mv by simp
  have b: "file_content (snd (SaveYAMLConfig ?x config_yaml Settings_zero fs_configured)) config_yaml
        = Some ''debug: false''
      \<and> snd (SaveYAMLConfig ?x config_yaml Settings_zero fs_configured) config_tmp = None"
    using tx a example_paths(2) by blast
  have c1: "fst (fst (SaveYAMLConfig ?w config_yaml Settings_zero fs_configured)) \<noteq> None"
    using tw by simp
  have c2: "snd (SaveYAMLConfig ?w config_yaml Settings_zero fs_configured) = fs_configured"
    using tw c1 by simp
  have d1: "fst (fst (SaveYAMLConfig ?c config_yaml Settings_zero fs_configured)) =
       Some (Build (OSError ENOSPC) CategoryFileIO
         [(''operation'', ''move-config-file''), (''src'', path_string config_tmp),
          (''dst'', path_string config_yaml)])"
    using tc rc mvc by simp
  have d2: "snd (SaveYAMLConfig ?c config_yaml Settings_zero fs_configured) = fs_configured"
    using tc d1 by simp
  from a b c1 c2 d1 d2 show ?thesis by simp
qed

text \<open>
  C1, as stated, fails in three ways. When the write fails and the removal of the
  temporary file fails too, \<open>SaveYAMLConfig\<close> returns the error of the write, logs the
  failed removal, and the temporary file, with the five bytes written, is still there.
  When the destination is the name that the temporary file gets, a file that did not
  exist before, the file is written, renamed onto itself and removed by the deferred
  removal: the call returns no error, and there is no destination. And when, with that
  destination, the write and the removal fail, the call returns the error of the write
  and the destination, which did not exist, now holds the five bytes.
\<close>

theorem SaveYAMLConfig_not_atomic:
  "fst (fst (SaveYAMLConfig save_env_stuck config_yaml Settings_zero fs_configured)) =
     Some (Build (OSError EIO) CategoryFileIO [(''operation'', ''write-temp-file'')])
   \<and> snd (SaveYAMLConfig save_env_stuck config_yaml Settings_zero fs_configured) config_tmp =
       Some (RegularFile ''debug'' perm_0o600)
   \<and> snd (fst (SaveYAMLConfig save_env_stuck config_yaml Settings_zero fs_configured)) =
       [''Failed to remove temporary file'']
   \<and> fs_configured config_tmp = None
   \<and> fst (SaveYAMLConfig save_env_example config_tmp Settings_zero fs_configured) = (None, [])
   \<and> snd (SaveYAMLConfig save_env_example config_tmp Settings_zero fs_configured) config_tmp
       = None
   \<and> fst (fst (SaveYAMLConfig save_env_stuck config_tmp Settings_zero fs_configured)) =
       Some (Build (OSError EIO) CategoryFileIO [(''operation'', ''write-temp-file'')])
   \<and> snd (SaveYAMLConfig save_env_stuck config_tmp Settings_zero fs_configured) config_tmp =
       Some (RegularFile ''debug'' perm_0o600)"
proof -
  let ?fs0 = "fs_configured(config_tmp \<mapsto> RegularFile [] perm_0o600)"
  have m: "yaml_Marshal save_env_stuck Settings_zero = Inr ''debug: false''"
    and m': "yaml_Marshal save_env_example Settings_zero = Inr ''debug: false''"
    by (simp_all add: save_env_stuck_def Settings_zero_def)
  have c: "CreateTemp (createtemp_result save_env_stuck) (filepath_Dir config_yaml) fs_configured =
     (Inr config_tmp, ?fs0)"
    by (simp add: save_env_stuck_def CreateTemp_example)
  have ct: "CreateTemp (createtemp_result save_env_stuck) (filepath_Dir config_tmp) fs_configured =
     (Inr config_tmp, ?fs0)"
    by (simp add: save_env_stuck_def CreateTemp_example_tmp)
  have ct': "CreateTemp (createtemp_result save_env_example) (filepath_Dir config_tmp) fs_configured =
     (Inr config_tmp, ?fs0)"
    by (simp add: CreateTemp_example_tmp)
  have w: "write_fault save_env_stuck = Some (EIO, 5)"
    and r: "remove_fault save_env_stuck = Some EROFS"
    by (simp_all add: save_env_stuck_def)
  have rc: "\<And>dst. replace_config save_env_stuck config_tmp dst ''debug: false'' ?fs0 =
     (Some (Build (OSError EIO) CategoryFileIO [(''operation'', ''write-temp-file'')]),
      fs_configured(config_tmp \<mapsto> RegularFile ''debug'' perm_0o600))"
    using w by (simp add: replace_config_def file_Write_def)
  have rc': "replace_config save_env_example config_tmp config_tmp ''debug: false'' ?fs0 =
     (None, fs_configured(config_tmp \<mapsto> RegularFile ''debug: false'' perm_0o600))"
    using replace_config_same [where fs = ?fs0 and t = config_tmp and env = save_env_example
        and m = perm_0o600 and yamlData = "''debug: false''"]
    by simp
  have 1: "fst (fst (SaveYAMLConfig save_env_stuck config_yaml Settings_zero fs_configured)) =
     Some (Build (OSError EIO) CategoryFileIO [(''operation'', ''write-temp-file'')])
   \<and> snd (SaveYAMLConfig save_env_stuck config_yaml Settings_zero fs_configured) config_tmp =
       Some (RegularFile ''debug'' perm_0o600)
   \<and> snd (fst (SaveYAMLConfig save_env_stuck config_yaml Settings_zero fs_configured)) =
       [''Failed to remove temporary file'']"
    unfolding SaveYAMLConfig_unfold [OF m c] rc
    using r by (simp add: remove_temp_def os_Remove_def)
  have 2: "fst (SaveYAMLConfig save_env_example config_tmp Settings_zero fs_configured) = (None, [])
   \<and> snd (SaveYAMLConfig save_env_example config_tmp Settings_zero fs_configured) config_tmp
       = None"
    unfolding SaveYAMLConfig_unfold [OF m' ct'] rc'
    by (simp add: remove_temp_def os_Remove_def)
  have 3: "fst (fst (SaveYAMLConfig save_env_stuck config_tmp Settings_zero fs_configured)) =
       Some (Build (OSError EIO) CategoryFileIO [(''operation'', ''write-temp-file'')])
   \<and> snd (SaveYAMLConfig save_env_stuck config_tmp Settings_zero fs_configured) config_tmp =
       Some (RegularFile ''debug'' perm_0o600)"
    unfolding SaveYAMLConfig_unfold [OF m ct] rc
    using r by (simp add: remove_temp_def os_Remove_def)
  from 1 2 3 fs_configured_at(2) show ?thesis by simp
qed

section \<open>Saving: the frame of SaveSettings\<close>

lemma copy_strings_make: "copy_strings (make_strings (length xs)) xs = xs"
  by (simp add: copy_strings_def make_strings_def)

lemma settings_copy_eq: "settings_copy live = live"
  by (simp add: settings_copy_def Let_def copy_strings_make)

lemma SaveSettings_nil:
  "settingsInstance st = None \<Longrightarrow>
     SaveSettings env st =
       (Panic ''invalid memory address or nil pointer dereference'',
        sync [RLock settingsMutex, RUnlock settingsMutex] st)"
  by (simp add: SaveSettings_def Let_def sync_def)

lemma SaveSettings_cases:
  assumes "SaveSettings env st = (r, st1)"
  shows "settingsInstance st1 = settingsInstance st \<and> once_done st1 = once_done st
     \<and> viper st1 = viper st
     \<and> sync_trace st1 = sync_trace st @
         (case settingsInstance st of
            None \<Rightarrow> [RLock settingsMutex, RUnlock settingsMutex]
          | Some live \<Rightarrow>
              [RLock settingsMutex, RLock speciesListMutex, ReadSpecies,
               RUnlock speciesListMutex, RUnlock settingsMutex])"
  using assms
  by (auto simp add: SaveSettings_def Let_def
        split: option.splits sum.splits prod.splits)

lemma SaveSettings_persists:
  assumes "settingsInstance st = Some live"
    and "FindConfigFile env (fsys st) = Inr configPath"
  shows "fsys (snd (SaveSettings env st)) = snd (SaveYAMLConfig env configPath (settings_copy live) (fsys st))"
    and "fst (SaveSettings env st) =
      Return (map_option
        (\<lambda>err. Build err CategoryFileIO
           [(''operation'', ''save-yaml-config''), (''path'', path_string configPath)])
        (fst (fst (SaveYAMLConfig env configPath (settings_copy live) (fsys st)))))"
  using assms
  by (auto simp add: SaveSettings_def Let_def split: option.splits sum.splits prod.splits)

lemma SaveSettings_no_path:
  assumes "settingsInstance st = Some live"
    and "FindConfigFile env (fsys st) = Inl err"
  shows "fsys (snd (SaveSettings env st)) = fsys st"
    and "fst (SaveSettings env st) =
      Return (Some (Build err CategoryFileIO [(''operation'', ''find-config-file'')]))"
  using assms
  by (auto simp add: SaveSettings_def Let_def split: option.splits sum.splits prod.splits)

section \<open>Saving: the copy in memory\<close>

lemma copy_in_memory_headers:
  "mem_Include (fst (copy_in_memory live mem)) = mem_Include live"
  "mem_Species (fst (copy_in_memory live mem))
     = \<lparr>array_at = Some (next_free mem), slice_len = slice_len (mem_Species live)\<rparr>"
  by (simp_all add: copy_in_memory_def make_slice_def Let_def)

lemma copy_in_memory_example:
  "copy_in_memory live_in_memory memory_example =
     (\<lparr>mem_Include = \<lparr>array_at = Some 0, slice_len = 2\<rparr>,
       mem_Species = \<lparr>array_at = Some 2, slice_len = 2\<rparr>\<rparr>,
      \<lparr>arrays = (\<lambda>a. None)
         (0 \<mapsto> [''Strix aluco'', ''Bubo bubo''],
          1 \<mapsto> [''Parus major'', ''Pica pica''],
          2 \<mapsto> [''Parus major'', ''Pica pica'']),
       next_free = 3\<rparr>)"
  by (simp add: copy_in_memory_def make_slice_def copy_slice_def elements_def Let_def
        live_in_memory_def memory_example_def make_strings_def copy_strings_def
        numeral_2_eq_2)

text \<open>
  C6. The comment of line 785 announces a deep copy. On the settings of the example,
  lines 786-791 of \<open>SaveSettings\<close> give the species list of the copy an array of its
  own, with the same two names, and leave the list \<open>Realtime.Species.Include\<close> of the
  copy on the array of the live settings: the two slice headers are equal, and a name
  stored through the live settings afterwards is read through the copy, which a name
  stored in the live species list is not.
\<close>

theorem SaveSettings_copy_is_shallow:
  "mem_Include (fst (copy_in_memory live_in_memory memory_example))
     = mem_Include live_in_memory
   \<and> array_at (mem_Include (fst (copy_in_memory live_in_memory memory_example))) = Some 0
   \<and> array_at (mem_Species live_in_memory) = Some 1
   \<and> array_at (mem_Species (fst (copy_in_memory live_in_memory memory_example))) = Some 2
   \<and> elements (snd (copy_in_memory live_in_memory memory_example))
         (mem_Species (fst (copy_in_memory live_in_memory memory_example)))
       = [''Parus major'', ''Pica pica'']
   \<and> elements (snd (copy_in_memory live_in_memory memory_example))
         (mem_Include (fst (copy_in_memory live_in_memory memory_example)))
       = [''Strix aluco'', ''Bubo bubo'']
   \<and> read_after_store (mem_Include live_in_memory) 0 ''Otus scops''
         (mem_Include (fst (copy_in_memory live_in_memory memory_example)))
         (snd (copy_in_memory live_in_memory memory_example))
       = Some [''Otus scops'', ''Bubo bubo'']
   \<and> read_after_store (mem_Species live_in_memory) 0 ''Otus scops''
         (mem_Species (fst (copy_in_memory live_in_memory memory_example)))
         (snd (copy_in_memory live_in_memory memory_example))
       = Some [''Parus major'', ''Pica pica'']"
  unfolding copy_in_memory_example
  by (simp add: live_in_memory_def elements_def store_at_def read_after_store_def)

section \<open>Lazy initialization\<close>

lemma GetSettings_fields [simp]:
  "fst (GetSettings st) = settingsInstance st"
  "settingsInstance (snd (GetSettings st)) = settingsInstance st"
  "once_done (snd (GetSettings st)) = once_done st"
  "loads_performed (snd (GetSettings st)) = loads_performed st"
  by (simp_all add: GetSettings_def loads_performed_def)

lemma loads_performed_once [simp]:
  "loads_performed (st\<lparr>once_done := b\<rparr>) = loads_performed st"
  by (simp add: loads_performed_def)

lemma Setting_cases:
  assumes "Setting env st = (r, st1)"
  shows "(once_done st \<longrightarrow> r = Return (settingsInstance st)
            \<and> settingsInstance st1 = settingsInstance st \<and> once_done st1
            \<and> loads_performed st1 = loads_performed st)
     \<and> (\<not> once_done st \<and> settingsInstance st \<noteq> None \<longrightarrow> r = Return (settingsInstance st)
            \<and> settingsInstance st1 = settingsInstance st \<and> once_done st1
            \<and> loads_performed st1 = loads_performed st)
     \<and> (\<not> once_done st \<and> settingsInstance st = None \<longrightarrow>
            loads_performed st1 = Suc (loads_performed st)
            \<and> r = (case fst (Load env st) of
                      Return (Inr s) \<Rightarrow> Return (Some s)
                    | Return (Inl err) \<Rightarrow> Fatal ''Error loading settings''
                    | Panic msg \<Rightarrow> Panic msg
                    | Fatal msg \<Rightarrow> Fatal msg)
            \<and> settingsInstance st1 = settingsInstance (snd (Load env st))
            \<and> (once_done st1 \<longleftrightarrow> (\<forall>err. fst (Load env st) \<noteq> Return (Inl err))
                  \<and> (\<forall>msg. fst (Load env st) \<noteq> Fatal msg)))"
proof -
  have g: "\<And>x. map_prod Return id (GetSettings x) = (r, st1) \<Longrightarrow>
      r = Return (settingsInstance x) \<and> settingsInstance st1 = settingsInstance x
      \<and> once_done st1 = once_done x \<and> loads_performed st1 = loads_performed x"
    by (auto simp add: GetSettings_def loads_performed_def)
  have 1: "once_done st \<longrightarrow> r = Return (settingsInstance st)
            \<and> settingsInstance st1 = settingsInstance st \<and> once_done st1
            \<and> loads_performed st1 = loads_performed st"
    using assms g [of st] by (auto simp add: Setting_def split: if_splits)
  have 2: "\<not> once_done st \<and> settingsInstance st \<noteq> None \<longrightarrow> r = Return (settingsInstance st)
            \<and> settingsInstance st1 = settingsInstance st \<and> once_done st1
            \<and> loads_performed st1 = loads_performed st"
    using assms g [of "st\<lparr>once_done := True\<rparr>"]
    by (auto simp add: Setting_def split: if_splits)
  have 3: "\<not> once_done st \<and> settingsInstance st = None \<longrightarrow>
            loads_performed st1 = Suc (loads_performed st)
            \<and> r = (case fst (Load env st) of
                      Return (Inr s) \<Rightarrow> Return (Some s)
                    | Return (Inl err) \<Rightarrow> Fatal ''Error loading settings''
                    | Panic msg \<Rightarrow> Panic msg
                    | Fatal msg \<Rightarrow> Fatal msg)
            \<and> settingsInstance st1 = settingsInstance (snd (Load env st))
            \<and> (once_done st1 \<longleftrightarrow> (\<forall>err. fst (Load env st) \<noteq> Return (Inl err))
                  \<and> (\<forall>msg. fst (Load env st) \<noteq> Fatal msg))"
  proof
    assume a: "\<not> once_done st \<and> settingsInstance st = None"
    obtain lr lst where l: "Load env st = (lr, lst)" by force
    note lc = Load_cases [OF l] Load_loads_performed [OF l]
    show "loads_performed st1 = Suc (loads_performed st)
            \<and> r = (case fst (Load env st) of
                      Return (Inr s) \<Rightarrow> Return (Some s)
                    | Return (Inl err) \<Rightarrow> Fatal ''Error loading settings''
                    | Panic msg \<Rightarrow> Panic msg
                    | Fatal msg \<Rightarrow> Fatal msg)
            \<and> settingsInstance st1 = settingsInstance (snd (Load env st))
            \<and> (once_done st1 \<longleftrightarrow> (\<forall>err. fst (Load env st) \<noteq> Return (Inl err))
                  \<and> (\<forall>msg. fst (Load env st) \<noteq> Fatal msg))"
    proof (cases lr)
      case (Return x)
      show ?thesis
      proof (cases x)
        case (Inl err)
        with Return a l lc assms show ?thesis by (auto simp add: Setting_def)
      next
        case (Inr s)
        with Return a l lc assms g [of "lst\<lparr>once_done := True\<rparr>"] show ?thesis
          by (auto simp add: Setting_def)
      qed
    next
      case (Panic msg)
      with a l lc assms show ?thesis by (auto simp add: Setting_def)
    next
      case (Fatal msg)
      with a l lc assms show ?thesis by (auto simp add: Setting_def)
    qed
  qed
  from 1 2 3 show ?thesis by blast
qed

lemma process_start_fields [simp]:
  "settingsInstance (process_start fs) = None"
  "once_done (process_start fs) = False"
  "fsys (process_start fs) = fs"
  "sync_trace (process_start fs) = []"
  "loads_performed (process_start fs) = 0"
  by (simp_all add: process_start_def loads_performed_def)

lemma Load_example_warns:
  assumes "fsys st config_yaml = Some (RegularFile ''debug: true'' m)"
  shows "fst (Load (env_example validate_warns) st) = Return (Inr settings_warned)"
    and "settingsInstance (snd (Load (env_example validate_warns) st)) = Some settings_warned"
    and "fsys (snd (Load (env_example validate_warns) st)) = fsys st"
    and "once_done (snd (Load (env_example validate_warns) st)) = once_done st"
    and "loads_performed (snd (Load (env_example validate_warns) st)) = Suc (loads_performed st)"
proof -
  let ?L = "Load (env_example validate_warns) st"
  note a = assms
  show r: "fst ?L = Return (Inr settings_warned)"
    using Load_example_found(1) [OF a] by (simp add: validate_step_warns settings_warned_def)
  have p: "?L = (fst ?L, snd ?L)" by simp
  from Load_cases [OF p] r
  show "settingsInstance (snd ?L) = Some settings_warned"
    and "once_done (snd ?L) = once_done st" by simp_all
  show "fsys (snd ?L) = fsys st" using Load_example_found(2) [OF a] .
  show "loads_performed (snd ?L) = Suc (loads_performed st)"
    using Load_loads_performed [OF p] .
qed

lemma Load_example_rejects:
  assumes "fsys st config_yaml = Some (RegularFile ''debug: true'' m)"
  shows "fst (Load (env_example validate_rejects) st) =
      Return (Inl (Build (ValidationError [''using fallback en-uk'', ''latitude out of range''])
         CategoryValidation
         [(''component'', ''settings''), (''error_msg'', ''latitude out of range'')]))"
    and "settingsInstance (snd (Load (env_example validate_rejects) st)) = settingsInstance st"
    and "fsys (snd (Load (env_example validate_rejects) st)) = fsys st"
proof -
  let ?L = "Load (env_example validate_rejects) st"
  note a = assms
  show r: "fst ?L =
      Return (Inl (Build (ValidationError [''using fallback en-uk'', ''latitude out of range''])
         CategoryValidation
         [(''component'', ''settings''), (''error_msg'', ''latitude out of range'')]))"
    using Load_example_found(1) [OF a] by (simp add: validate_step_rejects)
  have p: "?L = (fst ?L, snd ?L)" by simp
  from Load_cases [OF p] r show "settingsInstance (snd ?L) = settingsInstance st" by simp
  show "fsys (snd ?L) = fsys st" using Load_example_found(2) [OF a] .
qed

lemma process_loaded_fields:
  "settingsInstance process_loaded = Some settings_warned"
  "once_done process_loaded = False"
  "fsys process_loaded = fs_configured"
  "loads_performed process_loaded = 1"
  unfolding process_loaded_def
  using Load_example_warns [of "process_start fs_configured"] fs_configured_at(1)
  by simp_all

text \<open>
  C8, as the code has it. The first call of \<open>Setting\<close> (the \<open>sync.Once\<close> has not run)
  performs exactly one \<open>Load\<close> when no instance is installed, and none when an
  instance is installed already; a call after the \<open>sync.Once\<close> has run performs no
  \<open>Load\<close>. Whenever \<open>Setting\<close> returns, it returns the result of \<open>GetSettings\<close> and
  the \<open>sync.Once\<close> has run. If the one \<open>Load\<close> returns an error, \<open>Setting\<close> does
  not return: the process is ended.
\<close>

theorem Setting_lazy_initialization:
  "(\<not> once_done st \<and> settingsInstance st = None \<longrightarrow>
      loads_performed (snd (Setting env st)) = Suc (loads_performed st)
      \<and> fst (Setting env st) =
          (case fst (Load env st) of
             Return (Inr s) \<Rightarrow> Return (Some s)
           | Return (Inl err) \<Rightarrow> Fatal ''Error loading settings''
           | Panic msg \<Rightarrow> Panic msg
           | Fatal msg \<Rightarrow> Fatal msg))
   \<and> (\<not> once_done st \<and> settingsInstance st \<noteq> None \<longrightarrow>
        loads_performed (snd (Setting env st)) = loads_performed st
        \<and> fst (Setting env st) = Return (fst (GetSettings st)))
   \<and> (once_done st \<longrightarrow>
        loads_performed (snd (Setting env st)) = loads_performed st
        \<and> fst (Setting env st) = Return (fst (GetSettings st)))
   \<and> (\<forall>r. fst (Setting env st) = Return r \<longrightarrow>
        once_done (snd (Setting env st)) \<and> r = fst (GetSettings (snd (Setting env st))))
   \<and> (\<forall>err. \<not> once_done st \<and> settingsInstance st = None
          \<and> fst (Load env st) = Return (Inl err) \<longrightarrow>
        fst (Setting env st) = Fatal ''Error loading settings'')"
proof -
  have c: "Setting env st = (fst (Setting env st), snd (Setting env st))" by simp
  note s = Setting_cases [OF c]
  have l: "Load env st = (fst (Load env st), snd (Load env st))" by simp
  note lc = Load_cases [OF l]
  have 4: "\<forall>r. fst (Setting env st) = Return r \<longrightarrow>
        once_done (snd (Setting env st)) \<and> r = fst (GetSettings (snd (Setting env st)))"
  proof (intro allI impI)
    fix r assume a: "fst (Setting env st) = Return r"
    show "once_done (snd (Setting env st)) \<and> r = fst (GetSettings (snd (Setting env st)))"
    proof (cases "\<not> once_done st \<and> settingsInstance st = None")
      case False
      with s a show ?thesis by auto
    next
      case True
      with s a lc show ?thesis
        by (auto split: outcome.splits sum.splits)
    qed
  qed
  from s 4 show ?thesis by simp
qed
theorem Setting_lazy_initialization_witness:
  "fst (Setting (env_example validate_warns) (process_start fs_configured))
     = Return (Some settings_warned)
   \<and> loads_performed (snd (Setting (env_example validate_warns) (process_start fs_configured))) = 1
   \<and> fst (Setting (env_example validate_warns)
         (snd (Setting (env_example validate_warns) (process_start fs_configured))))
       = Return (Some settings_warned)
   \<and> loads_performed (snd (Setting (env_example validate_warns)
         (snd (Setting (env_example validate_warns) (process_start fs_configured))))) = 1
   \<and> fst (Setting (env_example validate_rejects) (process_start fs_configured))
       = Fatal ''Error loading settings''"
proof -
  let ?st = "process_start fs_configured"
  let ?E = "env_example validate_warns"
  let ?st1 = "snd (Setting ?E ?st)"
  have f: "fsys ?st config_yaml = Some (RegularFile ''debug: true'' perm_0o600)"
    by (simp add: fs_configured_at)
  note l = Load_example_warns [OF f]
  note r = Load_example_rejects [OF f]
  note t1 = Setting_lazy_initialization [of ?st ?E]
  have a: "fst (Setting ?E ?st) = Return (Some settings_warned)
      \<and> loads_performed ?st1 = 1"
    using t1 l(1) by simp
  have o: "once_done ?st1 \<and> Some settings_warned = fst (GetSettings ?st1)"
    using t1 a by blast
  note t2 = Setting_lazy_initialization [of ?st1 ?E]
  have b: "fst (Setting ?E ?st1) = Return (Some settings_warned)
      \<and> loads_performed (snd (Setting ?E ?st1)) = 1"
    using t2 o a by simp
  note t3 = Setting_lazy_initialization [of ?st "env_example validate_rejects"]
  have c: "fst (Setting (env_example validate_rejects) ?st) = Fatal ''Error loading settings''"
    using t3 r(1) by simp
  from a b c show ?thesis by blast
qed
text \<open>
  C8, as stated, fails: in a process that has called \<open>Load\<close> itself, successfully,
  the first call of \<open>Setting\<close> performs no \<open>Load\<close>; the one \<open>Load\<close> of the trace is
  the earlier one.
\<close>

theorem Setting_first_call_without_Load:
  "once_done process_loaded = False
   \<and> loads_performed process_loaded = 1
   \<and> fst (Setting (env_example validate_warns) process_loaded) = Return (Some settings_warned)
   \<and> loads_performed (snd (Setting (env_example validate_warns) process_loaded)) = 1"
proof -
  let ?S = "Setting (env_example validate_warns) process_loaded"
  have p: "?S = (fst ?S, snd ?S)" by simp
  from Setting_cases [OF p] show ?thesis
    by (simp add: process_loaded_fields)
qed

section \<open>No instance before a successful load\<close>

lemma do_call_keeps_nil:
  assumes "do_call c st = (r, st1)" and "settingsInstance st = None" and "\<not> load_succeeded r"
  shows "settingsInstance st1 = None"
proof (cases c)
  case (Call_Load env)
  with assms(1) obtain lr where l: "Load env st = (lr, st1)" and r: "r = Load_result lr"
    by (cases "Load env st") auto
  from Load_cases [OF l] assms(2,3) r show ?thesis
    by (auto split: outcome.splits sum.splits)
next
  case Call_GetSettings
  with assms show ?thesis by (auto simp add: GetSettings_def)
next
  case (Call_SaveSettings env)
  with assms(1) obtain sr where s: "SaveSettings env st = (sr, st1)"
    by (cases "SaveSettings env st") auto
  from SaveSettings_cases [OF s] assms(2) show ?thesis by simp
next
  case (Call_Setting env)
  with assms(1) obtain sr where s: "Setting env st = (sr, st1)" and r: "r = Setting_result sr"
    by (cases "Setting env st") auto
  note sc = Setting_cases [OF s]
  have l: "Load env st = (fst (Load env st), snd (Load env st))" by simp
  note lc = Load_cases [OF l]
  show ?thesis
  proof (cases "once_done st")
    case True
    with sc assms(2) show ?thesis by simp
  next
    case False
    with sc assms(2,3) r lc show ?thesis
      by (auto split: outcome.splits sum.splits)
  qed
qed

lemma run_keeps_nil:
  "run calls st = (results, st1) \<Longrightarrow> settingsInstance st = None \<Longrightarrow>
     \<forall>r\<in>set results. \<not> load_succeeded r \<Longrightarrow> settingsInstance st1 = None"
proof (induction calls arbitrary: st results st1)
  case Nil
  then show ?case by simp
next
  case (Cons c calls)
  obtain r st0 where d: "do_call c st = (r, st0)" by force
  show ?case
  proof (cases "ends_process r")
    case True
    with d Cons.prems(1) have "results = [r]" and "st1 = st0" by simp_all
    with Cons.prems(2,3) do_call_keeps_nil [OF d] show ?thesis by simp
  next
    case False
    obtain rs st2 where rn: "run calls st0 = (rs, st2)" by force
    with d False Cons.prems(1) have res: "results = r # rs" and st: "st1 = st2" by simp_all
    have "settingsInstance st0 = None"
      using do_call_keeps_nil [OF d] Cons.prems(2,3) res by simp
    from Cons.IH [OF rn this] Cons.prems(3) res st show ?thesis by simp
  qed
qed

lemma SaveSettings_installed:
  "settingsInstance st = Some live \<Longrightarrow> \<exists>e. fst (SaveSettings env st) = Return e"
  by (auto simp add: SaveSettings_def Let_def split: sum.splits prod.splits option.splits)

text \<open>
  C9. From the start of the process, after any sequence of calls of \<open>Load\<close>,
  \<open>GetSettings\<close>, \<open>SaveSettings\<close> and \<open>Setting\<close> in which no \<open>Load\<close> has completed
  successfully, \<open>GetSettings\<close> returns \<open>nil\<close> and \<open>SaveSettings\<close> panics on the
  dereference of \<open>nil\<close>. In a state with an instance installed \<open>GetSettings\<close> returns it
  and \<open>SaveSettings\<close> returns.
\<close>

theorem SaveSettings_requires_Load:
  "(\<forall>results st. run calls (process_start fs) = (results, st)
        \<and> (\<forall>r\<in>set results. \<not> load_succeeded r) \<longrightarrow>
      fst (GetSettings st) = None
      \<and> fst (SaveSettings env st) = Panic ''invalid memory address or nil pointer dereference'')
   \<and> (\<forall>live. settingsInstance st' = Some live \<longrightarrow>
        fst (GetSettings st') = Some live \<and> (\<exists>e. fst (SaveSettings env st') = Return e))
   \<and> fst (GetSettings (process_start fs)) = None"
proof -
  have 1: "\<forall>results st. run calls (process_start fs) = (results, st)
        \<and> (\<forall>r\<in>set results. \<not> load_succeeded r) \<longrightarrow>
      fst (GetSettings st) = None
      \<and> fst (SaveSettings env st) = Panic ''invalid memory address or nil pointer dereference''"
  proof (intro allI impI, elim conjE)
    fix results st
    assume r: "run calls (process_start fs) = (results, st)"
      and n: "\<forall>r\<in>set results. \<not> load_succeeded r"
    have "settingsInstance (process_start fs) = None" by (simp add: process_start_def)
    from run_keeps_nil [OF r this n] have "settingsInstance st = None" .
    then show "fst (GetSettings st) = None
      \<and> fst (SaveSettings env st) = Panic ''invalid memory address or nil pointer dereference''"
      by (simp add: SaveSettings_nil)
  qed
  have 2: "\<forall>live. settingsInstance st' = Some live \<longrightarrow>
        fst (GetSettings st') = Some live \<and> (\<exists>e. fst (SaveSettings env st') = Return e)"
    using SaveSettings_installed by simp
  have 3: "fst (GetSettings (process_start fs)) = None"
    by (simp add: process_start_def)
  from 1 2 3 show ?thesis by blast
qed

section \<open>The example process, saved\<close>

lemma SaveYAMLConfig_example:
  "fst (SaveYAMLConfig save_env_example config_yaml s fs_configured) = (None, [])"
  "file_content (snd (SaveYAMLConfig save_env_example config_yaml s fs_configured)) config_yaml
     = Some (if Debug s then ''debug: true'' else ''debug: false'')"
  "snd (SaveYAMLConfig save_env_example config_yaml s fs_configured) config_tmp = None"
proof -
  let ?d = "if Debug s then ''debug: true'' else ''debug: false''"
  let ?fs0 = "fs_configured(config_tmp \<mapsto> RegularFile [] perm_0o600)"
  have m: "yaml_Marshal save_env_example s = Inr ?d" by simp
  have c: "CreateTemp (createtemp_result save_env_example) (filepath_Dir config_yaml) fs_configured
      = (Inr config_tmp, ?fs0)"
    by (simp add: CreateTemp_example)
  have nd: "\<not> is_directory ?fs0 config_yaml"
    using example_paths(2) fs_configured_at(1)
    by (simp add: is_directory_def) (simp add: config_yaml_def filepath_Join_def)
  have rc: "replace_config save_env_example config_tmp config_yaml ?d ?fs0 =
      (None, (?fs0(config_yaml \<mapsto> RegularFile ?d perm_0o600))(config_tmp := None))"
    using nd example_paths(2)
    by (intro replace_config_renamed) simp_all
  show "fst (SaveYAMLConfig save_env_example config_yaml s fs_configured) = (None, [])"
    unfolding SaveYAMLConfig_unfold [OF m c] rc
    by (simp add: remove_temp_def os_Remove_def)
  show "file_content (snd (SaveYAMLConfig save_env_example config_yaml s fs_configured)) config_yaml
     = Some ?d"
    unfolding SaveYAMLConfig_unfold [OF m c] rc
    using example_paths(2) by (simp add: remove_temp_def os_Remove_def file_content_def)
  show "snd (SaveYAMLConfig save_env_example config_yaml s fs_configured) config_tmp = None"
    unfolding SaveYAMLConfig_unfold [OF m c] rc
    by (simp add: remove_temp_def os_Remove_def)
qed

lemma SaveSettings_example:
  "fst (SaveSettings save_env_example process_loaded) = Return None"
  "file_content (fsys (snd (SaveSettings save_env_example process_loaded))) config_yaml
     = Some ''debug: true''"
proof -
  have f: "FindConfigFile save_env_example (fsys process_loaded) = Inr config_yaml" by simp
  note p = SaveSettings_persists [OF process_loaded_fields(1) f]
  have d: "Debug (settings_copy settings_warned)"
    by (simp add: settings_copy_eq settings_warned_def Settings_zero_def)
  show "fst (SaveSettings save_env_example process_loaded) = Return None"
    using p(2) by (simp add: process_loaded_fields SaveYAMLConfig_example)
  show "file_content (fsys (snd (SaveSettings save_env_example process_loaded))) config_yaml
     = Some ''debug: true''"
    using p(1) d by (simp add: process_loaded_fields SaveYAMLConfig_example)
qed

lemma run_calls_without_load:
  "fst (run calls_without_load (process_start fs_configured)) =
     [GetSettings_result None,
      Load_result (Return (Inl (Build
        (ValidationError [''using fallback en-uk'', ''latitude out of range''])
        CategoryValidation
        [(''component'', ''settings''), (''error_msg'', ''latitude out of range'')]))),
      SaveSettings_result (Panic ''invalid memory address or nil pointer dereference'')]"
proof -
  let ?st0 = "process_start fs_configured"
  let ?st1 = "snd (GetSettings ?st0)"
  let ?L = "Load (env_example validate_rejects) ?st1"
  have f1: "fsys ?st1 config_yaml = Some (RegularFile ''debug: true'' perm_0o600)"
    by (simp add: GetSettings_def fs_configured_at)
  note r = Load_example_rejects [OF f1]
  have n: "settingsInstance (snd ?L) = None" using r(2) by simp
  show ?thesis
    by (simp add: calls_without_load_def case_prod_beta r(1) SaveSettings_nil [OF n])
qed

theorem SaveSettings_requires_Load_witness:
  "fst (GetSettings (snd (run calls_without_load (process_start fs_configured)))) = None
   \<and> fst (SaveSettings save_env_example (snd (run calls_without_load (process_start fs_configured))))
       = Panic ''invalid memory address or nil pointer dereference''
   \<and> fst (GetSettings process_loaded) = Some settings_warned
   \<and> fst (SaveSettings save_env_example process_loaded) = Return None"
proof -
  let ?R = "run calls_without_load (process_start fs_configured)"
  have p: "?R = (fst ?R, snd ?R)" by simp
  have n: "\<forall>r\<in>set (fst ?R). \<not> load_succeeded r"
    by (simp add: run_calls_without_load)
  note t = SaveSettings_requires_Load
    [of calls_without_load fs_configured save_env_example process_loaded]
  have a: "fst (GetSettings (snd ?R)) = None
      \<and> fst (SaveSettings save_env_example (snd ?R))
          = Panic ''invalid memory address or nil pointer dereference''"
    using t p n by blast
  have b: "fst (GetSettings process_loaded) = Some settings_warned"
    using t process_loaded_fields(1) by blast
  from a b SaveSettings_example(1) show ?thesis by blast
qed

end
